theory Spec2Isabelle
  imports Complex_Main "HOL-Library.Sublist"
begin

section \<open>Common conventions\<close>

text \<open>
  The tools are event handlers of a desktop GIS plugin.  Each handler is embedded as
  a function that takes the values read from the widgets and the outcomes of the host
  calls it makes, and returns what it leaves behind: the dialogs shown, the state of
  its controls, the log and the exception that leaves the handler, if any.
  A Python exception is the value \<open>Inl msg\<close> of a sum type, where \<open>msg\<close> is the
  text \<open>str(e)\<close> of the exception.  A Python string is a list with one \<open>char\<close> per
  character; the texts written by the program itself use code points below 256 only.
\<close>

type_synonym exn = string

datatype dialog_kind = Information | Warning | Critical | Question

type_synonym dialog = "dialog_kind \<times> string \<times> string"

section \<open>Layer renamer (\<open>layer_renamer.py\<close>)\<close>

subsection \<open>Python's \<open>str.replace\<close>\<close>

text \<open>
  \<open>s.replace(old, new)\<close> replaces the non-overlapping occurrences of \<open>old\<close>, scanning from
  the left.  For an empty \<open>old\<close> Python inserts \<open>new\<close> before every character and at
  the end.
\<close>

function replace_str :: "string \<Rightarrow> string \<Rightarrow> string \<Rightarrow> string" where
  "replace_str old new s =
     (if old = [] then new @ concat (map (\<lambda>c. c # new) s)
      else if s = [] then []
      else if take (length old) s = old
        then new @ replace_str old new (drop (length old) s)
      else hd s # replace_str old new (tl s))"
  by pat_completeness auto
termination
  by (relation "measure (\<lambda>(old, new, s). length s)") auto

declare replace_str.simps [simp del]

subsection \<open>The name computed for one layer\<close>

text \<open>
  Lines 183-210 of \<open>rename_layers\<close>.  \<open>remove_left\<close> and \<open>remove_right\<close> are the
  results of \<open>int(...)\<close> on the two text fields, so they may be negative.
\<close>

definition rename_layers_new_name ::
  "int \<Rightarrow> int \<Rightarrow> string \<Rightarrow> string \<Rightarrow> string \<Rightarrow> string \<Rightarrow> string \<Rightarrow> string" where
  "rename_layers_new_name remove_left remove_right search_text replace_text pre suf old_name =
     (let new_name = old_name;
          new_name = (if remove_left > 0
                      then (if int (length new_name) > remove_left
                            then drop (nat remove_left) new_name else [])
                      else new_name);
          new_name = (if remove_right > 0 \<and> new_name \<noteq> []
                      then (if int (length new_name) > remove_right
                            then take (length new_name - nat remove_right) new_name else [])
                      else new_name);
          new_name = (if search_text \<noteq> [] \<and> new_name \<noteq> []
                      then replace_str search_text replace_text new_name
                      else new_name);
          new_name = (if pre \<noteq> [] then pre @ new_name else new_name);
          new_name = (if suf \<noteq> [] then new_name @ suf else new_name)
      in new_name)"

subsection \<open>Layers, and one iteration of the loop\<close>

text \<open>
  A layer of the list widget is a reference to a host object.  The host may have
  deleted the object since the list was filled; every method of such a wrapper raises
  \<open>RuntimeError\<close>.
\<close>

record rl_layer =
  name_text :: string
  deleted :: bool

definition deleted_msg :: exn where
  "deleted_msg = ''wrapped C/C++ object has been deleted''"

definition name_of :: "rl_layer \<Rightarrow> exn + string" where
  "name_of l = (if deleted l then Inl deleted_msg else Inr (name_text l))"

definition setName :: "rl_layer \<Rightarrow> string \<Rightarrow> exn + rl_layer" where
  "setName l n = (if deleted l then Inl deleted_msg else Inr (l\<lparr>name_text := n\<rparr>))"

record rl_acc =
  layers_done :: "rl_layer list"
  renamed_layers :: "string list"
  error_layers :: "string list"

text \<open>
  The \<open>except Exception\<close> clause of the loop body: it formats the error with
  \<open>layer.name()\<close>, which is itself a host call outside any \<open>try\<close>.
\<close>

definition rename_except :: "rl_layer \<Rightarrow> exn \<Rightarrow> rl_acc \<Rightarrow> exn + rl_acc" where
  "rename_except layer e acc =
     (case name_of layer of
        Inl e' \<Rightarrow> Inl e'
      | Inr n \<Rightarrow> Inr (acc\<lparr>layers_done := layers_done acc @ [layer],
                          error_layers := error_layers acc @ [n @ '' ('' @ e @ '')'']\<rparr>))"

definition rename_one ::
  "int \<Rightarrow> int \<Rightarrow> string \<Rightarrow> string \<Rightarrow> string \<Rightarrow> string \<Rightarrow> rl_layer \<Rightarrow> rl_acc \<Rightarrow> exn + rl_acc" where
  "rename_one remove_left remove_right search_text replace_text pre suf layer acc =
     (case name_of layer of
        Inl e \<Rightarrow> rename_except layer e acc
      | Inr old_name \<Rightarrow>
          (let new_name = rename_layers_new_name remove_left remove_right
                            search_text replace_text pre suf old_name
           in if new_name = []
              then Inr (acc\<lparr>layers_done := layers_done acc @ [layer],
                            error_layers := error_layers acc
                               @ [old_name @ '' (nome risultante vuoto)'']\<rparr>)
              else (case setName layer new_name of
                      Inl e \<Rightarrow> rename_except layer e acc
                    | Inr layer' \<Rightarrow>
                        Inr (acc\<lparr>layers_done := layers_done acc @ [layer'],
                                 renamed_layers := renamed_layers acc
                                    @ [old_name @ '' -> '' @ new_name]\<rparr>))))"

text \<open>
  The loop over the selected layers.  The first component is the exception that leaves
  the loop, if any.  The layers renamed before it stay renamed; the layer at hand and
  those after it are as they were, and \<open>layers_done\<close> then holds all of them.
\<close>

fun rename_loop ::
  "int \<Rightarrow> int \<Rightarrow> string \<Rightarrow> string \<Rightarrow> string \<Rightarrow> string \<Rightarrow> rl_layer list \<Rightarrow> rl_acc
     \<Rightarrow> exn option \<times> rl_acc" where
  "rename_loop rl rr st rt pre suf [] acc = (None, acc)"
| "rename_loop rl rr st rt pre suf (layer # rest) acc =
     (case rename_one rl rr st rt pre suf layer acc of
        Inl e \<Rightarrow> (Some e, acc\<lparr>layers_done := layers_done acc @ layer # rest\<rparr>)
      | Inr acc' \<Rightarrow> rename_loop rl rr st rt pre suf rest acc')"

subsection \<open>The renaming rule in the words of the specification\<close>

definition spec_remove_left :: "int \<Rightarrow> string \<Rightarrow> string" where
  "spec_remove_left n s = (if int (length s) > n then drop (nat n) s else [])"

definition spec_remove_right :: "int \<Rightarrow> string \<Rightarrow> string" where
  "spec_remove_right n s = (if int (length s) > n then take (length s - nat n) s else [])"

definition spec_replace :: "string \<Rightarrow> string \<Rightarrow> string \<Rightarrow> string" where
  "spec_replace search_text replace_text s =
     (if search_text = [] then s else replace_str search_text replace_text s)"

definition spec_new_name ::
  "int \<Rightarrow> int \<Rightarrow> string \<Rightarrow> string \<Rightarrow> string \<Rightarrow> string \<Rightarrow> string \<Rightarrow> string" where
  "spec_new_name remove_left remove_right search_text replace_text pre suf old_name =
     (pre @ spec_replace search_text replace_text
              (spec_remove_right remove_right (spec_remove_left remove_left old_name))) @ suf"

section \<open>Feature excluder (\<open>feature_excluder.py\<close>)\<close>

subsection \<open>Data\<close>

text \<open>
  Geometry objects are mutable host objects (\<open>geom.transform(t)\<close> changes the object it
  is called on), so they live in a store: a list of geometry values indexed by address.
  \<open>feature.geometry()\<close> yields the address of the feature's geometry, the least
  favourable reading for the layers; \<open>QgsGeometry(geom)\<close> allocates a copy at a fresh
  address.  The value of a join field is \<open>None\<close> for NULL.
\<close>

type_synonym fid = int

type_synonym addr = nat

record 'v feature =
  fid :: fid
  attrs :: "string \<Rightarrow> 'v option"
  geometry :: addr

record 'v layer =
  crs_authid :: string
  getFeatures :: "'v feature list"

text \<open>The host's primitives: string conversion of attribute values and geometry operations.\<close>

record ('g, 'v) host =
  to_str :: "'v \<Rightarrow> string"
  lower :: "string \<Rightarrow> string"
  isNull :: "'g \<Rightarrow> bool"
  isEmpty :: "'g \<Rightarrow> bool"
  transform :: "string \<Rightarrow> string \<Rightarrow> 'g \<Rightarrow> exn + 'g"
  buffer :: "'g \<Rightarrow> real \<Rightarrow> nat \<Rightarrow> 'g"
  intersects :: "'g \<Rightarrow> 'g \<Rightarrow> bool"
  contains :: "'g \<Rightarrow> 'g \<Rightarrow> bool"
  equals :: "'g \<Rightarrow> 'g \<Rightarrow> bool"
  distance :: "'g \<Rightarrow> 'g \<Rightarrow> real"

definition metric_crs :: string where
  "metric_crs = ''EPSG:32632''"

text \<open>
  The local variables of the analysis.  \<open>compared\<close> is not a variable of the source: it
  records, in order, the pairs of geometry values on which a comparison was evaluated.
\<close>

record 'g analysis =
  heap :: "'g list"
  match_features :: "string \<rightharpoonup> fid"
  match_geometries :: "fid \<rightharpoonup> addr"
  spatial_index :: "fid list"
  features_to_delete :: "fid list"
  features_with_different_geom :: "fid list"
  compared :: "('g \<times> 'g) list"

definition initial_analysis :: "'g list \<Rightarrow> 'g analysis" where
  "initial_analysis h =
     \<lparr>heap = h, match_features = Map.empty, match_geometries = Map.empty,
      spatial_index = [], features_to_delete = [], features_with_different_geom = [],
      compared = []\<rparr>"

subsection \<open>Key of a join value, and the metric copy of a geometry\<close>

definition join_key :: "('g, 'v) host \<Rightarrow> bool \<Rightarrow> 'v \<Rightarrow> string" where
  "join_key host case_sensitive v =
     (let value = to_str host v
      in if \<not> case_sensitive then lower host value else value)"

text \<open>
  \<open>geom = QgsGeometry(geom); geom.transform(t)\<close> when a transformation is needed:
  the copy is allocated, then changed in place.  The result is the address to use and the
  new store; an exception of the transformation leaves with the store as it is then.
\<close>

definition to_metric ::
  "('g, 'v) host \<Rightarrow> bool \<Rightarrow> string \<Rightarrow> addr \<Rightarrow> 'g list \<Rightarrow> (exn \<times> 'g list) + (addr \<times> 'g list)" where
  "to_metric host need_transform crs geom h =
     (if need_transform
      then (let copy = length h;
                h1 = h @ [h ! geom]
            in case transform host crs metric_crs (h1 ! copy) of
                 Inl e \<Rightarrow> Inl (e, h1)
               | Inr g \<Rightarrow> Inr (copy, h1[copy := g]))
      else Inr (geom, h))"

subsection \<open>The first loop: the lookup of the comparison layer\<close>

definition match_loop_body ::
  "('g, 'v) host \<Rightarrow> bool \<Rightarrow> bool \<Rightarrow> bool \<Rightarrow> string \<Rightarrow> string \<Rightarrow> 'v feature
     \<Rightarrow> 'g analysis \<Rightarrow> (exn \<times> 'g list) + 'g analysis" where
  "match_loop_body host case_sensitive check_geometry need_transform_match match_crs
       match_field_name feature st =
     (case attrs feature match_field_name of
        None \<Rightarrow> Inr st
      | Some match_value \<Rightarrow>
          (let st1 = st\<lparr>match_features :=
                         (match_features st)(join_key host case_sensitive match_value
                                               \<mapsto> fid feature)\<rparr>
           in if check_geometry
              then (let geom = geometry feature
                    in if \<not> isNull host (heap st1 ! geom) \<and> \<not> isEmpty host (heap st1 ! geom)
                       then (case to_metric host need_transform_match match_crs geom (heap st1) of
                               Inl x \<Rightarrow> Inl x
                             | Inr (geom', h') \<Rightarrow>
                                 Inr (st1\<lparr>heap := h',
                                         match_geometries :=
                                           (match_geometries st1)(fid feature \<mapsto> geom'),
                                         spatial_index :=
                                           (if \<not> need_transform_match
                                            then spatial_index st1 @ [fid feature]
                                            else spatial_index st1)\<rparr>))
                       else Inr st1)
              else Inr st1))"

fun match_loop ::
  "('g, 'v) host \<Rightarrow> bool \<Rightarrow> bool \<Rightarrow> bool \<Rightarrow> string \<Rightarrow> string \<Rightarrow> 'v feature list
     \<Rightarrow> 'g analysis \<Rightarrow> (exn \<times> 'g list) + 'g analysis" where
  "match_loop host cs cg ntm crs fld [] st = Inr st"
| "match_loop host cs cg ntm crs fld (feature # rest) st =
     (case match_loop_body host cs cg ntm crs fld feature st of
        Inl x \<Rightarrow> Inl x
      | Inr st' \<Rightarrow> match_loop host cs cg ntm crs fld rest st')"

subsection \<open>The comparison of two geometries\<close>

definition is_different ::
  "('g, 'v) host \<Rightarrow> real \<Rightarrow> string \<Rightarrow> 'g \<Rightarrow> 'g \<Rightarrow> bool" where
  "is_different host tolerance spatial_relation source_geom match_geom =
     (if tolerance \<le> 0 then \<not> equals host source_geom match_geom
      else if spatial_relation = ''intersects''
        then (let source_buffer = buffer host source_geom tolerance 5;
                  match_buffer = buffer host match_geom tolerance 5;
                  source_intersects_match = intersects host source_geom match_buffer;
                  match_intersects_source = intersects host match_geom source_buffer
              in \<not> (source_intersects_match \<or> match_intersects_source))
      else if spatial_relation = ''contains''
        then (let source_buffer = buffer host source_geom tolerance 5
              in \<not> contains host source_buffer match_geom)
      else distance host source_geom match_geom > tolerance)"

subsection \<open>The second loop: the features of the source layer\<close>

definition source_loop_body ::
  "('g, 'v) host \<Rightarrow> bool \<Rightarrow> bool \<Rightarrow> bool \<Rightarrow> string \<Rightarrow> string \<Rightarrow> real \<Rightarrow> string
     \<Rightarrow> 'v feature \<Rightarrow> 'g analysis \<Rightarrow> (exn \<times> 'g list) + 'g analysis" where
  "source_loop_body host case_sensitive check_geometry need_transform_source source_crs
       source_field_name tolerance spatial_relation source_feature st =
     (case attrs source_feature source_field_name of
        None \<Rightarrow> Inr st
      | Some source_value \<Rightarrow>
          (case match_features st (join_key host case_sensitive source_value) of
             None \<Rightarrow> Inr st
           | Some match_id \<Rightarrow>
               (let st1 = st\<lparr>features_to_delete :=
                              features_to_delete st @ [fid source_feature]\<rparr>
                in if check_geometry
                   then (let source_geom = geometry source_feature
                         in if \<not> isNull host (heap st1 ! source_geom)
                                 \<and> \<not> isEmpty host (heap st1 ! source_geom)
                            then (case to_metric host need_transform_source source_crs
                                         source_geom (heap st1) of
                                    Inl x \<Rightarrow> Inl x
                                  | Inr (source_geom', h') \<Rightarrow>
                                      (let st2 = st1\<lparr>heap := h'\<rparr>
                                       in case match_geometries st2 match_id of
                                            None \<Rightarrow> Inr st2
                                          | Some match_geom \<Rightarrow>
                                              if \<not> isNull host (h' ! match_geom)
                                              then (let different =
                                                          is_different host tolerance
                                                            spatial_relation
                                                            (h' ! source_geom') (h' ! match_geom);
                                                        st3 = st2\<lparr>compared := compared st2
                                                                @ [(h' ! source_geom',
                                                                    h' ! match_geom)]\<rparr>
                                                    in if different
                                                       then Inr (st3\<lparr>features_with_different_geom :=
                                                                   features_with_different_geom st3
                                                                   @ [fid source_feature]\<rparr>)
                                                       else Inr st3)
                                              else Inr st2))
                            else Inr st1)
                   else Inr st1)))"

fun source_loop ::
  "('g, 'v) host \<Rightarrow> bool \<Rightarrow> bool \<Rightarrow> bool \<Rightarrow> string \<Rightarrow> string \<Rightarrow> real \<Rightarrow> string
     \<Rightarrow> 'v feature list \<Rightarrow> 'g analysis \<Rightarrow> (exn \<times> 'g list) + 'g analysis" where
  "source_loop host cs cg nts crs fld tol rel [] st = Inr st"
| "source_loop host cs cg nts crs fld tol rel (source_feature # rest) st =
     (case source_loop_body host cs cg nts crs fld tol rel source_feature st of
        Inl x \<Rightarrow> Inl x
      | Inr st' \<Rightarrow> source_loop host cs cg nts crs fld tol rel rest st')"

subsection \<open>The analysis part of \<open>exclude_features\<close> (lines 324-477)\<close>

definition analyse ::
  "('g, 'v) host \<Rightarrow> bool \<Rightarrow> bool \<Rightarrow> real \<Rightarrow> string \<Rightarrow> 'v layer \<Rightarrow> string \<Rightarrow> 'v layer \<Rightarrow> string
     \<Rightarrow> 'g list \<Rightarrow> (exn \<times> 'g list) + 'g analysis" where
  "analyse host case_sensitive check_geometry tolerance spatial_relation
       source_layer source_field_name match_layer match_field_name h =
     (let source_crs = crs_authid source_layer;
          match_crs = crs_authid match_layer;
          need_transform_source = (check_geometry \<and> source_crs \<noteq> ''EPSG:32632'');
          need_transform_match = (check_geometry \<and> match_crs \<noteq> ''EPSG:32632'')
      in case match_loop host case_sensitive check_geometry need_transform_match match_crs
                match_field_name (getFeatures match_layer) (initial_analysis h) of
           Inl x \<Rightarrow> Inl x
         | Inr st \<Rightarrow>
             source_loop host case_sensitive check_geometry need_transform_source source_crs
               source_field_name tolerance spatial_relation (getFeatures source_layer) st)"

subsection \<open>Vocabulary of the statements about the analysis\<close>

text \<open>
  \<open>metric_of host need crs g g'\<close>: \<open>g'\<close> is the geometry value that takes part in a
  comparison for the layer geometry \<open>g\<close>, namely its image under the transformation to
  EPSG:32632 when one is needed, and \<open>g\<close> itself otherwise.
\<close>

definition metric_of :: "('g, 'v) host \<Rightarrow> bool \<Rightarrow> string \<Rightarrow> 'g \<Rightarrow> 'g \<Rightarrow> bool" where
  "metric_of host need_transform crs g g' =
     (if need_transform then transform host crs metric_crs g = Inr g' else g' = g)"

text \<open>
  A small host for concrete instances: geometries are closed integer intervals
  \<open>(lo, hi)\<close> on a line, empty when \<open>hi < lo\<close>; attribute values are strings.
\<close>

definition interval_lower :: "string \<Rightarrow> string" where
  "interval_lower s =
     map (\<lambda>c. if c = CHR ''A'' then CHR ''a'' else if c = CHR ''B'' then CHR ''b'' else c) s"

definition interval_host :: "(int \<times> int, string) host" where
  "interval_host =
     \<lparr>to_str = (\<lambda>v. v),
      lower = interval_lower,
      isNull = (\<lambda>g. False),
      isEmpty = (\<lambda>g. snd g < fst g),
      transform = (\<lambda>src dst g. if src = ''EPSG:4326'' \<and> dst = ''EPSG:32632''
                                 then Inr (fst g * 100, snd g * 100)
                                 else Inl ''no transformation''),
      buffer = (\<lambda>g d n. (fst g - \<lfloor>d\<rfloor>, snd g + \<lfloor>d\<rfloor>)),
      intersects = (\<lambda>a b. max (fst a) (fst b) \<le> min (snd a) (snd b)),
      contains = (\<lambda>a b. fst a \<le> fst b \<and> snd b \<le> snd a),
      equals = (\<lambda>a b. a = b),
      distance = (\<lambda>a b. of_int (max 0 (max (fst a) (fst b) - min (snd a) (snd b))))\<rparr>"

definition feature_key :: "('g, 'v) host \<Rightarrow> bool \<Rightarrow> string \<Rightarrow> 'v feature \<Rightarrow> string option" where
  "feature_key host case_sensitive field_name f =
     map_option (join_key host case_sensitive) (attrs f field_name)"

text \<open>
  Two small layers over the interval host.  The comparison layer is in EPSG:32632 and has
  two features whose keys agree once lowercased, and one with a NULL join value; the
  source layer is in EPSG:4326.
\<close>

definition example_heap :: "(int \<times> int) list" where
  "example_heap = [(0, 1000), (5000, 6000), (5000, 6000), (0, 10)]"

definition example_match_layer :: "string layer" where
  "example_match_layer =
     \<lparr>crs_authid = ''EPSG:32632'',
      getFeatures = [\<lparr>fid = 1, attrs = (\<lambda>n. Some ''A''), geometry = 0\<rparr>,
                     \<lparr>fid = 2, attrs = (\<lambda>n. None), geometry = 1\<rparr>,
                     \<lparr>fid = 3, attrs = (\<lambda>n. Some ''a''), geometry = 2\<rparr>]\<rparr>"

definition example_source_layer :: "string layer" where
  "example_source_layer =
     \<lparr>crs_authid = ''EPSG:4326'',
      getFeatures = [\<lparr>fid = 10, attrs = (\<lambda>n. Some ''a''), geometry = 3\<rparr>,
                     \<lparr>fid = 11, attrs = (\<lambda>n. None), geometry = 3\<rparr>]\<rparr>"

section \<open>Geoprocessing model (\<open>overlaps_counter.py\<close>)\<close>

text \<open>
  Values of the parameter dictionaries handed to the child algorithms.
\<close>

datatype pval = S string | B bool | I int | R real | L "pval list" | D "(string \<times> pval) list"

type_synonym alg_params = "(string \<times> pval) list"

definition TEMPORARY_OUTPUT :: pval where
  "TEMPORARY_OUTPUT = S ''TEMPORARY_OUTPUT''"

text \<open>
  \<open>parameters[key]\<close>: a missing key raises \<open>KeyError(key)\<close>, whose text is
  \<open>repr(key)\<close>.  The keys of the model are plain identifiers, for which that is the key
  between single quotes.
\<close>

definition param :: "(string \<rightharpoonup> pval) \<Rightarrow> string \<Rightarrow> exn + pval" where
  "param parameters key =
     (case parameters key of
        None \<Rightarrow> Inl ([CHR 0x27] @ key @ [CHR 0x27])
      | Some v \<Rightarrow> Inr v)"

text \<open>
  \<open>processing.run(alg, alg_params, ...)\<close> is a host call: \<open>run alg alg_params\<close> is
  either the exception it raises or the \<open>OUTPUT\<close> entry of its result.  The first
  component of every result below lists the child algorithms started so far, with their
  parameters, in order.  \<open>isCanceled k\<close> is what \<open>feedback.isCanceled()\<close> answers
  after \<open>feedback.setCurrentStep(k)\<close>.
\<close>

type_synonym child_runner = "string \<Rightarrow> alg_params \<Rightarrow> exn + pval"

type_synonym 'a model_result = "(string \<times> alg_params) list \<times> (exn + 'a)"

definition run_child ::
  "child_runner \<Rightarrow> (string \<times> alg_params) list \<Rightarrow> string \<Rightarrow> alg_params \<Rightarrow> pval model_result" where
  "run_child run started alg alg_params = (started @ [(alg, alg_params)], run alg alg_params)"

definition buffer_cavi_params :: "pval \<Rightarrow> alg_params" where
  "buffer_cavi_params cavi =
     [(''DISSOLVE'', B False), (''DISTANCE'', R (1 / 10000000)), (''END_CAP_STYLE'', I 0),
      (''INPUT'', cavi), (''JOIN_STYLE'', I 0), (''MITER_LIMIT'', I 2), (''SEGMENTS'', I 5),
      (''OUTPUT'', TEMPORARY_OUTPUT)]"

definition field_calculator_params :: "string \<Rightarrow> string \<Rightarrow> pval \<Rightarrow> pval \<Rightarrow> alg_params" where
  "field_calculator_params field_name formula input output =
     [(''FIELD_LENGTH'', I 10), (''FIELD_NAME'', S field_name), (''FIELD_PRECISION'', I 0),
      (''FIELD_TYPE'', I 1), (''FORMULA'', S formula), (''INPUT'', input),
      (''OUTPUT'', output)]"

definition fix_geometries_params :: "pval \<Rightarrow> alg_params" where
  "fix_geometries_params infrastruttura =
     [(''INPUT'', infrastruttura), (''METHOD'', I 1), (''OUTPUT'', TEMPORARY_OUTPUT)]"

definition join_params :: "pval \<Rightarrow> pval \<Rightarrow> alg_params" where
  "join_params input join =
     [(''DISCARD_NONMATCHING'', B False), (''INPUT'', input), (''JOIN'', join),
      (''JOIN_FIELDS'', L [S ''id_cav'']), (''METHOD'', I 0), (''PREDICATE'', L [I 1, I 5, I 4]),
      (''PREFIX'', S []), (''OUTPUT'', TEMPORARY_OUTPUT)]"

definition aggregate_params :: "pval \<Rightarrow> alg_params" where
  "aggregate_params input =
     [(''AGGREGATES'',
         L [D [(''aggregate'', S ''first_value''), (''delimiter'', S '',''),
               (''input'', S ''\"id_infr\"''), (''length'', I 20), (''name'', S ''id_layer1''),
               (''precision'', I 0), (''sub_type'', I 0), (''type'', I 6),
               (''type_name'', S ''double precision'')],
            D [(''aggregate'', S ''concatenate''), (''delimiter'', S '',''),
               (''input'', S ''to_string(\"id_cav\")''), (''length'', I 254),
               (''name'', S ''id_layer2''), (''precision'', I 0), (''sub_type'', I 0),
               (''type'', I 10), (''type_name'', S ''text'')]]),
      (''GROUP_BY'', S ''id_infr''), (''INPUT'', input), (''OUTPUT'', TEMPORARY_OUTPUT)]"

definition processAlgorithm ::
  "(string \<rightharpoonup> pval) \<Rightarrow> child_runner \<Rightarrow> (nat \<Rightarrow> bool) \<Rightarrow> alg_params model_result" where
  "processAlgorithm parameters run isCanceled =
     (case param parameters ''cavi_4326'' of
        Inl e \<Rightarrow> ([], Inl e)
      | Inr cavi \<Rightarrow>
     (case run_child run [] ''native:buffer'' (buffer_cavi_params cavi) of
        (t1, Inl e) \<Rightarrow> (t1, Inl e)
      | (t1, Inr BufferCavi) \<Rightarrow>
     if isCanceled 1 then (t1, Inr []) else
     (case run_child run t1 ''native:fieldcalculator''
             (field_calculator_params ''id_cav'' ''@row_number'' BufferCavi TEMPORARY_OUTPUT) of
        (t2, Inl e) \<Rightarrow> (t2, Inl e)
      | (t2, Inr IdProgressivoCavi) \<Rightarrow>
     if isCanceled 2 then (t2, Inr []) else
     (case param parameters ''infrastruttura_4326'' of
        Inl e \<Rightarrow> (t2, Inl e)
      | Inr infrastruttura \<Rightarrow>
     (case run_child run t2 ''native:fixgeometries'' (fix_geometries_params infrastruttura) of
        (t3, Inl e) \<Rightarrow> (t3, Inl e)
      | (t3, Inr RiparaGeometrieInfrastruttura) \<Rightarrow>
     if isCanceled 3 then (t3, Inr []) else
     (case run_child run t3 ''native:fieldcalculator''
             (field_calculator_params ''id_infr'' ''@row_number''
                RiparaGeometrieInfrastruttura TEMPORARY_OUTPUT) of
        (t4, Inl e) \<Rightarrow> (t4, Inl e)
      | (t4, Inr IdProgressivoInfrastruttura) \<Rightarrow>
     if isCanceled 4 then (t4, Inr []) else
     (case run_child run t4 ''native:joinattributesbylocation''
             (join_params IdProgressivoInfrastruttura IdProgressivoCavi) of
        (t5, Inl e) \<Rightarrow> (t5, Inl e)
      | (t5, Inr AssociaId_cavSullinfrastruttura) \<Rightarrow>
     if isCanceled 5 then (t5, Inr []) else
     (case run_child run t5 ''native:aggregate''
             (aggregate_params AssociaId_cavSullinfrastruttura) of
        (t6, Inl e) \<Rightarrow> (t6, Inl e)
      | (t6, Inr AggregaPerIdDellinfrastruttura) \<Rightarrow>
     if isCanceled 6 then (t6, Inr []) else
     (case param parameters ''InfrastrutturaConNcavi'' of
        Inl e \<Rightarrow> (t6, Inl e)
      | Inr sink \<Rightarrow>
     (case run_child run t6 ''native:fieldcalculator''
             (field_calculator_params ''n_overlaps''
                ''array_length(string_to_array(\"id_layer2\", ','))''
                AggregaPerIdDellinfrastruttura sink) of
        (t7, Inl e) \<Rightarrow> (t7, Inl e)
      | (t7, Inr CampoNumeroCaviSovrapposti) \<Rightarrow>
          (t7, Inr [(''InfrastrutturaConNcavi'', CampoNumeroCaviSovrapposti)])))))))))))"

text \<open>The seven child algorithms of the model, in the order of the source.\<close>

definition model_steps :: "string list" where
  "model_steps =
     [''native:buffer'', ''native:fieldcalculator'', ''native:fixgeometries'',
      ''native:fieldcalculator'', ''native:joinattributesbylocation'', ''native:aggregate'',
      ''native:fieldcalculator'']"

section \<open>Batch converter (\<open>batch_converter.py\<close>)\<close>

subsection \<open>Strings and paths\<close>

text \<open>
  \<open>str.strip()\<close> removes the characters for which \<open>str.isspace\<close> holds from both
  ends.  Below code point 256 these are the space, \<open>0x09\<close> to \<open>0x0D\<close>, \<open>0x1C\<close> to
  \<open>0x1F\<close>, \<open>0x85\<close> and \<open>0xA0\<close>.
\<close>

definition is_space :: "char \<Rightarrow> bool" where
  "is_space c = (c \<in> set [CHR '' '', CHR 0x09, CHR 0x0A, CHR 0x0B, CHR 0x0C, CHR 0x0D,
                            CHR 0x1C, CHR 0x1D, CHR 0x1E, CHR 0x1F, CHR 0x85, CHR 0xA0])"

definition strip :: "string \<Rightarrow> string" where
  "strip s = rev (dropWhile is_space (rev (dropWhile is_space s)))"

fun join :: "string \<Rightarrow> string list \<Rightarrow> string" where
  "join sep [] = []"
| "join sep [x] = x"
| "join sep (x # y # xs) = x @ sep @ join sep (y # xs)"

definition slashes :: "string \<Rightarrow> string" where
  "slashes path = replace_str [CHR 0x5C] ''/'' path"

text \<open>
  \<open>os.path.dirname\<close> and \<open>os.path.join\<close> of two parts, for paths written with \<open>/\<close>
  (\<open>posixpath\<close>).  A second part that starts with \<open>/\<close> replaces the first.
\<close>

definition dirname :: "string \<Rightarrow> string" where
  "dirname path =
     (let head = rev (dropWhile (\<lambda>c. c \<noteq> CHR ''/'') (rev path))
      in if head \<noteq> [] \<and> \<not> (\<forall>c \<in> set head. c = CHR ''/'')
         then rev (dropWhile (\<lambda>c. c = CHR ''/'') (rev head))
         else head)"

definition path_join :: "string \<Rightarrow> string \<Rightarrow> string" where
  "path_join a b =
     (if take 1 b = ''/'' then b
      else if a = [] \<or> last a = CHR ''/'' then a @ b
      else a @ ''/'' @ b)"

subsection \<open>Host calls and their outcomes\<close>

text \<open>
  Everything the converter does goes through the host, the file system or a subprocess.
  A run of a function is determined by the answers it gets, so each function takes a
  record of these answers, one field per call site, and returns the calls it made, in
  order, next to its result.  A subprocess and a processing algorithm are recorded with
  the name of the function of the source that started them.
\<close>

datatype proc_outcome = Spawn_error exn | Exited int string

datatype write_error = Error_tuple int string | Error_code int

datatype action =
    Log nat string
  | Makedirs string
  | Remove string
  | Popen string "string list"
  | Sanitize string
  | Write_vector string string
  | Processing_run string string string string
  | Set_status nat string "string option"

definition NoError :: int where
  "NoError = 0"

record mapinfo_env =
  reproject :: bool
  srid :: string
  makedirs :: "exn option"
  stale_temp :: bool
  direct_ogr :: proc_outcome
  direct_output_exists :: bool
  input_valid :: bool
  sanitize :: "exn + bool \<times> nat"
  sanitize_log :: "string list"
  write_geojson :: "exn + write_error"
  geojson_written :: bool
  geojson_valid :: bool
  processing :: "exn option"
  processing_output_exists :: bool
  temp_exists_after_processing :: bool
  remove_after_processing :: "exn option"
  temp_exists_for_ogr :: bool
  temp_exists_in_ogr :: bool
  geojson_ogr :: proc_outcome
  geojson_output_exists :: bool
  temp_exists_on_error :: bool

subsection \<open>The two \<open>ogr2ogr\<close> helpers\<close>

definition t_srs :: "mapinfo_env \<Rightarrow> string list" where
  "t_srs env = (if reproject env then [''-t_srs'', ''EPSG:'' @ srid env] else [])"

definition convert_to_mapinfo_with_ogr ::
  "mapinfo_env \<Rightarrow> string \<Rightarrow> string \<Rightarrow> action list \<times> bool" where
  "convert_to_mapinfo_with_ogr env input_file output_file =
     (let command = [''ogr2ogr'', ''-f'', ''MapInfo File'', ''-skipfailures'']
                      @ t_srs env @ [output_file, input_file];
          started = [Log 0 (''Tentativo di conversione con ogr2ogr: '' @ join '' '' command),
                     Popen ''_convert_to_mapinfo_with_ogr'' command]
      in case direct_ogr env of
           Spawn_error e \<Rightarrow>
             (started @ [Log 2 (''Errore nel fallback ogr2ogr per MapInfo: '' @ e)], False)
         | Exited returncode stderr \<Rightarrow>
             if returncode \<noteq> 0
             then (started @ [Log 2 (''Errore ogr2ogr per MapInfo: '' @ strip stderr)], False)
             else (started, direct_output_exists env))"

definition py_bool :: "bool \<Rightarrow> string" where
  "py_bool b = (if b then ''True'' else ''False'')"

definition convert_temp_geojson_to_mapinfo_with_ogr ::
  "mapinfo_env \<Rightarrow> string \<Rightarrow> string \<Rightarrow> action list \<times> bool" where
  "convert_temp_geojson_to_mapinfo_with_ogr env temp_geojson output_file =
     (if \<not> temp_exists_in_ogr env
      then ([Log 2 (''File temporaneo GeoJSON non trovato: '' @ temp_geojson)], False)
      else (let command = [''ogr2ogr'', ''-f'', ''MapInfo File'', ''-skipfailures'']
                            @ t_srs env @ [''-lco'', ''BOUNDS_CHECKER=OFF'']
                            @ [output_file, temp_geojson];
                started = [Log 0 (''Ultimo tentativo di conversione con ogr2ogr: ''
                                    @ join '' '' command),
                           Popen ''_convert_temp_geojson_to_mapinfo_with_ogr'' command]
            in case geojson_ogr env of
                 Spawn_error e \<Rightarrow>
                   (started @ [Log 2 (''Errore nel fallback finale per MapInfo: '' @ e)], False)
               | Exited returncode stderr \<Rightarrow>
                   if returncode \<noteq> 0
                   then (started @ [Log 2 (''Errore ogr2ogr finale: '' @ strip stderr)], False)
                   else (let result = geojson_output_exists env
                         in (started @ [Log 0 (''Risultato conversione ogr2ogr finale: ''
                                                @ py_bool result)],
                             result))))"

subsection \<open>\<open>str\<close> of an integer\<close>

function digits :: "nat \<Rightarrow> string" where
  "digits n = (if n < 10 then [char_of (48 + n)] else digits (n div 10) @ [char_of (48 + n mod 10)])"
  by pat_completeness auto
termination
  by (relation "measure (\<lambda>n. n)") auto

declare digits.simps [simp del]

definition str_int :: "int \<Rightarrow> string" where
  "str_int i = (if i < 0 then ''-'' @ digits (nat (- i)) else digits (nat i))"

subsection \<open>\<open>convert_to_mapinfo\<close>\<close>

text \<open>
  Lines 1620-1638: the last attempt, reached when the attempt through the processing
  algorithm neither returned success nor left the function.
\<close>

definition mapinfo_last_attempt ::
  "mapinfo_env \<Rightarrow> string \<Rightarrow> string \<Rightarrow> action list \<times> bool" where
  "mapinfo_last_attempt env temp_geojson output_file =
     (if temp_exists_for_ogr env
      then (let (acts, result) =
                   convert_temp_geojson_to_mapinfo_with_ogr env temp_geojson output_file
            in ([Log 0 ''Tentativo 3: conversione da GeoJSON a MapInfo con ogr2ogr'']
                  @ acts @ [Remove temp_geojson],
                result))
      else ([], False))"

text \<open>
  Lines 1566-1618: the inner \<open>try\<close> with its \<open>except Exception\<close>, followed by the last
  attempt.  An exception of the processing algorithm or of \<open>os.remove\<close> is logged and
  execution continues after the inner \<open>try\<close>.
\<close>

definition mapinfo_processing ::
  "mapinfo_env \<Rightarrow> string \<Rightarrow> string \<Rightarrow> action list \<times> bool" where
  "mapinfo_processing env temp_geojson output_file =
     (let a1 = [Log 0 (''Tentativo di conversione da GeoJSON ('' @ temp_geojson
                         @ '') a MapInfo ('' @ output_file @ '')'')]
      in if \<not> geojson_valid env
         then (a1 @ [Log 2 (''File GeoJSON temporaneo non valido: '' @ temp_geojson)], False)
         else (let a2 = a1 @ (if reproject env
                              then [Log 0 ''Aggiunta riproiezione nella conversione'',
                                    Processing_run ''convert_to_mapinfo''
                                      ''native:reprojectlayer'' temp_geojson output_file]
                              else [Processing_run ''convert_to_mapinfo''
                                      ''native:savefeatures'' temp_geojson output_file]);
                   continue = (\<lambda>acts. let (last_acts, result) =
                                              mapinfo_last_attempt env temp_geojson output_file
                                       in (acts @ last_acts, result));
                   except = (\<lambda>acts e.
                                continue (acts @ [Log 2 (''Errore con algoritmo di processing: ''
                                                          @ e)]))
               in case processing env of
                    Some e \<Rightarrow> except a2 e
                  | None \<Rightarrow>
                      if processing_output_exists env
                      then (let a3 = a2 @ [Log 0 (''Conversione riuscita, file creato: ''
                                                   @ output_file)]
                            in if temp_exists_after_processing env
                               then (case remove_after_processing env of
                                       Some e \<Rightarrow> except (a3 @ [Remove temp_geojson]) e
                                     | None \<Rightarrow> (a3 @ [Remove temp_geojson], True))
                               else (a3, True))
                      else continue (a2 @ [Log 2 (''File di output non creato: ''
                                                   @ output_file)])))"

text \<open>
  Lines 1557-1563, then the inner \<open>try\<close>: the intermediate GeoJSON has been written
  without an error code.
\<close>

definition mapinfo_written ::
  "mapinfo_env \<Rightarrow> string \<Rightarrow> string \<Rightarrow> action list \<times> bool" where
  "mapinfo_written env temp_geojson output_file =
     (if \<not> geojson_written env
      then ([Log 2 (''File temporaneo non creato: '' @ temp_geojson)], False)
      else mapinfo_processing env temp_geojson output_file)"

text \<open>
  Lines 1517-1555: loading and sanitizing the input layer and writing the intermediate
  GeoJSON.  \<open>Inl e\<close> is an exception that reaches the outer \<open>except\<close>: only
  \<open>_sanitize_for_tab\<close> and the vector file writer can raise here.
  \<open>_sanitize_for_tab\<close> (lines 1320-1477) builds a memory layer with the host and
  reports on the fields at level 0 of the log; the texts depend on statistics of the
  field values computed in floating point and are taken as given: \<open>sanitize_log\<close>
  holds the messages written up to the return or the exception, \<open>sanitize\<close> the
  exception or the validity and the feature count of the memory layer.
\<close>

definition sanitize_for_tab :: "mapinfo_env \<Rightarrow> string \<Rightarrow> action list" where
  "sanitize_for_tab env input_file = Sanitize input_file # map (Log 0) (sanitize_log env)"

definition mapinfo_sanitize ::
  "mapinfo_env \<Rightarrow> string \<Rightarrow> string \<Rightarrow> string \<Rightarrow> action list \<times> (exn + bool)" where
  "mapinfo_sanitize env input_file output_file temp_geojson =
     (if \<not> input_valid env
      then ([Log 2 (''Layer non valido: '' @ input_file)], Inr False)
      else (case sanitize env of
              Inl e \<Rightarrow> (sanitize_for_tab env input_file, Inl e)
            | Inr (memory_valid, featureCount) \<Rightarrow>
                if \<not> memory_valid \<or> featureCount = 0
                then (sanitize_for_tab env input_file
                        @ [Log 2 ''Layer memory non valido o vuoto dopo sanitizzazione''],
                      Inr False)
                else (let a = sanitize_for_tab env input_file
                                @ [Log 0 (''Salvataggio layer memory in: '' @ temp_geojson),
                                   Write_vector temp_geojson ''GeoJSON''];
                          written = (let (acts, r) = mapinfo_written env temp_geojson output_file
                                     in (a @ acts, Inr r))
                      in case write_geojson env of
                           Inl e \<Rightarrow> (a, Inl e)
                         | Inr (Error_tuple error_code error_message) \<Rightarrow>
                             if error_code \<noteq> NoError
                             then (a @ [Log 2 (''Errore nel salvataggio del GeoJSON temporaneo: ''
                                                @ error_message)],
                                   Inr False)
                             else written
                         | Inr (Error_code error) \<Rightarrow>
                             if error \<noteq> NoError
                             then (a @ [Log 2 (''Errore nel salvataggio del GeoJSON temporaneo (codice: ''
                                                @ str_int error @ '')'')],
                                   Inr False)
                             else written)))"

text \<open>Lines 1504-1515 and what follows: the body of the outer \<open>try\<close>.\<close>

definition mapinfo_try ::
  "mapinfo_env \<Rightarrow> string \<Rightarrow> string \<Rightarrow> string \<Rightarrow> action list \<times> (exn + bool)" where
  "mapinfo_try env input_file output_file temp_geojson =
     (let a1 = [Log 0 (''Tentativo 1: conversione diretta da '' @ input_file @ '' a ''
                         @ output_file)];
          (ogr_acts, result) = convert_to_mapinfo_with_ogr env input_file output_file
      in if result
         then (a1 @ ogr_acts @ [Log 0 ''Conversione diretta con ogr2ogr riuscita''], Inr True)
         else (let (acts, r) = mapinfo_sanitize env input_file output_file temp_geojson
               in (a1 @ ogr_acts
                     @ [Log 0 ''Tentativo 2: sanitizzazione e conversione in due passi'']
                     @ acts,
                   r)))"

definition convert_to_mapinfo ::
  "mapinfo_env \<Rightarrow> string \<Rightarrow> string \<Rightarrow> action list \<times> (exn + bool)" where
  "convert_to_mapinfo env input_file0 output_file0 =
     (let input_file = slashes input_file0;
          output_file = slashes output_file0;
          output_dir = dirname output_file
      in case makedirs env of
           Some e \<Rightarrow> ([Makedirs output_dir], Inl e)
         | None \<Rightarrow>
             (let temp_geojson =
                    slashes (path_join output_dir ''temp_mapinfo_conversion.geojson'');
                  a0 = [Makedirs output_dir]
                         @ (if stale_temp env then [Remove temp_geojson] else [])
              in case mapinfo_try env input_file output_file temp_geojson of
                   (acts, Inr result) \<Rightarrow> (a0 @ acts, Inr result)
                 | (acts, Inl e) \<Rightarrow>
                     (a0 @ acts
                        @ [Log 2 (''Errore durante la conversione a MapInfo: '' @ e)]
                        @ (if temp_exists_on_error env then [Remove temp_geojson] else []),
                      Inr False)))"

subsection \<open>Vocabulary of the statements about \<open>convert_to_mapinfo\<close>\<close>

datatype strategy = Direct_ogr | Save_features | Geojson_ogr

fun strategy_of :: "action \<Rightarrow> strategy list" where
  "strategy_of (Popen caller command) =
     (if caller = ''_convert_to_mapinfo_with_ogr'' then [Direct_ogr]
      else if caller = ''_convert_temp_geojson_to_mapinfo_with_ogr'' then [Geojson_ogr]
      else [])"
| "strategy_of (Processing_run caller alg input output) =
     (if caller = ''convert_to_mapinfo'' then [Save_features] else [])"
| "strategy_of a = []"

definition strategies :: "action list \<Rightarrow> strategy list" where
  "strategies acts = concat (map strategy_of acts)"

definition direct_succeeds :: "mapinfo_env \<Rightarrow> bool" where
  "direct_succeeds env =
     (case direct_ogr env of
        Spawn_error e \<Rightarrow> False
      | Exited returncode stderr \<Rightarrow> returncode = 0 \<and> direct_output_exists env)"

definition geojson_prepared :: "mapinfo_env \<Rightarrow> bool" where
  "geojson_prepared env =
     (input_valid env
      \<and> (case sanitize env of
           Inl e \<Rightarrow> False
         | Inr (memory_valid, featureCount) \<Rightarrow> memory_valid \<and> featureCount \<noteq> 0)
      \<and> (case write_geojson env of
           Inl e \<Rightarrow> False
         | Inr (Error_tuple error_code error_message) \<Rightarrow> error_code = NoError
         | Inr (Error_code error) \<Rightarrow> error = NoError)
      \<and> geojson_written env \<and> geojson_valid env)"

definition save_features_succeeds :: "mapinfo_env \<Rightarrow> bool" where
  "save_features_succeeds env = (processing env = None \<and> processing_output_exists env)"

definition geojson_ogr_succeeds :: "mapinfo_env \<Rightarrow> bool" where
  "geojson_ogr_succeeds env =
     (temp_exists_in_ogr env
      \<and> (case geojson_ogr env of
           Spawn_error e \<Rightarrow> False
         | Exited returncode stderr \<Rightarrow> returncode = 0 \<and> geojson_output_exists env))"

definition cleanup_succeeds :: "mapinfo_env \<Rightarrow> bool" where
  "cleanup_succeeds env =
     (temp_exists_after_processing env \<longrightarrow> remove_after_processing env = None)"

text \<open>
  Two runs of the conversion.  In the first neither \<open>ogr2ogr\<close> nor the host can read
  the input file.  In the second the direct conversion fails, the intermediate GeoJSON is
  written, the processing algorithm raises and \<open>ogr2ogr\<close> converts the GeoJSON.
\<close>

definition unreadable_input_env :: mapinfo_env where
  "unreadable_input_env =
     \<lparr>reproject = False, srid = ''32632'', makedirs = None, stale_temp = False,
      direct_ogr = Exited 1 ''Unable to open datasource'', direct_output_exists = False,
      input_valid = False, sanitize = Inr (False, 0), sanitize_log = [],
      write_geojson = Inr (Error_code 0),
      geojson_written = False, geojson_valid = False, processing = None,
      processing_output_exists = False, temp_exists_after_processing = False,
      remove_after_processing = None, temp_exists_for_ogr = False,
      temp_exists_in_ogr = False, geojson_ogr = Exited 0 [],
      geojson_output_exists = False, temp_exists_on_error = False\<rparr>"

definition third_strategy_env :: mapinfo_env where
  "third_strategy_env =
     \<lparr>reproject = False, srid = ''32632'', makedirs = None, stale_temp = False,
      direct_ogr = Exited 1 ''Field type not supported'', direct_output_exists = False,
      input_valid = True, sanitize = Inr (True, 3),
      sanitize_log = [''Sanitizzazione per TAB: layer temp_layer con 0 campi'',
                      ''Layer memory creato con 0 campi'',
                      ''Copiate 3 feature nel layer memory''],
      write_geojson = Inr (Error_tuple 0 []),
      geojson_written = True, geojson_valid = True,
      processing = Some ''Could not create layer'',
      processing_output_exists = False, temp_exists_after_processing = True,
      remove_after_processing = None, temp_exists_for_ogr = True,
      temp_exists_in_ogr = True, geojson_ogr = Exited 0 [],
      geojson_output_exists = True, temp_exists_on_error = False\<rparr>"

subsection \<open>\<open>convert_single_file\<close>\<close>

fun str_in :: "string \<Rightarrow> string \<Rightarrow> bool" where
  "str_in sub [] = (sub = [])"
| "str_in sub (c # cs) = (take (length sub) (c # cs) = sub \<or> str_in sub cs)"

text \<open>
  The answers one call of \<open>convert_single_file\<close> gets.  Of the parameter dictionary of
  a processing algorithm only \<open>INPUT\<close> and \<open>OUTPUT\<close> are recorded.
\<close>

record single_env =
  mapinfo :: mapinfo_env
  run_error :: "exn option"
  output_exists :: bool

definition convert_single_file ::
  "single_env \<Rightarrow> string \<Rightarrow> string \<Rightarrow> string \<Rightarrow> action list \<times> bool" where
  "convert_single_file env input_file output_file output_format =
     (let except =
            (\<lambda>acts err_msg.
               if output_format = ''DXF''
                  \<and> str_in ''DXF layer does not support arbitrary field creation'' err_msg
               then (acts @ [Log 1 (''DXF: attributi ignorati come previsto per ''
                                      @ input_file)],
                     True)
               else (acts @ [Log 2 (''Errore nella conversione di '' @ input_file @ '': ''
                                      @ err_msg)],
                     False))
      in if output_format = ''MapInfo File''
         then (case convert_to_mapinfo (mapinfo env) input_file output_file of
                 (acts, Inl e) \<Rightarrow> except acts e
               | (acts, Inr result) \<Rightarrow> (acts, result))
         else (let run = [Processing_run ''convert_single_file''
                            (if reproject (mapinfo env) then ''native:reprojectlayer''
                             else ''native:savefeatures'')
                            input_file output_file]
               in case run_error env of
                    Some e \<Rightarrow> except run e
                  | None \<Rightarrow> (run, output_exists env)))"

subsection \<open>One row of the table in \<open>start_conversion\<close>\<close>

text \<open>
  The state of the loop: the two counters, the status cell of every row (its text and the
  error message shown with it) and the host calls made so far.
\<close>

record conversion =
  success_count :: nat
  error_count :: nat
  statuses :: "(string \<times> string option) list"
  calls :: "action list"

definition update_file_status ::
  "nat \<Rightarrow> string \<Rightarrow> string option \<Rightarrow> conversion \<Rightarrow> conversion" where
  "update_file_status row status error_message st =
     st\<lparr>statuses := (statuses st)[row := (status, error_message)],
        calls := calls st @ [Set_status row status error_message]\<rparr>"

definition called :: "action list \<Rightarrow> conversion \<Rightarrow> conversion" where
  "called acts st = st\<lparr>calls := calls st @ acts\<rparr>"

text \<open>
  The settings read from the dialog, and the answers one row gets.  \<open>clean_base_name\<close>
  is the outcome of \<open>re.sub(..., self._output_basename(file_path, row))\<close>,
  \<open>status_before\<close> the status cell of the row when the handler starts.
\<close>

record settings =
  dest_dir :: string
  output_format :: string
  use_single_geopackage :: bool
  single_gpkg_path :: string
  transform_crs :: bool
  crs_srid :: string

record row_env =
  file_path :: string
  status_before :: "string \<times> string option"
  clean_base_name :: "exn + string"
  single :: single_env
  layer_valid :: bool
  gpkg_exists_before :: bool
  reproject_error :: "exn option"
  save_first_error :: "exn option"
  save_temp_error :: "exn option"
  append_ogr :: proc_outcome
  remove_temp_error :: "exn option"
  save_alternate_error :: "exn option"
  temp_exists_after_failure :: bool
  remove_temp_after_failure_error :: "exn option"
  gpkg_exists_after :: bool

definition supported_formats :: "(string \<times> string) list" where
  "supported_formats =
     [(''ESRI Shapefile'', ''.shp''), (''GeoJSON'', ''.geojson''), (''GeoPackage'', ''.gpkg''),
      (''KML'', ''.kml''), (''GML'', ''.gml''), (''SQLite'', ''.sqlite''), (''CSV'', ''.csv''),
      (''DXF'', ''.dxf''), (''FileGDB'', ''.gdb'')]"

text \<open>
  Lines 834-916: appending a further layer to the GeoPackage with \<open>ogr2ogr\<close>, and the
  handler that saves the layer to a file of its own and raises again.  The result is the
  exception that leaves this part, if any.
\<close>

definition append_layer ::
  "settings \<Rightarrow> row_env \<Rightarrow> string \<Rightarrow> string \<Rightarrow> action list \<times> exn option" where
  "append_layer cfg env layer_name temp_geojson =
     (let command = [''ogr2ogr'', ''-append'', ''-f'', ''GPKG'', ''-nln'', layer_name]
                      @ (if transform_crs cfg then [''-t_srs'', ''EPSG:'' @ crs_srid cfg] else [])
                      @ [single_gpkg_path cfg, temp_geojson];
          started = [Log 0 (''Esecuzione comando: '' @ join '' '' command),
                     Popen ''start_conversion'' command];
          except =
            (\<lambda>acts e.
               (let alternate_gpkg =
                      slashes (path_join (dest_dir cfg) (layer_name @ ''.gpkg''));
                    a1 = acts @ [Log 2 (''Errore nell'' @ [CHR 0x27] @ ''aggiunta del layer: '' @ e),
                                 Processing_run ''start_conversion'' ''native:savefeatures''
                                   (file_path env) alternate_gpkg]
                in case save_alternate_error env of
                     Some e' \<Rightarrow> (a1, Some e')
                   | None \<Rightarrow>
                       (let a2 = a1 @ [Log 1 (''Layer salvato come file separato: ''
                                               @ alternate_gpkg)]
                        in if temp_exists_after_failure env
                           then (case remove_temp_after_failure_error env of
                                   Some e' \<Rightarrow> (a2 @ [Remove temp_geojson], Some e')
                                 | None \<Rightarrow>
                                     (a2 @ [Remove temp_geojson],
                                      Some ''Impossibile aggiungere il layer al GeoPackage''))
                           else (a2, Some ''Impossibile aggiungere il layer al GeoPackage''))))
      in case append_ogr env of
           Spawn_error e \<Rightarrow> except started e
         | Exited returncode stderr \<Rightarrow>
             if returncode \<noteq> 0
             then except (started @ [Log 2 (''Errore ogr2ogr: '' @ strip stderr)])
                    (''Errore ogr2ogr: '' @ strip stderr)
             else (case remove_temp_error env of
                     Some e \<Rightarrow> except (started @ [Remove temp_geojson]) e
                   | None \<Rightarrow> (started @ [Remove temp_geojson], None)))"

text \<open>
  Lines 772-916: the \<open>try\<close> block of a row when everything goes into one GeoPackage,
  up to the test whether the GeoPackage exists.
\<close>

definition geopackage_try ::
  "settings \<Rightarrow> row_env \<Rightarrow> nat \<Rightarrow> string \<Rightarrow> action list \<times> exn option" where
  "geopackage_try cfg env row layer_name =
     (if \<not> layer_valid env then ([], Some (''Layer non valido: '' @ file_path env))
      else (let is_first_layer = (row = 0 \<or> \<not> gpkg_exists_before env);
                reprojected =
                  (if transform_crs cfg
                   then ([Processing_run ''start_conversion'' ''native:reprojectlayer''
                            (file_path env) ''memory:''],
                         reproject_error env)
                   else ([], None))
            in case reprojected of
                 (a1, Some e) \<Rightarrow> (a1, Some e)
               | (a1, None) \<Rightarrow>
                   if is_first_layer
                   then (a1 @ [Processing_run ''start_conversion'' ''native:savefeatures''
                                 (file_path env) (single_gpkg_path cfg)],
                         save_first_error env)
                   else (let temp_geojson =
                               slashes (path_join (dest_dir cfg)
                                          (''temp_'' @ layer_name @ ''.geojson''));
                             a2 = a1 @ [Processing_run ''start_conversion''
                                          ''native:savefeatures'' (file_path env) temp_geojson]
                         in case save_temp_error env of
                              Some e \<Rightarrow> (a2, Some e)
                            | None \<Rightarrow>
                                (let (a3, r) = append_layer cfg env layer_name temp_geojson
                                 in (a2 @ a3, r)))))"

text \<open>Lines 748-973: the body of the loop for one row.\<close>

definition convert_row :: "settings \<Rightarrow> nat \<Rightarrow> row_env \<Rightarrow> conversion \<Rightarrow> conversion" where
  "convert_row cfg row env st0 =
     (let st = update_file_status row ''In elaborazione'' None st0
      in case clean_base_name env of
           Inl error_message \<Rightarrow>
             called [Log 2 (''Errore nella conversione di '' @ file_path env @ '': ''
                              @ error_message)]
               ((update_file_status row ''Errore'' (Some error_message) st)
                  \<lparr>error_count := error_count st + 1\<rparr>)
         | Inr base_name \<Rightarrow>
             if use_single_geopackage cfg
             then (case geopackage_try cfg env row base_name of
                     (acts, Some e) \<Rightarrow>
                       (update_file_status row ''Errore'' (Some e)
                          (called (acts @ [Log 2 (''Errore in processing: '' @ e)]) st))
                         \<lparr>error_count := error_count st + 1\<rparr>
                   | (acts, None) \<Rightarrow>
                       if gpkg_exists_after env
                       then (update_file_status row ''Completato'' None (called acts st))
                              \<lparr>success_count := success_count st + 1\<rparr>
                       else (update_file_status row ''Errore'' (Some ''File non creato'')
                               (called acts st))
                              \<lparr>error_count := error_count st + 1\<rparr>)
             else (let file_extension =
                         (case map_of supported_formats (output_format cfg) of
                            None \<Rightarrow> ''.unknown'' | Some ext \<Rightarrow> ext);
                       output_file =
                         slashes (path_join (dest_dir cfg) (base_name @ file_extension));
                       (acts, success) =
                         convert_single_file (single env) (file_path env) output_file
                           (output_format cfg)
                   in if success
                      then (update_file_status row ''Completato'' None (called acts st))
                             \<lparr>success_count := success_count st + 1\<rparr>
                      else (update_file_status row ''Errore'' (Some ''Conversione fallita'')
                              (called acts st))
                             \<lparr>error_count := error_count st + 1\<rparr>))"

text \<open>
  The loop over the rows of the table: \<open>envs\<close> holds the answers of the rows still to
  process, the first of them being row \<open>row\<close>.
\<close>

fun conversion_loop :: "settings \<Rightarrow> nat \<Rightarrow> row_env list \<Rightarrow> conversion \<Rightarrow> conversion" where
  "conversion_loop cfg row [] st = st"
| "conversion_loop cfg row (env # envs) st =
     conversion_loop cfg (Suc row) envs (convert_row cfg row env st)"

subsection \<open>\<open>start_conversion\<close>\<close>

text \<open>
  What a handler leaves on the screen: whether the controls of its tool are enabled, and
  the modal dialogs it has shown, each with its kind, title and text.
\<close>

record ui =
  controls_enabled :: bool
  dialogs :: "dialog list"

definition toggle_controls :: "bool \<Rightarrow> ui \<Rightarrow> ui" where
  "toggle_controls enable u = u\<lparr>controls_enabled := enable\<rparr>"

definition message_box :: "dialog_kind \<Rightarrow> string \<Rightarrow> string \<Rightarrow> ui \<Rightarrow> ui" where
  "message_box kind title text u = u\<lparr>dialogs := dialogs u @ [(kind, title, text)]\<rparr>"

text \<open>
  The widget values read by \<open>start_conversion\<close> and the answers it gets: one
  \<open>row_env\<close> per row of the table, the text of the confirmation composed at lines
  636-656, the user's replies, and the outcomes of \<open>Processing.initialize()\<close> and of
  removing an existing GeoPackage.
\<close>

record conversion_request =
  table_rows :: "row_env list"
  destination :: string
  destination_is_dir :: bool
  format_text :: string
  single_file_checked :: bool
  gpkg_name :: string
  transform_checked :: bool
  srid_text :: string
  confirm_message :: string
  confirmed :: bool
  initialize_error :: "exn option"
  gpkg_exists :: bool
  overwrite :: bool
  remove_gpkg_error :: "exn option"

definition nl :: string where
  "nl = [CHR 0x0A]"

definition completion_message :: "settings \<Rightarrow> conversion \<Rightarrow> string" where
  "completion_message cfg st =
     ''Conversione completata.'' @ nl @ nl
       @ ''File convertiti con successo: '' @ str_int (int (success_count st)) @ nl
       @ ''File con errori: '' @ str_int (int (error_count st))
       @ (if use_single_geopackage cfg \<and> success_count st > 0
          then nl @ nl @ ''Tutti i layer sono stati salvati nel file:'' @ nl
                 @ single_gpkg_path cfg
          else [])"

text \<open>
  The result of the handler: the exception that leaves it, if any, the screen, and the
  state of the conversion loop.
\<close>

record conversion_result =
  propagated :: "exn option"
  screen :: ui
  conversion_state :: conversion

definition conversion_settings :: "conversion_request \<Rightarrow> settings" where
  "conversion_settings req =
     (let single_gpkg = (format_text req = ''GeoPackage'' \<and> single_file_checked req);
          pkg_base = (if strip (gpkg_name req) = [] then ''output'' else strip (gpkg_name req))
      in \<lparr>dest_dir = destination req,
          output_format = format_text req,
          use_single_geopackage = single_gpkg,
          single_gpkg_path =
            (if single_gpkg then slashes (path_join (destination req) (pkg_base @ ''.gpkg''))
             else []),
          transform_crs = transform_checked req,
          crs_srid = srid_text req\<rparr>)"

text \<open>Lines 672-674: every status cell is set to \<open>In attesa\<close>.\<close>

definition reset_statuses :: "nat \<Rightarrow> conversion \<Rightarrow> conversion" where
  "reset_statuses n st = fold (\<lambda>row. update_file_status row ''In attesa'' None) [0 ..< n] st"

definition start_conversion :: "conversion_request \<Rightarrow> ui \<Rightarrow> conversion_result" where
  "start_conversion req u0 =
     (let idle = \<lparr>success_count = 0, error_count = 0,
                   statuses = map status_before (table_rows req), calls = []\<rparr>;
          return = (\<lambda>u st. \<lparr>propagated = None, screen = u, conversion_state = st\<rparr>)
      in if table_rows req = []
         then return (message_box Warning ''Errore'' ''Aggiungi file da convertire'' u0) idle
         else if destination req = [] \<or> \<not> destination_is_dir req
         then return (message_box Warning ''Errore''
                        ''Seleziona una directory di destinazione valida'' u0) idle
         else if format_text req = []
         then return (message_box Warning ''Errore'' ''Seleziona un formato di output'' u0) idle
         else (let u1 = message_box Question ''Conferma'' (confirm_message req) u0
               in if \<not> confirmed req then return u1 idle
                  else (let u2 = toggle_controls False u1;
                            st0 = reset_statuses (length (table_rows req)) idle;
                            cfg = conversion_settings req;
                            finally = (\<lambda>u. toggle_controls True u);
                            convert =
                              (\<lambda>u st.
                                 (let st' = conversion_loop cfg 0 (table_rows req) st
                                  in return (finally (message_box Information ''Completato''
                                                        (completion_message cfg st') u))
                                       st'))
                        in case initialize_error req of
                             Some e \<Rightarrow>
                               return
                                 (finally
                                    (message_box Critical ''Errore''
                                       (''Si '' @ [CHR 0xE8]
                                          @ '' verificato un errore durante la conversione: ''
                                          @ e)
                                       u2))
                                 (called [Log 2 (''Errore generale nella conversione: '' @ e)]
                                    st0)
                           | None \<Rightarrow>
                               if use_single_geopackage cfg \<and> gpkg_exists req
                               then (let u3 = message_box Question ''File esistente''
                                                (''Il file '' @ single_gpkg_path cfg
                                                   @ '' esiste gi'' @ [CHR 0xE0]
                                                   @ ''.'' @ nl @ ''Sovrascriverlo?'')
                                                u2
                                     in if overwrite req
                                        then (case remove_gpkg_error req of
                                                Some e \<Rightarrow>
                                                  return
                                                    (finally
                                                       (toggle_controls True
                                                          (message_box Warning ''Errore''
                                                             (''Impossibile eliminare il file esistente: ''
                                                                @ e)
                                                             u3)))
                                                    (called [Remove (single_gpkg_path cfg)] st0)
                                              | None \<Rightarrow>
                                                  convert u3
                                                    (called [Remove (single_gpkg_path cfg)] st0))
                                        else return (finally (toggle_controls True u3)) st0)
                               else convert u2 st0)))"

subsection \<open>Vocabulary of the statements about the conversion loop\<close>

fun is_log :: "action \<Rightarrow> bool" where
  "is_log (Log level message) = True"
| "is_log a = False"

fun is_error_log :: "action \<Rightarrow> bool" where
  "is_error_log (Log level message) = (level = 2)"
| "is_error_log a = False"

text \<open>
  The exception, if any, raised while a row is converted: while the output name is
  computed, in the \<open>try\<close> block of the single GeoPackage, by \<open>os.makedirs\<close> in
  \<open>convert_to_mapinfo\<close>, or by the processing algorithm of \<open>convert_single_file\<close>.
\<close>

definition row_exception :: "settings \<Rightarrow> nat \<Rightarrow> row_env \<Rightarrow> exn option" where
  "row_exception cfg row env =
     (case clean_base_name env of
        Inl e \<Rightarrow> Some e
      | Inr base_name \<Rightarrow>
          if use_single_geopackage cfg then snd (geopackage_try cfg env row base_name)
          else if output_format cfg = ''MapInfo File'' then makedirs (mapinfo (single env))
          else run_error (single env))"

text \<open>
  When the conversion of a row counts as failed, and the message of the failure: the text
  of the exception that ends the row; \<open>File non creato\<close> when the single GeoPackage does
  not exist after the row; \<open>Conversione fallita\<close> when \<open>convert_single_file\<close> returns
  \<open>False\<close>.  \<open>row_cell\<close> is the status cell that stands for the outcome.
\<close>

definition row_output_file :: "settings \<Rightarrow> string \<Rightarrow> string" where
  "row_output_file cfg base_name =
     slashes (path_join (dest_dir cfg)
                (base_name @ (case map_of supported_formats (output_format cfg) of
                                None \<Rightarrow> ''.unknown'' | Some ext \<Rightarrow> ext)))"

definition row_failure :: "settings \<Rightarrow> nat \<Rightarrow> row_env \<Rightarrow> string option" where
  "row_failure cfg row env =
     (case clean_base_name env of
        Inl e \<Rightarrow> Some e
      | Inr base_name \<Rightarrow>
          if use_single_geopackage cfg
          then (case snd (geopackage_try cfg env row base_name) of
                  Some e \<Rightarrow> Some e
                | None \<Rightarrow> if gpkg_exists_after env then None else Some ''File non creato'')
          else if snd (convert_single_file (single env) (file_path env)
                         (row_output_file cfg base_name) (output_format cfg))
               then None
               else Some ''Conversione fallita'')"

definition row_cell :: "settings \<Rightarrow> nat \<Rightarrow> row_env \<Rightarrow> string \<times> string option" where
  "row_cell cfg row env =
     (case row_failure cfg row env of
        None \<Rightarrow> (''Completato'', None)
      | Some message \<Rightarrow> (''Errore'', Some message))"

definition failed_rows :: "settings \<Rightarrow> row_env list \<Rightarrow> nat" where
  "failed_rows cfg envs =
     length (filter (\<lambda>(row, env). row_failure cfg row env \<noteq> None) (enumerate 0 envs))"

definition converted_rows :: "settings \<Rightarrow> row_env list \<Rightarrow> nat" where
  "converted_rows cfg envs =
     length (filter (\<lambda>(row, env). row_failure cfg row env = None) (enumerate 0 envs))"

text \<open>The calls made while row \<open>row\<close> is processed from the state \<open>st\<close>.\<close>

definition row_calls :: "settings \<Rightarrow> nat \<Rightarrow> row_env \<Rightarrow> conversion \<Rightarrow> action list" where
  "row_calls cfg row env st = drop (length (calls st)) (calls (convert_row cfg row env st))"

definition waiting :: "nat \<Rightarrow> conversion" where
  "waiting n =
     \<lparr>success_count = 0, error_count = 0, statuses = replicate n (''In attesa'', None),
      calls = []\<rparr>"

text \<open>
  A run of one row: saving to GeoJSON, where the algorithm returns without an exception
  and leaves no output file.
\<close>

definition silent_env :: mapinfo_env where
  "silent_env =
     \<lparr>reproject = False, srid = ''4326'', makedirs = None, stale_temp = False,
      direct_ogr = Exited 0 [], direct_output_exists = True,
      input_valid = True, sanitize = Inr (True, 1), sanitize_log = [],
      write_geojson = Inr (Error_code 0),
      geojson_written = True, geojson_valid = True, processing = None,
      processing_output_exists = True, temp_exists_after_processing = False,
      remove_after_processing = None, temp_exists_for_ogr = False,
      temp_exists_in_ogr = False, geojson_ogr = Exited 0 [],
      geojson_output_exists = True, temp_exists_on_error = False\<rparr>"

definition no_output_row :: row_env where
  "no_output_row =
     \<lparr>file_path = ''/data/in/roads.shp'', status_before = (''In attesa'', None),
      clean_base_name = Inr ''roads'',
      single = \<lparr>mapinfo = silent_env, run_error = None, output_exists = False\<rparr>,
      layer_valid = True, gpkg_exists_before = False, reproject_error = None,
      save_first_error = None, save_temp_error = None, append_ogr = Exited 0 [],
      remove_temp_error = None, save_alternate_error = None,
      temp_exists_after_failure = False, remove_temp_after_failure_error = None,
      gpkg_exists_after = True\<rparr>"

definition raising_row :: row_env where
  "raising_row = no_output_row\<lparr>clean_base_name := Inl ''expected str, not NoneType''\<rparr>"

definition converted_row :: row_env where
  "converted_row =
     no_output_row\<lparr>single := \<lparr>mapinfo = silent_env, run_error = None, output_exists = True\<rparr>\<rparr>"

definition geojson_settings :: settings where
  "geojson_settings =
     \<lparr>dest_dir = ''/data/out'', output_format = ''GeoJSON'', use_single_geopackage = False,
      single_gpkg_path = [], transform_crs = False, crs_srid = ''4326''\<rparr>"

text \<open>The requests with which \<open>start_conversion\<close> gets to its loop.\<close>

definition reaches_loop :: "conversion_request \<Rightarrow> bool" where
  "reaches_loop req =
     (table_rows req \<noteq> [] \<and> destination req \<noteq> [] \<and> destination_is_dir req
      \<and> format_text req \<noteq> [] \<and> confirmed req \<and> initialize_error req = None
      \<and> (format_text req = ''GeoPackage'' \<and> single_file_checked req \<and> gpkg_exists req
           \<longrightarrow> overwrite req \<and> remove_gpkg_error req = None))"

definition three_files_request :: conversion_request where
  "three_files_request =
     \<lparr>table_rows = [converted_row, no_output_row, raising_row],
      destination = ''/data/out'', destination_is_dir = True, format_text = ''GeoJSON'',
      single_file_checked = False, gpkg_name = [], transform_checked = False,
      srid_text = ''4326'', confirm_message = ''Vuoi procedere con la conversione?'',
      confirmed = True, initialize_error = None, gpkg_exists = False, overwrite = False,
      remove_gpkg_error = None\<rparr>"

definition enabled_screen :: ui where
  "enabled_screen = \<lparr>controls_enabled = True, dialogs = []\<rparr>"

section \<open>Layer loader (\<open>layer_loader.py\<close>)\<close>

subsection \<open>The loader's own state\<close>

text \<open>
  \<open>LayerLoader\<close> keeps two attributes besides its dialog: \<open>current_group\<close>, set to
  \<open>None\<close> in the constructor and never assigned again, and \<open>created_groups\<close>, a set
  of layer-tree groups.  A group is a host object, identified here by a number.
\<close>

type_synonym group = nat

record loader =
  current_group :: "group option"
  created_groups :: "group set"

definition new_loader :: loader where
  "new_loader = \<lparr>current_group = None, created_groups = {}\<rparr>"

definition track :: "group \<Rightarrow> loader \<Rightarrow> loader" where
  "track g st = st\<lparr>created_groups := insert g (created_groups st)\<rparr>"

subsection \<open>Answers of the host and of the file system\<close>

text \<open>
  \<open>Found g\<close>: a group of the wanted name exists and is reused; \<open>Created g\<close>: none
  exists and \<open>addGroup\<close> returns \<open>g\<close>.
\<close>

datatype group_lookup = Found group | Created group

datatype extraction = Unsupported | Extract_failed exn | Extracted

record archive_env =
  archive_path :: string
  mkdtemp_error :: "exn option"
  extraction :: extraction
  archive_group :: group
  loading_error :: "exn option"
  archive_loaded :: nat

datatype file_env =
    Archive_file archive_env
  | Plain_file string "exn + bool" bool

record walk_env =
  root_is_directory :: bool
  parts :: "group_lookup list"
  files :: "file_env list"

subsection \<open>The methods that touch \<open>created_groups\<close>\<close>

definition create_layer_group ::
  "bool \<Rightarrow> group_lookup \<Rightarrow> loader \<Rightarrow> group option \<times> loader" where
  "create_layer_group llcheckgroup lookup st =
     (if \<not> llcheckgroup then (None, st)
      else (case lookup of
              Found child \<Rightarrow> (Some child, st)
            | Created g \<Rightarrow> (Some g, track g st)))"

text \<open>
  \<open>load_layer\<close> (lines 485-544): its first statement empties \<open>created_groups\<close>; every
  exception is caught, so the result is whether the layer was loaded.
\<close>

definition load_layer :: "bool \<Rightarrow> loader \<Rightarrow> bool \<times> loader" where
  "load_layer loads st = (loads, st\<lparr>created_groups := {}\<rparr>)"

text \<open>
  \<open>process_compressed_file\<close> (lines 328-483).  \<open>tempfile.mkdtemp()\<close> is outside the
  \<open>try\<close>; an exception of the extraction or of the loading of the extracted files is
  shown as a warning, and the count reached so far is returned.
\<close>

definition process_compressed_file ::
  "bool \<Rightarrow> archive_env \<Rightarrow> loader \<Rightarrow> ui \<Rightarrow> (exn + nat) \<times> ui \<times> loader" where
  "process_compressed_file llcheckgroup env st u =
     (let warn = (\<lambda>e. message_box Warning ''Errore''
                         (''Impossibile elaborare l'' @ [CHR 0x27] @ ''archivio ''
                            @ archive_path env @ '': '' @ e) u)
      in case mkdtemp_error env of
           Some e \<Rightarrow> (Inl e, u, st)
         | None \<Rightarrow>
             (case extraction env of
                Extract_failed e \<Rightarrow> (Inr 0, warn e, st)
              | Unsupported \<Rightarrow> (Inr 0, u, st)
              | Extracted \<Rightarrow>
                  (let st1 = (if llcheckgroup then track (archive_group env) st else st)
                   in case loading_error env of
                        Some e \<Rightarrow> (Inr (archive_loaded env), warn e, st1)
                      | None \<Rightarrow> (Inr (archive_loaded env), u, st1))))"

text \<open>
  Lines 280-291 of \<open>process_files\<close>: the groups for the parts of a subfolder's relative
  path, each reused or created and tracked.
\<close>

fun nested_groups :: "group_lookup list \<Rightarrow> loader \<Rightarrow> loader" where
  "nested_groups [] st = st"
| "nested_groups (Found child # rest) st = nested_groups rest st"
| "nested_groups (Created g # rest) st = nested_groups rest (track g st)"

text \<open>
  Lines 295-320: the files of one folder.  The state is the pair of counters
  \<open>(loaded_count, total_files)\<close>, the screen and the loader.
\<close>

fun process_folder_files ::
  "bool \<Rightarrow> bool \<Rightarrow> file_env list \<Rightarrow> nat \<times> nat \<Rightarrow> ui \<Rightarrow> loader
     \<Rightarrow> (exn + nat \<times> nat) \<times> ui \<times> loader" where
  "process_folder_files llcheckgroup llchecknest [] counts u st = (Inr counts, u, st)"
| "process_folder_files llcheckgroup llchecknest (Archive_file env # rest)
       (loaded_count, total_files) u st =
     (if llchecknest
      then (case process_compressed_file llcheckgroup env st u of
              (Inl e, u', st') \<Rightarrow> (Inl e, u', st')
            | (Inr nested_count, u', st') \<Rightarrow>
                process_folder_files llcheckgroup llchecknest rest
                  (loaded_count + nested_count, total_files + 1) u' st')
      else process_folder_files llcheckgroup llchecknest rest
             (loaded_count, total_files + 1) u st)"
| "process_folder_files llcheckgroup llchecknest (Plain_file path filters loads # rest)
       (loaded_count, total_files) u st =
     (case filters of
        Inl e \<Rightarrow> (Inl e, u, st)
      | Inr False \<Rightarrow>
          process_folder_files llcheckgroup llchecknest rest
            (loaded_count, total_files + 1) u st
      | Inr True \<Rightarrow>
          (let (loaded, st') = load_layer loads st
           in process_folder_files llcheckgroup llchecknest rest
                (if loaded then loaded_count + 1 else loaded_count, total_files + 1) u st'))"

text \<open>The loop over \<open>os.walk(directory)\<close>, which stops after the first folder unless
  subfolders are to be searched.\<close>

fun process_walk ::
  "bool \<Rightarrow> bool \<Rightarrow> walk_env list \<Rightarrow> nat \<times> nat \<Rightarrow> ui \<Rightarrow> loader
     \<Rightarrow> (exn + nat \<times> nat) \<times> ui \<times> loader" where
  "process_walk llcheckgroup llchecknest [] counts u st = (Inr counts, u, st)"
| "process_walk llcheckgroup llchecknest (w # rest) counts u st =
     (let st1 = (if llcheckgroup \<and> \<not> root_is_directory w
                 then nested_groups (parts w) st else st)
      in case process_folder_files llcheckgroup llchecknest (files w) counts u st1 of
           (Inl e, u', st') \<Rightarrow> (Inl e, u', st')
         | (Inr counts', u', st') \<Rightarrow>
             if \<not> llchecknest then (Inr counts', u', st')
             else process_walk llcheckgroup llchecknest rest counts' u' st')"

definition process_files ::
  "bool \<Rightarrow> bool \<Rightarrow> group_lookup \<Rightarrow> walk_env list \<Rightarrow> ui \<Rightarrow> loader
     \<Rightarrow> (exn + nat \<times> nat) \<times> ui \<times> loader" where
  "process_files llcheckgroup llchecknest directory_group walk u st =
     (let (parent_group, st1) = create_layer_group llcheckgroup directory_group st
      in process_walk llcheckgroup llchecknest walk (0, 0) u st1)"

subsection \<open>\<open>load_layers\<close>\<close>

datatype source_kind =
    Archive archive_env
  | Single_file "exn + bool" bool
  | Directory group_lookup "walk_env list"
  | Missing

record load_request =
  source_path :: string
  any_format_checked :: bool
  llcheckgroup :: bool
  llchecknest :: bool
  source :: source_kind
  remove_empty_groups_error :: "exn option"

record load_result =
  load_propagated :: "exn option"
  load_screen :: ui
  loaded_layers :: nat
  own_state :: loader

text \<open>
  Lines 609-664: the \<open>try\<close> block gives the two counters as far as they were assigned,
  and the exception that reaches the handler, if any.
\<close>

definition load_try ::
  "load_request \<Rightarrow> ui \<Rightarrow> loader \<Rightarrow> (exn option \<times> nat \<times> nat) \<times> ui \<times> loader" where
  "load_try req u st =
     (let cleanup =
            (\<lambda>counts u' st'.
               if llcheckgroup req
               then (case remove_empty_groups_error req of
                       Some e \<Rightarrow> ((Some e, counts), u', st')
                     | None \<Rightarrow> ((None, counts), u', st'))
               else ((None, counts), u', st'))
      in case source req of
           Archive env \<Rightarrow>
             (case process_compressed_file (llcheckgroup req) env st u of
                (Inl e, u', st') \<Rightarrow> ((Some e, 0, 0), u', st')
              | (Inr loaded_count, u', st') \<Rightarrow> cleanup (loaded_count, 1) u' st')
         | Single_file filters loads \<Rightarrow>
             (case filters of
                Inl e \<Rightarrow> ((Some e, 0, 0), u, st)
              | Inr False \<Rightarrow> cleanup (0, 1) u st
              | Inr True \<Rightarrow>
                  (let (loaded, st') = load_layer loads st
                   in cleanup (if loaded then 1 else 0, 1) u st'))
         | Directory directory_group walk \<Rightarrow>
             (case process_files (llcheckgroup req) (llchecknest req) directory_group walk u st of
                (Inl e, u', st') \<Rightarrow> ((Some e, 0, 0), u', st')
              | (Inr counts, u', st') \<Rightarrow> cleanup counts u' st')
         | Missing \<Rightarrow>
             cleanup (0, 0)
               (message_box Warning ''Errore''
                  (''Il percorso specificato non esiste: '' @ source_path req) u)
               st)"

definition load_layers :: "load_request \<Rightarrow> ui \<Rightarrow> loader \<Rightarrow> load_result" where
  "load_layers req u0 st0 =
     (if strip (source_path req) = []
      then \<lparr>load_propagated = None,
            load_screen = message_box Warning ''Attenzione'' ''Seleziona un percorso sorgente'' u0,
            loaded_layers = 0, own_state = st0\<rparr>
      else if \<not> any_format_checked req
      then \<lparr>load_propagated = None,
            load_screen = message_box Warning ''Attenzione''
                            ''Seleziona almeno un tipo di file da caricare'' u0,
            loaded_layers = 0, own_state = st0\<rparr>
      else (let u1 = toggle_controls False u0;
                ((raised, loaded_count, total_files), u2, st) =
                   load_try (req\<lparr>source_path := strip (source_path req)\<rparr>) u1 st0;
                u3 = (case raised of
                        Some e \<Rightarrow>
                          message_box Warning ''Errore''
                            (''Si '' @ [CHR 0xE8]
                               @ '' verificato un errore durante il caricamento: '' @ e) u2
                      | None \<Rightarrow> u2);
                u4 = toggle_controls True u3;
                u5 = (if loaded_count > 0
                      then message_box Information ''Completato''
                             (''Caricamento completato.'' @ nl @ nl @ ''Layer caricati: ''
                                @ str_int (int loaded_count)) u4
                      else message_box Warning ''Attenzione''
                             (''Nessun layer caricato su '' @ str_int (int total_files)
                                @ '' file trovati.'' @ nl
                                @ ''Verifica i filtri applicati e i formati selezionati.'') u4)
            in \<lparr>load_propagated = None, load_screen = u5, loaded_layers = loaded_count,
                own_state = st\<rparr>))"

section \<open>The run handlers of the feature excluder and of the layer renamer\<close>

subsection \<open>\<open>exclude_features\<close>\<close>

text \<open>
  The fields of a request are the widgets the handler reads (\<open>eflayerdef\<close>,
  \<open>efjoindef\<close>, ...), the store of geometry objects, the user's replies and selection,
  and the outcomes of the backup and of the deletion.  \<open>eflayerdef\<close> and
  \<open>eflayermatch\<close> are \<open>None\<close> when no layer is selected; \<open>eflayerdef_name\<close> and
  \<open>eflayermatch_name\<close> are what \<open>source_layer.name()\<close> and \<open>match_layer.name()\<close>
  answer.
\<close>

record ('g, 'v) exclude_request =
  geo_host :: "('g, 'v) host"
  eflayerdef :: "'v layer option"
  eflayermatch :: "'v layer option"
  eflayerdef_name :: string
  eflayermatch_name :: string
  same_layer_id :: bool
  efjoindef :: string
  efjoinmatch :: string
  efcase :: bool
  efcheckgeom :: bool
  eftoll :: real
  efspat_enabled :: bool
  efspat :: string
  efbkp :: bool
  geometry_store :: "'g list"
  proceed_same_layer :: bool
  selection_accepted :: bool
  selected_fids :: "fid list"
  backup_path :: "string option"
  proceed_without_backup :: bool
  delete_error :: "exn option"
  editable_on_error :: bool

record exclude_result =
  exclude_propagated :: "exn option"
  exclude_screen :: ui
  deleted_features :: "fid list"
  rolled_back :: bool

definition same_layer_text :: "string \<Rightarrow> string \<Rightarrow> string" where
  "same_layer_text source_name match_name =
     ''<html>You have selected the same layer as both source and comparison.<br><br>''
       @ ''<b>Source layer:</b> <span style='' @ [CHR 0x27]
       @ ''color:#0066cc; font-weight:bold; font-style:italic;'' @ [CHR 0x27] @ ''>''
       @ source_name @ ''</span><br>''
       @ ''<b>Comparison layer:</b> <span style='' @ [CHR 0x27]
       @ ''color:#cc6600; font-weight:bold; font-style:italic;'' @ [CHR 0x27] @ ''>''
       @ match_name @ ''</span><br><br>''
       @ ''This means you are looking for duplicate features within the same layer.<br><br>''
       @ ''Do you want to proceed?</html>''"

definition selection_text :: "bool \<Rightarrow> fid list \<Rightarrow> fid list \<Rightarrow> string" where
  "selection_text check_geometry to_delete different =
     (if check_geometry
      then ''Trovate '' @ str_int (int (length to_delete)) @ '' feature da eliminare.'' @ nl
             @ ''Di cui ''
             @ str_int (int (length (filter (\<lambda>i. i \<notin> set different) to_delete)))
             @ '' con geometria uguale e '' @ str_int (int (length different))
             @ '' con geometria diversa.''
      else ''Found '' @ str_int (int (length to_delete)) @ '' features to delete.'')"

text \<open>
  Lines 324-759, the \<open>try\<close> block: \<open>Inl e\<close> is an exception that reaches the
  handler, \<open>Inr\<close> the ids deleted from the source layer.  The second component is the
  screen when the block is left.
\<close>

definition exclude_try ::
  "('g, 'v) exclude_request \<Rightarrow> 'v layer \<Rightarrow> 'v layer \<Rightarrow> ui \<Rightarrow> (exn + fid list) \<times> ui" where
  "exclude_try req source_layer match_layer u =
     (let check_geometry = efcheckgeom req;
          tolerance = (if check_geometry then eftoll req else 0);
          spatial_relation = (if efspat_enabled req then efspat req else ''equals'')
      in case analyse (geo_host req) (efcase req) check_geometry tolerance spatial_relation
                source_layer (efjoindef req) match_layer (efjoinmatch req)
                (geometry_store req) of
           Inl (e, h) \<Rightarrow> (Inl e, u)
         | Inr st \<Rightarrow>
             if features_to_delete st = []
             then (Inr [],
                   toggle_controls True
                     (message_box Information ''Result''
                        (''No matching records found.'' @ nl
                           @ ''Check the join fields and geometries.'') u))
             else (let u1 = message_box Question ''Feature selection''
                              (selection_text check_geometry (features_to_delete st)
                                 (features_with_different_geom st)) u
                   in if selection_accepted req
                      then (if selected_fids req = []
                            then (Inr [],
                                  toggle_controls True
                                    (message_box Information ''Operation cancelled''
                                       ''No feature selected for deletion.'' u1))
                            else (let delete =
                                        (\<lambda>u'. case delete_error req of
                                                 Some e \<Rightarrow> (Inl e, u')
                                               | None \<Rightarrow>
                                                   (Inr (selected_fids req),
                                                    message_box Information
                                                      ''Operation completed''
                                                      (''Deleted ''
                                                         @ str_int (int (length (selected_fids req)))
                                                         @ '' features from layer ''
                                                         @ eflayerdef_name req @ ''.'') u'))
                                  in if efbkp req \<and> backup_path req = None
                                     then (let u2 = message_box Question ''Backup error''
                                                      (''Failed to create layer backup.'' @ nl
                                                         @ ''Proceed with deletion?'') u1
                                           in if proceed_without_backup req then delete u2
                                              else (Inr [], toggle_controls True u2))
                                     else delete u1))
                      else (Inr [], toggle_controls True u1)))"

definition exclude_features :: "('g, 'v) exclude_request \<Rightarrow> ui \<Rightarrow> exclude_result" where
  "exclude_features req u0 =
     (let return = (\<lambda>u. \<lparr>exclude_propagated = None, exclude_screen = u,
                           deleted_features = [], rolled_back = False\<rparr>)
      in case (eflayerdef req, eflayermatch req) of
           (Some source_layer, Some match_layer) \<Rightarrow>
             if efjoindef req = [] \<or> efjoinmatch req = []
             then return (message_box Warning ''Warning'' ''Select join fields'' u0)
             else (let u1 = (if same_layer_id req
                             then message_box Warning ''Warning''
                                    (same_layer_text (eflayerdef_name req)
                                       (eflayermatch_name req)) u0
                             else u0)
                   in if same_layer_id req \<and> \<not> proceed_same_layer req then return u1
                      else (case exclude_try req source_layer match_layer
                                   (toggle_controls False u1) of
                              (Inl e, u2) \<Rightarrow>
                                \<lparr>exclude_propagated = None,
                                 exclude_screen =
                                   toggle_controls True
                                     (message_box Critical ''Error''
                                        (''An error occurred during the operation:'' @ nl @ e)
                                        u2),
                                 deleted_features = [],
                                 rolled_back = editable_on_error req\<rparr>
                            | (Inr removed, u2) \<Rightarrow>
                                \<lparr>exclude_propagated = None,
                                 exclude_screen = toggle_controls True u2,
                                 deleted_features = removed,
                                 rolled_back = False\<rparr>))
         | other \<Rightarrow> return (message_box Warning ''Warning'' ''Select both layers'' u0))"

subsection \<open>\<open>rename_layers\<close>\<close>

text \<open>
  \<open>rlsx\<close> and \<open>rldx\<close> are the results of \<open>int(text or "0")\<close>, \<open>None\<close> for a
  \<open>ValueError\<close>.
\<close>

record rename_request =
  selected_layers :: "rl_layer list"
  rlpre :: string
  rlsuf :: string
  rlsos :: string
  rlcon :: string
  rlsx :: "int option"
  rldx :: "int option"
  delete_text_confirmed :: bool
  rename_confirmed :: bool

record rename_result =
  rename_propagated :: "exn option"
  rename_screen :: ui
  layers_after :: "rl_layer list"

definition operation_text :: "string \<Rightarrow> string \<Rightarrow> string \<Rightarrow> string \<Rightarrow> int \<Rightarrow> int \<Rightarrow> string" where
  "operation_text pre suf search_text replace_text remove_left remove_right =
     (let q = [CHR 0x27];
          operations =
            (if pre \<noteq> [] then [''Aggiungere il prefisso: '' @ q @ pre @ q] else [])
            @ (if suf \<noteq> [] then [''Aggiungere il suffisso: '' @ q @ suf @ q] else [])
            @ (if search_text \<noteq> []
               then [''Sostituire '' @ q @ search_text @ q @ '' con '' @ q @ replace_text @ q]
               else [])
            @ (if remove_left > 0
               then [''Rimuovere '' @ str_int remove_left @ '' caratteri da sinistra''] else [])
            @ (if remove_right > 0
               then [''Rimuovere '' @ str_int remove_right @ '' caratteri da destra''] else [])
      in join nl (map (\<lambda>op. ''- '' @ op) operations))"

definition result_message :: "rl_acc \<Rightarrow> string" where
  "result_message acc =
     (let m1 = (if renamed_layers acc \<noteq> []
                then ''Rinomina completata per '' @ str_int (int (length (renamed_layers acc)))
                       @ '' layer:'' @ nl @ join nl (renamed_layers acc)
                else []);
          m2 = (if error_layers acc \<noteq> []
                then (if m1 \<noteq> [] then m1 @ nl @ nl else m1)
                       @ ''Errori in '' @ str_int (int (length (error_layers acc)))
                       @ '' layer:'' @ nl @ join nl (error_layers acc)
                else m1)
      in if m2 = [] then ''Nessun layer rinominato.'' else m2)"

definition rename_layers :: "rename_request \<Rightarrow> ui \<Rightarrow> rename_result" where
  "rename_layers req u0 =
     (let return = (\<lambda>u. \<lparr>rename_propagated = None, rename_screen = u,
                           layers_after = selected_layers req\<rparr>)
      in if selected_layers req = []
         then return (message_box Warning ''Attenzione'' ''Seleziona almeno un layer'' u0)
         else (case (rlsx req, rldx req) of
                 (Some remove_left, Some remove_right) \<Rightarrow>
                   if \<not> (rlpre req \<noteq> [] \<or> rlsuf req \<noteq> [] \<or> rlsos req \<noteq> []
                          \<or> remove_left > 0 \<or> remove_right > 0)
                   then return (message_box Warning ''Attenzione''
                                  ''Inserisci almeno un parametro di rinomina'' u0)
                   else (let ask_delete = (rlsos req \<noteq> [] \<and> rlcon req = []);
                             u1 = (if ask_delete
                                   then message_box Question ''Conferma''
                                          (''Hai inserito un testo da sostituire ma non un testo sostitutivo.''
                                             @ nl
                                             @ ''Vuoi procedere eliminando il testo da sostituire?'')
                                          u0
                                   else u0)
                         in if ask_delete \<and> \<not> delete_text_confirmed req then return u1
                            else (let replace_text = rlcon req;
                                      u2 = message_box Question ''Conferma''
                                             (''Applicare le seguenti operazioni ai ''
                                                @ str_int (int (length (selected_layers req)))
                                                @ '' layer selezionati?'' @ nl @ nl
                                                @ operation_text (rlpre req) (rlsuf req)
                                                    (rlsos req) replace_text remove_left
                                                    remove_right)
                                             u1
                                  in if \<not> rename_confirmed req then return u2
                                     else (let u3 = toggle_controls False u2
                                           in case rename_loop remove_left remove_right
                                                     (rlsos req) replace_text (rlpre req)
                                                     (rlsuf req) (selected_layers req)
                                                     \<lparr>layers_done = [], renamed_layers = [],
                                                      error_layers = []\<rparr> of
                                                (Some e, acc) \<Rightarrow>
                                                  \<lparr>rename_propagated = Some e,
                                                   rename_screen = u3,
                                                   layers_after = layers_done acc\<rparr>
                                              | (None, acc) \<Rightarrow>
                                                  \<lparr>rename_propagated = None,
                                                   rename_screen =
                                                     message_box Information ''Completato''
                                                       (result_message acc)
                                                       (toggle_controls True u3),
                                                   layers_after = layers_done acc\<rparr>)))
               | other \<Rightarrow>
                   return (message_box Warning ''Errore''
                             ''I valori per rimuovere i caratteri devono essere numeri'' u0)))"

text \<open>
  Three requests: a renaming of two layers, the second of which the host has deleted; an
  exclusion whose source layer has a CRS the interval host cannot transform; and an
  exclusion over the two example layers in which the user closes the selection dialog.
\<close>

definition stale_layer_request :: rename_request where
  "stale_layer_request =
     \<lparr>selected_layers = [\<lparr>name_text = ''rivers'', deleted = False\<rparr>,
                          \<lparr>name_text = ''roads'', deleted = True\<rparr>],
      rlpre = ''old_'', rlsuf = [], rlsos = [], rlcon = [], rlsx = Some 0, rldx = Some 0,
      delete_text_confirmed = False, rename_confirmed = True\<rparr>"

definition failing_transform_request :: "(int \<times> int, string) exclude_request" where
  "failing_transform_request =
     \<lparr>geo_host = interval_host,
      eflayerdef = Some (example_source_layer\<lparr>crs_authid := ''EPSG:3003''\<rparr>),
      eflayermatch = Some example_match_layer,
      eflayerdef_name = ''source'', eflayermatch_name = ''match'', same_layer_id = False,
      efjoindef = ''code'', efjoinmatch = ''code'', efcase = False, efcheckgeom = True,
      eftoll = 2, efspat_enabled = True, efspat = ''intersects'', efbkp = False,
      geometry_store = example_heap, proceed_same_layer = False,
      selection_accepted = True, selected_fids = [10], backup_path = None,
      proceed_without_backup = False, delete_error = None, editable_on_error = False\<rparr>"

definition closed_selection_request :: "(int \<times> int, string) exclude_request" where
  "closed_selection_request =
     failing_transform_request\<lparr>eflayerdef := Some example_source_layer,
                                selection_accepted := False\<rparr>"

subsection \<open>The format selector of the batch converter\<close>

text \<open>
  \<open>BatchConverter\<close> keeps one attribute that its handlers assign after the
  constructor: the flag \<open>_crs_forced_by_csv\<close>.  \<open>update_ui_for_format\<close> (lines
  313-372) is the handler of a change of the output format; \<open>format_widgets\<close> holds the
  widgets it reads and sets.  Setting a checkbox to the state it has emits no signal;
  otherwise the connected slot runs: \<open>toggle_crs_widget\<close> for \<open>bctransformcrs\<close> and
  \<open>_singlefile_toggled\<close> for \<open>bcsinglefile\<close>.
\<close>

record converter =
  crs_forced_by_csv :: bool

definition new_converter :: converter where
  "new_converter = \<lparr>crs_forced_by_csv = False\<rparr>"

record format_widgets =
  bcoutputformat :: string
  bcdelimiter_enabled :: bool
  bcdelimiterlabel_enabled :: bool
  bcdelimiter_visible :: bool
  bcdelimiterlabel_visible :: bool
  bcdelimiter_index :: int
  bctransformcrs_checked :: bool
  bctransformcrs_enabled :: bool
  bcoutputcrs_enabled :: bool
  bclayernamelabel_text :: string
  bclayername_placeholder :: string
  bclayername_enabled :: bool
  bcsinglefile_enabled :: bool
  bcsinglefile_checked :: bool
  bcsinglefile_visible :: bool
  gpkgNameLabel_visible :: bool
  gpkgNameLine_visible :: bool

definition toggle_crs_widget :: "bool \<Rightarrow> format_widgets \<Rightarrow> format_widgets" where
  "toggle_crs_widget checked w = w\<lparr>bcoutputcrs_enabled := checked\<rparr>"

definition bctransformcrs_setChecked :: "bool \<Rightarrow> format_widgets \<Rightarrow> format_widgets" where
  "bctransformcrs_setChecked checked w =
     (if bctransformcrs_checked w = checked then w
      else toggle_crs_widget checked (w\<lparr>bctransformcrs_checked := checked\<rparr>))"

definition singlefile_toggled :: "bool \<Rightarrow> format_widgets \<Rightarrow> format_widgets" where
  "singlefile_toggled checked w =
     (if checked
      then w\<lparr>bclayernamelabel_text := ''Nome layer interni (opzionale):'',
             gpkgNameLabel_visible := True, gpkgNameLine_visible := True\<rparr>
      else w\<lparr>bclayernamelabel_text := ''Nome file di output (opzionale):'',
             gpkgNameLabel_visible := False, gpkgNameLine_visible := False\<rparr>)"

definition bcsinglefile_setChecked :: "bool \<Rightarrow> format_widgets \<Rightarrow> format_widgets" where
  "bcsinglefile_setChecked checked w =
     (if bcsinglefile_checked w = checked then w
      else singlefile_toggled checked (w\<lparr>bcsinglefile_checked := checked\<rparr>))"

definition update_ui_for_format ::
  "format_widgets \<Rightarrow> converter \<Rightarrow> format_widgets \<times> converter" where
  "update_ui_for_format w0 own =
     (let current_format = bcoutputformat w0;
          is_csv = (current_format = ''CSV'');
          w1 = w0\<lparr>bcdelimiter_enabled := is_csv, bcdelimiterlabel_enabled := is_csv\<rparr>;
          (w2, own') =
            (if is_csv
             then (let wa = (if bctransformcrs_checked w1
                             then bctransformcrs_setChecked False w1 else w1)
                   in (wa\<lparr>bctransformcrs_enabled := False, bcoutputcrs_enabled := False,
                          bcdelimiterlabel_visible := True, bcdelimiter_visible := True\<rparr>,
                       own\<lparr>crs_forced_by_csv := True\<rparr>))
             else (let wa = w1\<lparr>bctransformcrs_enabled := True\<rparr>;
                       wb = (if crs_forced_by_csv own
                             then bctransformcrs_setChecked True wa else wa);
                       wc = wb\<lparr>bcoutputcrs_enabled := bctransformcrs_checked wb\<rparr>
                   in (wc\<lparr>bcdelimiterlabel_visible := False, bcdelimiter_visible := False\<rparr>,
                       own\<lparr>crs_forced_by_csv := False\<rparr>)));
          w3 = w2\<lparr>bclayernamelabel_text := ''Nome file di output (opzionale):'',
                  bclayername_placeholder := ''Lascia vuoto per usare il nome originale'',
                  bclayername_enabled := True\<rparr>;
          is_gpkg = (current_format = ''GeoPackage'');
          w4 = bcsinglefile_setChecked is_gpkg (w3\<lparr>bcsinglefile_enabled := is_gpkg\<rparr>);
          w5 = w4\<lparr>bcsinglefile_visible := is_gpkg, bcdelimiter_index := 3\<rparr>
      in (w5, own'))"

text \<open>The user picks another output format in the combo box.\<close>

definition change_format ::
  "string \<Rightarrow> format_widgets \<times> converter \<Rightarrow> format_widgets \<times> converter" where
  "change_format fmt x = update_ui_for_format ((fst x)\<lparr>bcoutputformat := fmt\<rparr>) (snd x)"

text \<open>
  The widgets of a converter showing the format \<open>GeoJSON\<close>, with the reprojection
  checkbox cleared by the user.
\<close>

definition geojson_widgets :: format_widgets where
  "geojson_widgets =
     \<lparr>bcoutputformat = ''GeoJSON'', bcdelimiter_enabled = False,
      bcdelimiterlabel_enabled = False, bcdelimiter_visible = False,
      bcdelimiterlabel_visible = False, bcdelimiter_index = 3,
      bctransformcrs_checked = False, bctransformcrs_enabled = True,
      bcoutputcrs_enabled = False,
      bclayernamelabel_text = ''Nome file di output (opzionale):'',
      bclayername_placeholder = ''Lascia vuoto per usare il nome originale'',
      bclayername_enabled = True, bcsinglefile_enabled = False,
      bcsinglefile_checked = False, bcsinglefile_visible = False,
      gpkgNameLabel_visible = False, gpkgNameLine_visible = False\<rparr>"

subsection \<open>Vocabulary of the statements about the loader\<close>

text \<open>The part of a result that is not the loader's own state.\<close>

definition obs :: "'a \<times> ui \<times> loader \<Rightarrow> 'a \<times> ui" where
  "obs x = (fst x, fst (snd x))"

text \<open>
  A request to load a folder without files, with the option to group layers by folder
  and no group of the folder's name present: the host creates group 7.
\<close>

definition empty_directory_request :: load_request where
  "empty_directory_request =
     \<lparr>source_path = ''/data/empty'', any_format_checked = True, llcheckgroup = True,
      llchecknest = False,
      source = Directory (Created 7) [\<lparr>root_is_directory = True, parts = [], files = []\<rparr>],
      remove_empty_groups_error = None\<rparr>"

section \<open>Properties of the layer renamer\<close>

lemma replace_str_Nil: "old \<noteq> [] \<Longrightarrow> replace_str old new [] = []"
  by (simp add: replace_str.simps)

lemma remove_left_stage:
  "(if rl > 0 then (if int (length s) > rl then drop (nat rl) s else []) else s)
     = spec_remove_left rl s"
  by (cases s) (auto simp: spec_remove_left_def)

lemma remove_right_stage:
  "(if rr > 0 \<and> s \<noteq> [] then (if int (length s) > rr then take (length s - nat rr) s else [])
    else s) = spec_remove_right rr s"
  by (cases s) (auto simp: spec_remove_right_def)

lemma replace_stage:
  "(if st \<noteq> [] \<and> s \<noteq> [] then replace_str st rt s else s) = spec_replace st rt s"
  by (auto simp: spec_replace_def replace_str_Nil)

lemma new_name_refines_spec:
  "rename_layers_new_name rl rr st rt pre suf old_name = spec_new_name rl rr st rt pre suf old_name"
  unfolding rename_layers_new_name_def spec_new_name_def Let_def
    remove_left_stage remove_right_stage replace_stage
  by simp

text \<open>
  Claim C8.  For every layer name and all renaming parameters, the name computed by
  the renamer is the prefix, followed by the old name with the given number of
  characters removed from the left (empty if the name is not longer), then from the
  right (same rule), then every occurrence of the search text replaced, followed by the
  suffix.  When that name is empty, the layer keeps its name and an error entry is
  recorded instead of a renaming; otherwise the layer gets exactly that name.
\<close>

theorem C8_rename_order:
  "rename_layers_new_name rl rr st rt pre suf old_name
     = spec_new_name rl rr st rt pre suf old_name
   \<and> rename_one rl rr st rt pre suf \<lparr>name_text = old_name, deleted = False\<rparr> acc
     = (if spec_new_name rl rr st rt pre suf old_name = []
        then Inr (acc\<lparr>layers_done := layers_done acc
                          @ [\<lparr>name_text = old_name, deleted = False\<rparr>],
                      error_layers := error_layers acc
                          @ [old_name @ '' (nome risultante vuoto)'']\<rparr>)
        else Inr (acc\<lparr>layers_done := layers_done acc
                          @ [\<lparr>name_text = spec_new_name rl rr st rt pre suf old_name,
                              deleted = False\<rparr>],
                      renamed_layers := renamed_layers acc
                          @ [old_name @ '' -> ''
                               @ spec_new_name rl rr st rt pre suf old_name]\<rparr>))"
  by (simp add: new_name_refines_spec rename_one_def name_of_def setName_def Let_def)


theorem C8_rename_order_witness:
  "rename_layers_new_name 2 1 ''ab'' ''X'' ''p_'' ''_s'' ''zzabcabq'' = ''p_XcX_s''
   \<and> rename_layers_new_name 3 0 [] [] [] [] ''abc'' = []
   \<and> rename_one 3 0 [] [] [] [] \<lparr>name_text = ''abc'', deleted = False\<rparr>
         \<lparr>layers_done = [], renamed_layers = [], error_layers = []\<rparr>
       = Inr \<lparr>layers_done = [\<lparr>name_text = ''abc'', deleted = False\<rparr>],
              renamed_layers = [], error_layers = [''abc (nome risultante vuoto)'']\<rparr>"
  using C8_rename_order [of 2 1 "''ab''" "''X''" "''p_''" "''_s''" "''zzabcabq''"]
    C8_rename_order [of 3 0 "[]" "[]" "[]" "[]" "''abc''"
      "\<lparr>layers_done = [], renamed_layers = [], error_layers = []\<rparr>"]
  by (simp add: spec_new_name_def spec_remove_left_def spec_remove_right_def
        spec_replace_def replace_str.simps)

section \<open>Properties of the feature excluder's analysis\<close>

subsection \<open>The store only grows\<close>

lemma prefix_nth: "prefix h h' \<Longrightarrow> a < length h \<Longrightarrow> h' ! a = h ! a"
  by (auto simp: prefix_def nth_append)

lemma prefix_length: "prefix h h' \<Longrightarrow> a < length h \<Longrightarrow> a < length h'"
  by (auto simp: prefix_def)

lemma to_metric_Inr:
  assumes "to_metric host need crs a h = Inr (a', h')" and "a < length h"
  shows "prefix h h' \<and> a' < length h' \<and> metric_of host need crs (h ! a) (h' ! a')"
  using assms
  by (auto simp: to_metric_def metric_of_def Let_def nth_append prefix_def
           split: if_splits sum.splits)

lemma to_metric_Inl:
  assumes "to_metric host need crs a h = Inl (e, h')"
  shows "prefix h h'"
  using assms
  by (auto simp: to_metric_def Let_def split: if_splits sum.splits)

lemma source_body_frame:
  assumes "source_loop_body host cs cg nts crs fld tol rel sf st = Inr st'"
    and "geometry sf < length (heap st)"
  shows "prefix (heap st) (heap st') \<and> match_features st' = match_features st
         \<and> match_geometries st' = match_geometries st
         \<and> spatial_index st' = spatial_index st
         \<and> prefix (features_with_different_geom st) (features_with_different_geom st')
         \<and> prefix (features_to_delete st) (features_to_delete st')
         \<and> prefix (compared st) (compared st')"
  using assms
  by (auto simp: source_loop_body_def Let_def
           split: option.splits if_splits sum.splits prod.splits
           dest!: to_metric_Inr)

lemma source_body_Inl:
  assumes "source_loop_body host cs cg nts crs fld tol rel sf st = Inl (e, h)"
  shows "prefix (heap st) h"
  using assms
  by (auto simp: source_loop_body_def Let_def
           split: option.splits if_splits sum.splits prod.splits
           dest!: to_metric_Inl)

lemma source_loop_frame:
  assumes "source_loop host cs cg nts crs fld tol rel fs st = Inr st'"
    and "\<forall>f \<in> set fs. geometry f < length (heap st)"
  shows "prefix (heap st) (heap st') \<and> match_features st' = match_features st
         \<and> match_geometries st' = match_geometries st
         \<and> spatial_index st' = spatial_index st
         \<and> prefix (features_with_different_geom st) (features_with_different_geom st')
         \<and> prefix (features_to_delete st) (features_to_delete st')
         \<and> prefix (compared st) (compared st')"
  using assms
proof (induction fs arbitrary: st)
  case Nil
  then show ?case by simp
next
  case (Cons f fs)
  from Cons.prems(1) obtain st1 where
    b: "source_loop_body host cs cg nts crs fld tol rel f st = Inr st1" and
    l: "source_loop host cs cg nts crs fld tol rel fs st1 = Inr st'"
    by (auto split: sum.splits)
  from Cons.prems(2) have gf: "geometry f < length (heap st)" by simp
  note fr = source_body_frame [OF b gf]
  have "\<forall>f \<in> set fs. geometry f < length (heap st1)"
    using Cons.prems(2) fr by (auto dest: prefix_length)
  from Cons.IH [OF l this] fr show ?case
    by (auto intro: prefix_order.trans)
qed

lemma source_body_adds:
  assumes "source_loop_body host cs True nts crs fld tol rel sf st = Inr st'"
    and "attrs sf fld = Some v"
    and "match_features st (join_key host cs v) = Some mid"
    and "match_geometries st mid = Some b"
    and "b < length (heap st)" and "geometry sf < length (heap st)"
    and "\<not> isNull host (heap st ! geometry sf)" and "\<not> isEmpty host (heap st ! geometry sf)"
    and "\<not> isNull host (heap st ! b)"
    and "metric_of host nts crs (heap st ! geometry sf) gs"
  shows "compared st' = compared st @ [(gs, heap st ! b)]
         \<and> (is_different host tol rel gs (heap st ! b)
              \<longrightarrow> features_with_different_geom st'
                    = features_with_different_geom st @ [fid sf])
         \<and> (\<not> is_different host tol rel gs (heap st ! b)
              \<longrightarrow> features_with_different_geom st' = features_with_different_geom st)"
  using assms
  by (auto simp: source_loop_body_def Let_def to_metric_def metric_of_def nth_append
           split: option.splits if_splits sum.splits prod.splits)

lemma source_loop_adds:
  assumes "source_loop host cs True nts crs fld tol rel fs st = Inr st'"
    and "sf \<in> set fs"
    and "\<forall>f \<in> set fs. geometry f < length (heap st)"
    and "attrs sf fld = Some v"
    and "match_features st (join_key host cs v) = Some mid"
    and "match_geometries st mid = Some b"
    and "b < length (heap st)"
    and "\<not> isNull host (heap st ! geometry sf)" and "\<not> isEmpty host (heap st ! geometry sf)"
    and "\<not> isNull host (heap st ! b)"
    and "metric_of host nts crs (heap st ! geometry sf) gs"
    and "is_different host tol rel gs (heap st ! b)"
  shows "fid sf \<in> set (features_with_different_geom st')"
  using assms
proof (induction fs arbitrary: st)
  case Nil
  then show ?case by simp
next
  case (Cons f fs)
  from Cons.prems(1) obtain st1 where
    b: "source_loop_body host cs True nts crs fld tol rel f st = Inr st1" and
    l: "source_loop host cs True nts crs fld tol rel fs st1 = Inr st'"
    by (auto split: sum.splits)
  from Cons.prems(3) have gf: "geometry f < length (heap st)" by simp
  note fr = source_body_frame [OF b gf]
  have wf1: "\<forall>f \<in> set fs. geometry f < length (heap st1)"
    using Cons.prems(3) fr by (auto dest: prefix_length)
  note lf = source_loop_frame [OF l wf1]
  show ?case
  proof (cases "sf = f")
    case True
    have "features_with_different_geom st1 = features_with_different_geom st @ [fid sf]"
      using source_body_adds [OF b [folded True] Cons.prems(4-6) Cons.prems(7)
          gf [folded True] Cons.prems(8-11)] Cons.prems(12)
      by simp
    then have "fid sf \<in> set (features_with_different_geom st1)" by simp
    with lf show ?thesis by (auto simp: prefix_def)
  next
    case False
    with Cons.prems(2) have in_fs: "sf \<in> set fs" by simp
    have gsf: "geometry sf < length (heap st)" using Cons.prems(2,3) by auto
    have h1: "heap st1 ! geometry sf = heap st ! geometry sf" "heap st1 ! b = heap st ! b"
      using fr gsf Cons.prems(7) by (auto dest: prefix_nth)
    have b1: "b < length (heap st1)" using fr Cons.prems(7) by (auto dest: prefix_length)
    show ?thesis
      using Cons.IH [OF l in_fs wf1 Cons.prems(4)] Cons.prems(5-6,8-12) fr h1 b1
      by simp
  qed
qed


lemma source_body_flags:
  assumes "source_loop_body host cs cg nts crs fld tol rel sf st = Inr st'"
  shows "set (features_with_different_geom st')
           \<subseteq> insert (fid sf) (set (features_with_different_geom st))"
  using assms
  by (auto simp: source_loop_body_def Let_def
           split: option.splits if_splits sum.splits prod.splits)

lemma source_loop_flags:
  assumes "source_loop host cs cg nts crs fld tol rel fs st = Inr st'"
  shows "set (features_with_different_geom st')
           \<subseteq> set (features_with_different_geom st) \<union> fid ` set fs"
  using assms
proof (induction fs arbitrary: st)
  case Nil
  then show ?case by simp
next
  case (Cons f fs)
  from Cons.prems obtain st1 where
    b: "source_loop_body host cs cg nts crs fld tol rel f st = Inr st1" and
    l: "source_loop host cs cg nts crs fld tol rel fs st1 = Inr st'"
    by (auto split: sum.splits)
  from Cons.IH [OF l] source_body_flags [OF b] show ?case by auto
qed

lemma source_loop_keeps:
  assumes "source_loop host cs True nts crs fld tol rel fs st = Inr st'"
    and "sf \<in> set fs"
    and "\<forall>f \<in> set fs. geometry f < length (heap st)"
    and "attrs sf fld = Some v"
    and "match_features st (join_key host cs v) = Some mid"
    and "match_geometries st mid = Some b"
    and "b < length (heap st)"
    and "\<not> isNull host (heap st ! geometry sf)" and "\<not> isEmpty host (heap st ! geometry sf)"
    and "\<not> isNull host (heap st ! b)"
    and "metric_of host nts crs (heap st ! geometry sf) gs"
    and "\<not> is_different host tol rel gs (heap st ! b)"
    and "distinct (map fid fs)"
    and "fid sf \<notin> set (features_with_different_geom st)"
  shows "fid sf \<notin> set (features_with_different_geom st')"
  using assms
proof (induction fs arbitrary: st)
  case Nil
  then show ?case by simp
next
  case (Cons f fs)
  from Cons.prems(1) obtain st1 where
    b: "source_loop_body host cs True nts crs fld tol rel f st = Inr st1" and
    l: "source_loop host cs True nts crs fld tol rel fs st1 = Inr st'"
    by (auto split: sum.splits)
  from Cons.prems(3) have gf: "geometry f < length (heap st)" by simp
  note fr = source_body_frame [OF b gf]
  have wf1: "\<forall>f \<in> set fs. geometry f < length (heap st1)"
    using Cons.prems(3) fr by (auto dest: prefix_length)
  show ?case
  proof (cases "sf = f")
    case True
    have "features_with_different_geom st1 = features_with_different_geom st"
      using source_body_adds [OF b [folded True] Cons.prems(4-6) Cons.prems(7)
          gf [folded True] Cons.prems(8-11)] Cons.prems(12)
      by simp
    then have "fid sf \<notin> set (features_with_different_geom st1)"
      using Cons.prems(14) by simp
    moreover have "fid sf \<notin> fid ` set fs"
      using Cons.prems(13) True by auto
    ultimately show ?thesis
      using source_loop_flags [OF l] by auto
  next
    case False
    with Cons.prems(2) have in_fs: "sf \<in> set fs" by simp
    then have "fid sf \<in> fid ` set fs" by simp
    then have "fid sf \<noteq> fid f" using Cons.prems(13) by auto
    then have fresh1: "fid sf \<notin> set (features_with_different_geom st1)"
      using source_body_flags [OF b] Cons.prems(14) by auto
    have gsf: "geometry sf < length (heap st)" using Cons.prems(2,3) by auto
    have h1: "heap st1 ! geometry sf = heap st ! geometry sf" "heap st1 ! b = heap st ! b"
      using fr gsf Cons.prems(7) by (auto dest: prefix_nth)
    have b1: "b < length (heap st1)" using fr Cons.prems(7) by (auto dest: prefix_length)
    have d1: "distinct (map fid fs)" using Cons.prems(13) by simp
    show ?thesis
      using Cons.IH [OF l in_fs wf1 Cons.prems(4)] Cons.prems(5-6,8-12) fr h1 b1 d1 fresh1
      by simp
  qed
qed


lemma source_body_compared:
  assumes "source_loop_body host cs cg nts crs fld tol rel sf st = Inr st'"
    and "geometry sf < length (heap st)"
    and "\<forall>i b. match_geometries st i = Some b \<longrightarrow> b < length (heap st)"
  shows "compared st' = compared st
         \<or> (\<exists>v mid b gs. attrs sf fld = Some v
               \<and> match_features st (join_key host cs v) = Some mid
               \<and> match_geometries st mid = Some b
               \<and> metric_of host nts crs (heap st ! geometry sf) gs
               \<and> compared st' = compared st @ [(gs, heap st ! b)])"
  using assms
  by (auto simp: source_loop_body_def Let_def to_metric_def metric_of_def nth_append
           split: option.splits if_splits sum.splits prod.splits)

lemma source_loop_compared:
  assumes "source_loop host cs cg nts crs fld tol rel fs st = Inr st'"
    and "\<forall>f \<in> set fs. geometry f < length (heap st)"
    and "\<forall>i b. match_geometries st i = Some b \<longrightarrow> b < length (heap st)"
    and "p \<in> set (compared st')"
  shows "p \<in> set (compared st)
         \<or> (\<exists>sf \<in> set fs. \<exists>v mid b. attrs sf fld = Some v
               \<and> match_features st (join_key host cs v) = Some mid
               \<and> match_geometries st mid = Some b
               \<and> metric_of host nts crs (heap st ! geometry sf) (fst p)
               \<and> snd p = heap st ! b)"
  using assms
proof (induction fs arbitrary: st)
  case Nil
  then show ?case by simp
next
  case (Cons f fs)
  from Cons.prems(1) obtain st1 where
    b: "source_loop_body host cs cg nts crs fld tol rel f st = Inr st1" and
    l: "source_loop host cs cg nts crs fld tol rel fs st1 = Inr st'"
    by (auto split: sum.splits)
  from Cons.prems(2) have gf: "geometry f < length (heap st)" by simp
  note fr = source_body_frame [OF b gf]
  have wf1: "\<forall>f \<in> set fs. geometry f < length (heap st1)"
    using Cons.prems(2) fr by (auto dest: prefix_length)
  have mg1: "\<forall>i b. match_geometries st1 i = Some b \<longrightarrow> b < length (heap st1)"
    using Cons.prems(3) fr by (auto dest: prefix_length)
  from Cons.IH [OF l wf1 mg1 Cons.prems(4)]
  consider (old) "p \<in> set (compared st1)"
    | (new) sf v mid b where "sf \<in> set fs" "attrs sf fld = Some v"
        "match_features st1 (join_key host cs v) = Some mid"
        "match_geometries st1 mid = Some b"
        "metric_of host nts crs (heap st1 ! geometry sf) (fst p)"
        "snd p = heap st1 ! b"
    by blast
  then show ?case
  proof cases
    case old
    with source_body_compared [OF b gf Cons.prems(3)] show ?thesis
      by (cases p) auto
  next
    case new
    have "heap st1 ! geometry sf = heap st ! geometry sf"
      using new(1) Cons.prems(2) fr by (auto dest: prefix_nth)
    moreover have "heap st1 ! b = heap st ! b"
      using new(4) Cons.prems(3) fr by (auto dest: prefix_nth)
    ultimately have "\<exists>v mid b. attrs sf fld = Some v
               \<and> match_features st (join_key host cs v) = Some mid
               \<and> match_geometries st mid = Some b
               \<and> metric_of host nts crs (heap st ! geometry sf) (fst p)
               \<and> snd p = heap st ! b"
      using new fr by auto
    with new(1) show ?thesis by (simp del: ex_simps) blast
  qed
qed


lemma match_body_frame:
  assumes "match_loop_body host cs cg ntm crs fld f st = Inr st'"
    and "geometry f < length (heap st)"
  shows "prefix (heap st) (heap st')
         \<and> features_to_delete st' = features_to_delete st
         \<and> features_with_different_geom st' = features_with_different_geom st
         \<and> compared st' = compared st"
  using assms
  by (auto simp: match_loop_body_def Let_def
           split: option.splits if_splits sum.splits prod.splits
           dest!: to_metric_Inr)

lemma match_body_features:
  assumes "match_loop_body host cs cg ntm crs fld f st = Inr st'"
  shows "match_features st' =
           (case feature_key host cs fld f of
              None \<Rightarrow> match_features st
            | Some k \<Rightarrow> (match_features st)(k \<mapsto> fid f))"
  using assms
  by (auto simp: match_loop_body_def Let_def feature_key_def
           split: option.splits if_splits sum.splits prod.splits)

lemma match_body_geoms:
  assumes "match_loop_body host cs cg ntm crs fld f st = Inr st'"
    and "geometry f < length (heap st)"
    and "match_geometries st' i = Some b"
  shows "match_geometries st i = Some b
         \<or> (i = fid f \<and> attrs f fld \<noteq> None \<and> b < length (heap st')
             \<and> metric_of host ntm crs (heap st ! geometry f) (heap st' ! b))"
  using assms
  by (auto simp: match_loop_body_def Let_def
           split: option.splits if_splits sum.splits prod.splits
           dest!: to_metric_Inr)

lemma match_body_Inl:
  assumes "match_loop_body host cs cg ntm crs fld f st = Inl (e, h)"
  shows "prefix (heap st) h"
  using assms
  by (auto simp: match_loop_body_def Let_def
           split: option.splits if_splits sum.splits prod.splits
           dest!: to_metric_Inl)

lemma match_loop_features:
  assumes "match_loop host cs cg ntm crs fld fs st = Inr st'"
  shows "match_features st' k =
           (case filter (\<lambda>f. feature_key host cs fld f = Some k) fs of
              [] \<Rightarrow> match_features st k
            | x # xs \<Rightarrow> Some (fid (last (x # xs))))"
  using assms
proof (induction fs arbitrary: st)
  case Nil
  then show ?case by simp
next
  case (Cons f fs)
  from Cons.prems obtain st1 where
    b: "match_loop_body host cs cg ntm crs fld f st = Inr st1" and
    l: "match_loop host cs cg ntm crs fld fs st1 = Inr st'"
    by (auto split: sum.splits)
  show ?case
    using Cons.IH [OF l] match_body_features [OF b]
    by (auto split: list.splits option.splits)
qed

lemma match_loop_frame:
  assumes "match_loop host cs cg ntm crs fld fs st = Inr st'"
    and "\<forall>f \<in> set fs. geometry f < length (heap st)"
  shows "prefix (heap st) (heap st')
         \<and> features_to_delete st' = features_to_delete st
         \<and> features_with_different_geom st' = features_with_different_geom st
         \<and> compared st' = compared st"
  using assms
proof (induction fs arbitrary: st)
  case Nil
  then show ?case by simp
next
  case (Cons f fs)
  from Cons.prems(1) obtain st1 where
    b: "match_loop_body host cs cg ntm crs fld f st = Inr st1" and
    l: "match_loop host cs cg ntm crs fld fs st1 = Inr st'"
    by (auto split: sum.splits)
  from Cons.prems(2) have gf: "geometry f < length (heap st)" by simp
  note fr = match_body_frame [OF b gf]
  have "\<forall>f \<in> set fs. geometry f < length (heap st1)"
    using Cons.prems(2) fr by (auto dest: prefix_length)
  from Cons.IH [OF l this] fr show ?case
    by (auto intro: prefix_order.trans)
qed

lemma match_loop_geoms:
  assumes "match_loop host cs cg ntm crs fld fs st = Inr st'"
    and "\<forall>f \<in> set fs. geometry f < length (heap st)"
    and "match_geometries st' i = Some b"
  shows "match_geometries st i = Some b
         \<or> (\<exists>f \<in> set fs. fid f = i \<and> attrs f fld \<noteq> None \<and> b < length (heap st')
               \<and> metric_of host ntm crs (heap st ! geometry f) (heap st' ! b))"
  using assms
proof (induction fs arbitrary: st)
  case Nil
  then show ?case by simp
next
  case (Cons f fs)
  from Cons.prems(1) obtain st1 where
    b: "match_loop_body host cs cg ntm crs fld f st = Inr st1" and
    l: "match_loop host cs cg ntm crs fld fs st1 = Inr st'"
    by (auto split: sum.splits)
  from Cons.prems(2) have gf: "geometry f < length (heap st)" by simp
  note fr = match_body_frame [OF b gf]
  have wf1: "\<forall>f \<in> set fs. geometry f < length (heap st1)"
    using Cons.prems(2) fr by (auto dest: prefix_length)
  note lf = match_loop_frame [OF l wf1]
  from Cons.IH [OF l wf1 Cons.prems(3)]
  consider (old) "match_geometries st1 i = Some b"
    | (new) g where "g \<in> set fs" "fid g = i" "attrs g fld \<noteq> None" "b < length (heap st')"
        "metric_of host ntm crs (heap st1 ! geometry g) (heap st' ! b)"
    by blast
  then show ?case
  proof cases
    case old
    from match_body_geoms [OF b gf old]
    show ?thesis
    proof
      assume "match_geometries st i = Some b"
      then show ?thesis by simp
    next
      assume n: "i = fid f \<and> attrs f fld \<noteq> None \<and> b < length (heap st1)
                 \<and> metric_of host ntm crs (heap st ! geometry f) (heap st1 ! b)"
      then have "heap st' ! b = heap st1 ! b" "b < length (heap st')"
        using lf by (auto dest: prefix_nth prefix_length)
      with n show ?thesis by auto
    qed
  next
    case new
    have "heap st1 ! geometry g = heap st ! geometry g"
      using new(1) Cons.prems(2) fr by (auto dest: prefix_nth)
    with new show ?thesis by auto
  qed
qed

lemma match_loop_Inl:
  assumes "match_loop host cs cg ntm crs fld fs st = Inl (e, h)"
    and "\<forall>f \<in> set fs. geometry f < length (heap st)"
  shows "prefix (heap st) h"
  using assms
proof (induction fs arbitrary: st)
  case Nil
  then show ?case by simp
next
  case (Cons f fs)
  show ?case
  proof (cases "match_loop_body host cs cg ntm crs fld f st")
    case (Inl x)
    with Cons.prems(1) have "x = (e, h)" by simp
    with Inl show ?thesis by (auto dest: match_body_Inl)
  next
    case (Inr st1)
    with Cons.prems(1) have l: "match_loop host cs cg ntm crs fld fs st1 = Inl (e, h)" by simp
    from Cons.prems(2) have gf: "geometry f < length (heap st)" by simp
    note fr = match_body_frame [OF Inr gf]
    have "\<forall>f \<in> set fs. geometry f < length (heap st1)"
      using Cons.prems(2) fr by (auto dest: prefix_length)
    from Cons.IH [OF l this] fr show ?thesis
      by (auto intro: prefix_order.trans)
  qed
qed

lemma source_loop_Inl:
  assumes "source_loop host cs cg nts crs fld tol rel fs st = Inl (e, h)"
    and "\<forall>f \<in> set fs. geometry f < length (heap st)"
  shows "prefix (heap st) h"
  using assms
proof (induction fs arbitrary: st)
  case Nil
  then show ?case by simp
next
  case (Cons f fs)
  show ?case
  proof (cases "source_loop_body host cs cg nts crs fld tol rel f st")
    case (Inl x)
    with Cons.prems(1) have "x = (e, h)" by simp
    with Inl show ?thesis by (auto dest: source_body_Inl)
  next
    case (Inr st1)
    with Cons.prems(1) have l: "source_loop host cs cg nts crs fld tol rel fs st1 = Inl (e, h)"
      by simp
    from Cons.prems(2) have gf: "geometry f < length (heap st)" by simp
    note fr = source_body_frame [OF Inr gf]
    have "\<forall>f \<in> set fs. geometry f < length (heap st1)"
      using Cons.prems(2) fr by (auto dest: prefix_length)
    from Cons.IH [OF l this] fr show ?thesis
      by (auto intro: prefix_order.trans)
  qed
qed


lemma initial_analysis_simps [simp]:
  "heap (initial_analysis h) = h"
  "match_features (initial_analysis h) = Map.empty"
  "match_geometries (initial_analysis h) = Map.empty"
  "features_to_delete (initial_analysis h) = []"
  "features_with_different_geom (initial_analysis h) = []"
  "compared (initial_analysis h) = []"
  by (simp_all add: initial_analysis_def)

lemma analyse_compared:
  assumes an: "analyse host cs cg tol rel src sfld mat mfld h0 = Inr st"
    and wfs: "\<forall>f \<in> set (getFeatures src). geometry f < length h0"
    and wfm: "\<forall>f \<in> set (getFeatures mat). geometry f < length h0"
    and p: "p \<in> set (compared st)"
  shows "\<exists>sf \<in> set (getFeatures src). \<exists>mf \<in> set (getFeatures mat). \<exists>k.
           feature_key host cs sfld sf = Some k
           \<and> filter (\<lambda>f. feature_key host cs mfld f = Some k) (getFeatures mat) \<noteq> []
           \<and> fid mf = fid (last (filter (\<lambda>f. feature_key host cs mfld f = Some k)
                                   (getFeatures mat)))
           \<and> metric_of host (cg \<and> crs_authid src \<noteq> ''EPSG:32632'') (crs_authid src)
                 (h0 ! geometry sf) (fst p)
           \<and> metric_of host (cg \<and> crs_authid mat \<noteq> ''EPSG:32632'') (crs_authid mat)
                 (h0 ! geometry mf) (snd p)"
proof -
  let ?nts = "cg \<and> crs_authid src \<noteq> ''EPSG:32632''"
  let ?ntm = "cg \<and> crs_authid mat \<noteq> ''EPSG:32632''"
  from an obtain stm where
    m: "match_loop host cs cg ?ntm (crs_authid mat) mfld (getFeatures mat)
          (initial_analysis h0) = Inr stm" and
    s: "source_loop host cs cg ?nts (crs_authid src) sfld tol rel (getFeatures src) stm = Inr st"
    by (auto simp: analyse_def Let_def split: sum.splits)
  have wfm': "\<forall>f \<in> set (getFeatures mat). geometry f < length (heap (initial_analysis h0))"
    using wfm by simp
  note mfr = match_loop_frame [OF m wfm']
  have wfs': "\<forall>f \<in> set (getFeatures src). geometry f < length (heap stm)"
    using wfs mfr by (auto dest: prefix_length)
  have mgb: "\<forall>i b. match_geometries stm i = Some b \<longrightarrow> b < length (heap stm)"
    using match_loop_geoms [OF m wfm'] by auto
  from source_loop_compared [OF s wfs' mgb p] mfr
  obtain sf v mid b where sf: "sf \<in> set (getFeatures src)" "attrs sf sfld = Some v"
    "match_features stm (join_key host cs v) = Some mid"
    "match_geometries stm mid = Some b"
    "metric_of host ?nts (crs_authid src) (heap stm ! geometry sf) (fst p)"
    "snd p = heap stm ! b"
    by auto
  let ?k = "join_key host cs v"
  let ?same = "filter (\<lambda>f. feature_key host cs mfld f = Some ?k) (getFeatures mat)"
  have key: "feature_key host cs sfld sf = Some ?k"
    using sf(2) by (simp add: feature_key_def)
  have lk: "?same \<noteq> [] \<and> mid = fid (last ?same)"
    using match_loop_features [OF m, of ?k] sf(3) by (auto split: list.splits)
  from match_loop_geoms [OF m wfm' sf(4)]
  obtain mf where mf: "mf \<in> set (getFeatures mat)" "fid mf = mid"
    "metric_of host ?ntm (crs_authid mat) (h0 ! geometry mf) (heap stm ! b)"
    by auto
  have "heap stm ! geometry sf = h0 ! geometry sf"
    using sf(1) wfs mfr by (auto dest: prefix_nth)
  with sf mf key lk show ?thesis by (simp del: ex_simps) blast
qed

lemma analyse_heap:
  assumes wfs: "\<forall>f \<in> set (getFeatures src). geometry f < length h0"
    and wfm: "\<forall>f \<in> set (getFeatures mat). geometry f < length h0"
  shows "case analyse host cs cg tol rel src sfld mat mfld h0 of
           Inl (e, h) \<Rightarrow> prefix h0 h
         | Inr st \<Rightarrow> prefix h0 (heap st)"
proof -
  let ?nts = "cg \<and> crs_authid src \<noteq> ''EPSG:32632''"
  let ?ntm = "cg \<and> crs_authid mat \<noteq> ''EPSG:32632''"
  have wfm': "\<forall>f \<in> set (getFeatures mat). geometry f < length (heap (initial_analysis h0))"
    using wfm by simp
  show ?thesis
  proof (cases "match_loop host cs cg ?ntm (crs_authid mat) mfld (getFeatures mat)
          (initial_analysis h0)")
    case (Inl x)
    then show ?thesis
      using match_loop_Inl [OF _ wfm', of host cs cg ?ntm "crs_authid mat" mfld "fst x" "snd x"]
      by (auto simp: analyse_def Let_def)
  next
    case (Inr stm)
    note mfr = match_loop_frame [OF Inr wfm']
    have wfs': "\<forall>f \<in> set (getFeatures src). geometry f < length (heap stm)"
      using wfs mfr by (auto dest: prefix_length)
    show ?thesis
    proof (cases "source_loop host cs cg ?nts (crs_authid src) sfld tol rel
                    (getFeatures src) stm")
      case (Inl x)
      then show ?thesis
        using source_loop_Inl [OF _ wfs', of host cs cg ?nts "crs_authid src" sfld tol rel
            "fst x" "snd x"] Inr mfr
        by (auto simp: analyse_def Let_def intro: prefix_order.trans)
    next
      case (Inr st)
      then show ?thesis
        using source_loop_frame [OF Inr wfs'] \<open>match_loop _ _ _ _ _ _ _ _ = Inr stm\<close> mfr
        by (auto simp: analyse_def Let_def intro: prefix_order.trans)
    qed
  qed
qed


lemma distinct_fid_eq:
  "distinct (map fid fs) \<Longrightarrow> f \<in> set fs \<Longrightarrow> g \<in> set fs \<Longrightarrow> fid f = fid g \<Longrightarrow> f = g"
  by (auto simp: distinct_map dest: inj_onD)

lemma source_body_delete:
  assumes "source_loop_body host cs cg nts crs fld tol rel sf st = Inr st'"
  shows "features_to_delete st' = features_to_delete st
         \<or> (attrs sf fld \<noteq> None \<and> features_to_delete st' = features_to_delete st @ [fid sf])"
  using assms
  by (auto simp: source_loop_body_def Let_def
           split: option.splits if_splits sum.splits prod.splits)

lemma source_body_lookup:
  assumes "source_loop_body host cs cg nts crs fld tol rel sf st = Inr st'"
  shows "match_features st' = match_features st"
  using assms
  by (auto simp: source_loop_body_def Let_def
           split: option.splits if_splits sum.splits prod.splits)

lemma source_loop_delete:
  assumes "source_loop host cs cg nts crs fld tol rel fs st = Inr st'"
    and "i \<in> set (features_to_delete st')"
  shows "i \<in> set (features_to_delete st)
         \<or> (\<exists>f \<in> set fs. fid f = i \<and> attrs f fld \<noteq> None)"
  using assms
proof (induction fs arbitrary: st)
  case Nil
  then show ?case by simp
next
  case (Cons f fs)
  from Cons.prems(1) obtain st1 where
    b: "source_loop_body host cs cg nts crs fld tol rel f st = Inr st1" and
    l: "source_loop host cs cg nts crs fld tol rel fs st1 = Inr st'"
    by (auto split: sum.splits)
  from Cons.IH [OF l Cons.prems(2)] source_body_delete [OF b]
  show ?case by auto
qed

lemma source_loop_lookup:
  assumes "source_loop host cs cg nts crs fld tol rel fs st = Inr st'"
  shows "match_features st' = match_features st"
  using assms
proof (induction fs arbitrary: st)
  case Nil
  then show ?case by simp
next
  case (Cons f fs)
  from Cons.prems(1) obtain st1 where
    b: "source_loop_body host cs cg nts crs fld tol rel f st = Inr st1" and
    l: "source_loop host cs cg nts crs fld tol rel fs st1 = Inr st'"
    by (auto split: sum.splits)
  from Cons.IH [OF l] source_body_lookup [OF b]
  show ?case by auto
qed

lemma match_loop_skip_null:
  "match_loop host cs cg ntm crs fld (filter (\<lambda>f. attrs f fld \<noteq> None) fs) st
     = match_loop host cs cg ntm crs fld fs st"
proof (induction fs arbitrary: st)
  case Nil
  then show ?case by simp
next
  case (Cons f fs)
  show ?case
  proof (cases "attrs f fld")
    case None
    then have "match_loop_body host cs cg ntm crs fld f st = Inr st"
      by (simp add: match_loop_body_def)
    with None Cons.IH show ?thesis by simp
  next
    case (Some v)
    with Cons.IH show ?thesis by (simp split: sum.splits)
  qed
qed

lemma source_loop_skip_null:
  "source_loop host cs cg nts crs fld tol rel (filter (\<lambda>f. attrs f fld \<noteq> None) fs) st
     = source_loop host cs cg nts crs fld tol rel fs st"
proof (induction fs arbitrary: st)
  case Nil
  then show ?case by simp
next
  case (Cons f fs)
  show ?case
  proof (cases "attrs f fld")
    case None
    then have "source_loop_body host cs cg nts crs fld tol rel f st = Inr st"
      by (simp add: source_loop_body_def)
    with None Cons.IH show ?thesis by simp
  next
    case (Some v)
    with Cons.IH show ?thesis by (simp split: sum.splits)
  qed
qed

lemma match_body_lists:
  assumes "match_loop_body host cs cg ntm crs fld f st = Inr st'"
  shows "features_to_delete st' = features_to_delete st
         \<and> features_with_different_geom st' = features_with_different_geom st
         \<and> compared st' = compared st"
  using assms
  by (auto simp: match_loop_body_def Let_def
           split: option.splits if_splits sum.splits prod.splits)

lemma match_loop_lists:
  assumes "match_loop host cs cg ntm crs fld fs st = Inr st'"
  shows "features_to_delete st' = features_to_delete st
         \<and> features_with_different_geom st' = features_with_different_geom st
         \<and> compared st' = compared st"
  using assms
proof (induction fs arbitrary: st)
  case Nil
  then show ?case by simp
next
  case (Cons f fs)
  from Cons.prems(1) obtain st1 where
    b: "match_loop_body host cs cg ntm crs fld f st = Inr st1" and
    l: "match_loop host cs cg ntm crs fld fs st1 = Inr st'"
    by (auto split: sum.splits)
  from Cons.IH [OF l] match_body_lists [OF b] show ?case by simp
qed

lemma analyse_lookup:
  assumes an: "analyse host cs cg tol rel src sfld mat mfld h0 = Inr st"
  shows "match_features st k =
           (case filter (\<lambda>f. feature_key host cs mfld f = Some k) (getFeatures mat) of
              [] \<Rightarrow> None
            | x # xs \<Rightarrow> Some (fid (last (x # xs))))"
proof -
  from an obtain stm where
    m: "match_loop host cs cg (cg \<and> crs_authid mat \<noteq> ''EPSG:32632'') (crs_authid mat) mfld
          (getFeatures mat) (initial_analysis h0) = Inr stm" and
    s: "source_loop host cs cg (cg \<and> crs_authid src \<noteq> ''EPSG:32632'') (crs_authid src) sfld
          tol rel (getFeatures src) stm = Inr st"
    by (auto simp: analyse_def Let_def split: sum.splits)
  show ?thesis
    using match_loop_features [OF m, of k] source_loop_lookup [OF s]
    by (simp split: list.splits)
qed

lemma analyse_delete:
  assumes an: "analyse host cs cg tol rel src sfld mat mfld h0 = Inr st"
    and i: "i \<in> set (features_to_delete st)"
  shows "\<exists>f \<in> set (getFeatures src). fid f = i \<and> attrs f sfld \<noteq> None"
proof -
  from an obtain stm where
    m: "match_loop host cs cg (cg \<and> crs_authid mat \<noteq> ''EPSG:32632'') (crs_authid mat) mfld
          (getFeatures mat) (initial_analysis h0) = Inr stm" and
    s: "source_loop host cs cg (cg \<and> crs_authid src \<noteq> ''EPSG:32632'') (crs_authid src) sfld
          tol rel (getFeatures src) stm = Inr st"
    by (auto simp: analyse_def Let_def split: sum.splits)
  have "features_to_delete stm = []"
    using match_loop_lists [OF m] by simp
  with source_loop_delete [OF s i] show ?thesis by simp
qed

lemma analyse_lookup_origin:
  assumes an: "analyse host cs cg tol rel src sfld mat mfld h0 = Inr st"
    and k: "match_features st k = Some i"
  shows "\<exists>f \<in> set (getFeatures mat). fid f = i \<and> attrs f mfld \<noteq> None"
proof -
  let ?same = "filter (\<lambda>f. feature_key host cs mfld f = Some k) (getFeatures mat)"
  from analyse_lookup [OF an, of k] k
  have ne: "?same \<noteq> []" and i: "i = fid (last ?same)"
    by (auto split: list.splits)
  from ne have "last ?same \<in> set ?same" by (rule last_in_set)
  then have "last ?same \<in> set (getFeatures mat)"
    "feature_key host cs mfld (last ?same) = Some k"
    by auto
  with i show ?thesis by (auto simp: feature_key_def)
qed


lemma example_run:
  "\<exists>st. analyse interval_host False True 2 ''intersects'' example_source_layer ''code''
           example_match_layer ''code'' example_heap = Inr st
        \<and> heap st = example_heap @ [(0, 1000)]
        \<and> match_features st = [''a'' \<mapsto> 3]
        \<and> match_geometries st = [1 \<mapsto> 0, 3 \<mapsto> 2]
        \<and> features_to_delete st = [10]
        \<and> features_with_different_geom st = [10]
        \<and> compared st = [((0, 1000), (5000, 6000))]"
  by (simp add: analyse_def example_source_layer_def example_match_layer_def example_heap_def
        initial_analysis_def match_loop_body_def source_loop_body_def join_key_def
        to_metric_def is_different_def interval_host_def interval_lower_def metric_crs_def
        Let_def)

lemma example_wf:
  "\<forall>f \<in> set (getFeatures example_source_layer). geometry f < length example_heap"
  "\<forall>f \<in> set (getFeatures example_match_layer). geometry f < length example_heap"
  "distinct (map fid (getFeatures example_match_layer))"
  "distinct (map fid (getFeatures example_source_layer))"
  by (simp_all add: example_source_layer_def example_match_layer_def example_heap_def)

text \<open>
  Claim C1.  With geometry comparison enabled and a tolerance above 0, a pair of a source
  geometry and a match geometry is judged equal under the relation Intersects exactly when
  the source geometry intersects the match geometry buffered by the tolerance or the match
  geometry intersects the buffered source geometry, and under Contains exactly when the
  buffered source geometry contains the match geometry.  Whenever the pair of a matched
  source feature is judged different, the feature's id is in the list of features with a
  different geometry when the loop ends; whenever it is judged equal, the loop does not
  put the feature's id into that list.
\<close>

theorem C1_buffered_relations:
  assumes "0 < tolerance"
  shows "(\<not> is_different host tolerance ''intersects'' gs gm
            \<longleftrightarrow> intersects host gs (buffer host gm tolerance 5)
                  \<or> intersects host gm (buffer host gs tolerance 5))
       \<and> (\<not> is_different host tolerance ''contains'' gs gm
            \<longleftrightarrow> contains host (buffer host gs tolerance 5) gm)
       \<and> (source_loop host cs True nts crs fld tolerance rel fs st = Inr st'
            \<and> sf \<in> set fs \<and> (\<forall>f \<in> set fs. geometry f < length (heap st))
            \<and> attrs sf fld = Some v
            \<and> match_features st (join_key host cs v) = Some mid
            \<and> match_geometries st mid = Some b \<and> b < length (heap st)
            \<and> \<not> isNull host (heap st ! geometry sf)
            \<and> \<not> isEmpty host (heap st ! geometry sf)
            \<and> \<not> isNull host (heap st ! b)
            \<and> metric_of host nts crs (heap st ! geometry sf) gs'
            \<and> is_different host tolerance rel gs' (heap st ! b)
          \<longrightarrow> fid sf \<in> set (features_with_different_geom st'))
       \<and> (source_loop host cs True nts crs fld tolerance rel fs st = Inr st'
            \<and> sf \<in> set fs \<and> (\<forall>f \<in> set fs. geometry f < length (heap st))
            \<and> attrs sf fld = Some v
            \<and> match_features st (join_key host cs v) = Some mid
            \<and> match_geometries st mid = Some b \<and> b < length (heap st)
            \<and> \<not> isNull host (heap st ! geometry sf)
            \<and> \<not> isEmpty host (heap st ! geometry sf)
            \<and> \<not> isNull host (heap st ! b)
            \<and> metric_of host nts crs (heap st ! geometry sf) gs'
            \<and> \<not> is_different host tolerance rel gs' (heap st ! b)
            \<and> distinct (map fid fs)
            \<and> fid sf \<notin> set (features_with_different_geom st)
          \<longrightarrow> fid sf \<notin> set (features_with_different_geom st'))"
proof (intro conjI impI)
  show "(\<not> is_different host tolerance ''intersects'' gs gm)
          = (intersects host gs (buffer host gm tolerance 5)
             \<or> intersects host gm (buffer host gs tolerance 5))"
    using assms by (simp add: is_different_def Let_def)
  show "(\<not> is_different host tolerance ''contains'' gs gm)
          = contains host (buffer host gs tolerance 5) gm"
    using assms by (simp add: is_different_def Let_def)
next
  assume a: "source_loop host cs True nts crs fld tolerance rel fs st = Inr st'
            \<and> sf \<in> set fs \<and> (\<forall>f \<in> set fs. geometry f < length (heap st))
            \<and> attrs sf fld = Some v
            \<and> match_features st (join_key host cs v) = Some mid
            \<and> match_geometries st mid = Some b \<and> b < length (heap st)
            \<and> \<not> isNull host (heap st ! geometry sf)
            \<and> \<not> isEmpty host (heap st ! geometry sf)
            \<and> \<not> isNull host (heap st ! b)
            \<and> metric_of host nts crs (heap st ! geometry sf) gs'
            \<and> is_different host tolerance rel gs' (heap st ! b)"
  then show "fid sf \<in> set (features_with_different_geom st')"
    by (intro source_loop_adds [of host cs nts crs fld tolerance rel fs st st' sf v mid b gs'])
       simp_all
next
  assume a: "source_loop host cs True nts crs fld tolerance rel fs st = Inr st'
            \<and> sf \<in> set fs \<and> (\<forall>f \<in> set fs. geometry f < length (heap st))
            \<and> attrs sf fld = Some v
            \<and> match_features st (join_key host cs v) = Some mid
            \<and> match_geometries st mid = Some b \<and> b < length (heap st)
            \<and> \<not> isNull host (heap st ! geometry sf)
            \<and> \<not> isEmpty host (heap st ! geometry sf)
            \<and> \<not> isNull host (heap st ! b)
            \<and> metric_of host nts crs (heap st ! geometry sf) gs'
            \<and> \<not> is_different host tolerance rel gs' (heap st ! b)
            \<and> distinct (map fid fs)
            \<and> fid sf \<notin> set (features_with_different_geom st)"
  then show "fid sf \<notin> set (features_with_different_geom st')"
    by (intro source_loop_keeps [of host cs nts crs fld tolerance rel fs st st' sf v mid b gs'])
       simp_all
qed

theorem C1_buffered_relations_witness:
  "(0::real) < 2
   \<and> \<not> is_different interval_host 2 ''intersects'' (0, 10) (11, 15)
   \<and> is_different interval_host 2 ''contains'' (0, 10) (11, 15)
   \<and> (\<exists>st'. source_loop interval_host True True False ''EPSG:32632'' ''id'' 2 ''intersects''
               [\<lparr>fid = 7, attrs = (\<lambda>f. Some ''a''), geometry = 0\<rparr>,
                \<lparr>fid = 8, attrs = (\<lambda>f. Some ''a''), geometry = 2\<rparr>]
               ((initial_analysis [(0, 10), (20, 30), (15, 19)])
                  \<lparr>match_features := [''a'' \<mapsto> 1], match_geometries := [1 \<mapsto> 1]\<rparr>) = Inr st'
             \<and> 7 \<in> set (features_with_different_geom st')
             \<and> 8 \<notin> set (features_with_different_geom st'))"
proof -
  let ?sf = "\<lparr>fid = 7, attrs = (\<lambda>f. Some ''a''), geometry = 0\<rparr> :: string feature"
  let ?sg = "\<lparr>fid = 8, attrs = (\<lambda>f. Some ''a''), geometry = 2\<rparr> :: string feature"
  let ?st = "(initial_analysis [(0, 10), (20, 30), (15, 19)])
                  \<lparr>match_features := [''a'' \<mapsto> 1], match_geometries := [1 \<mapsto> 1]\<rparr>"
  let ?st' = "?st\<lparr>features_to_delete := [7, 8],
                   compared := [((0, 10), (20, 30)), ((15, 19), (20, 30))],
                   features_with_different_geom := [7]\<rparr>"
  have pos: "(0::real) < 2" by simp
  have run: "source_loop interval_host True True False ''EPSG:32632'' ''id'' 2 ''intersects''
               [?sf, ?sg] ?st = Inr ?st'"
    by (simp add: source_loop_body_def initial_analysis_def interval_host_def join_key_def
          to_metric_def is_different_def Let_def)
  note c1 = C1_buffered_relations [OF pos, where host = interval_host and gs = "(0, 10)"
      and gm = "(11, 15)" and cs = True and nts = False and crs = "''EPSG:32632''"
      and fld = "''id''" and rel = "''intersects''" and fs = "[?sf, ?sg]" and st = ?st
      and st' = ?st' and v = "''a''" and mid = 1 and b = 1]
  have common: "match_features ?st (join_key interval_host True ''a'') = Some 1"
      "match_geometries ?st 1 = Some 1" "(1::nat) < length (heap ?st)"
      "\<forall>f \<in> set [?sf, ?sg]. geometry f < length (heap ?st)"
      "\<not> isNull interval_host (heap ?st ! 1)"
      "distinct (map fid [?sf, ?sg])"
    by (simp_all add: join_key_def interval_host_def initial_analysis_def)
  have "\<not> is_different interval_host 2 ''intersects'' (0, 10) (11, 15)"
    using c1 [of ?sf "(0, 10)"] by (simp add: interval_host_def)
  moreover have "is_different interval_host 2 ''contains'' (0, 10) (11, 15)"
    using c1 [of ?sf "(0, 10)"] by (simp add: interval_host_def)
  moreover have "fid ?sf \<in> set (features_with_different_geom ?st')"
  proof -
    have "is_different interval_host 2 ''intersects'' (0, 10) (heap ?st ! 1)"
      by (simp add: is_different_def interval_host_def initial_analysis_def)
    moreover have "metric_of interval_host False ''EPSG:32632'' (heap ?st ! geometry ?sf) (0, 10)"
      by (simp add: metric_of_def initial_analysis_def)
    moreover have "\<not> isNull interval_host (heap ?st ! geometry ?sf)"
      "\<not> isEmpty interval_host (heap ?st ! geometry ?sf)"
      by (simp_all add: interval_host_def initial_analysis_def)
    ultimately show ?thesis using c1 [of ?sf "(0, 10)"] run common by simp
  qed
  moreover have "fid ?sg \<notin> set (features_with_different_geom ?st')"
  proof -
    have "\<not> is_different interval_host 2 ''intersects'' (15, 19) (heap ?st ! 1)"
      by (simp add: is_different_def interval_host_def initial_analysis_def)
    moreover have "metric_of interval_host False ''EPSG:32632'' (heap ?st ! geometry ?sg) (15, 19)"
      by (simp add: metric_of_def initial_analysis_def)
    moreover have "\<not> isNull interval_host (heap ?st ! geometry ?sg)"
      "\<not> isEmpty interval_host (heap ?st ! geometry ?sg)"
      "fid ?sg \<notin> set (features_with_different_geom ?st)"
      by (simp_all add: interval_host_def initial_analysis_def)
    ultimately show ?thesis using c1 [of ?sg "(15, 19)"] run common by simp
  qed
  ultimately show ?thesis using pos run by auto
qed

text \<open>
  Claim C2.  With geometry comparison enabled, both geometries of every comparison are
  the images of layer geometries under the transformation to EPSG:32632 when the layer's
  CRS differs from EPSG:32632, and the layer geometries themselves when it does not; and
  every geometry object that existed before the analysis, those of the two layers among
  them, has its value unchanged afterwards, whether the analysis ends normally or with an
  exception.
\<close>

theorem C2_metric_comparison:
  assumes "\<forall>f \<in> set (getFeatures src). geometry f < length h0"
    and "\<forall>f \<in> set (getFeatures mat). geometry f < length h0"
  shows "case analyse host cs True tol rel src sfld mat mfld h0 of
           Inl (e, h) \<Rightarrow> (\<forall>a < length h0. h ! a = h0 ! a)
         | Inr st \<Rightarrow>
             (\<forall>a < length h0. heap st ! a = h0 ! a)
             \<and> (\<forall>p \<in> set (compared st).
                  \<exists>sf \<in> set (getFeatures src). \<exists>mf \<in> set (getFeatures mat).
                    metric_of host (crs_authid src \<noteq> ''EPSG:32632'') (crs_authid src)
                       (h0 ! geometry sf) (fst p)
                    \<and> metric_of host (crs_authid mat \<noteq> ''EPSG:32632'') (crs_authid mat)
                       (h0 ! geometry mf) (snd p))"
proof (cases "analyse host cs True tol rel src sfld mat mfld h0")
  case (Inl x)
  with analyse_heap [OF assms, of host cs True tol rel sfld mfld]
  show ?thesis by (auto dest: prefix_nth)
next
  case (Inr st)
  have "\<forall>a < length h0. heap st ! a = h0 ! a"
    using analyse_heap [OF assms, of host cs True tol rel sfld mfld] Inr
    by (auto dest: prefix_nth)
  moreover have "\<forall>p \<in> set (compared st).
                  \<exists>sf \<in> set (getFeatures src). \<exists>mf \<in> set (getFeatures mat).
                    metric_of host (crs_authid src \<noteq> ''EPSG:32632'') (crs_authid src)
                       (h0 ! geometry sf) (fst p)
                    \<and> metric_of host (crs_authid mat \<noteq> ''EPSG:32632'') (crs_authid mat)
                       (h0 ! geometry mf) (snd p)"
  proof
    fix p assume "p \<in> set (compared st)"
    from analyse_compared [OF Inr assms this]
    show "\<exists>sf \<in> set (getFeatures src). \<exists>mf \<in> set (getFeatures mat).
                    metric_of host (crs_authid src \<noteq> ''EPSG:32632'') (crs_authid src)
                       (h0 ! geometry sf) (fst p)
                    \<and> metric_of host (crs_authid mat \<noteq> ''EPSG:32632'') (crs_authid mat)
                       (h0 ! geometry mf) (snd p)"
      by simp blast
  qed
  ultimately show ?thesis using Inr by simp
qed

theorem C2_metric_comparison_witness:
  "\<exists>st. analyse interval_host False True 2 ''intersects'' example_source_layer ''code''
           example_match_layer ''code'' example_heap = Inr st
        \<and> compared st = [((0, 1000), (5000, 6000))]
        \<and> transform interval_host ''EPSG:4326'' ''EPSG:32632'' (example_heap ! 3)
            = Inr (0, 1000)
        \<and> example_heap ! 2 = (5000, 6000)
        \<and> heap st ! 3 = (0, 10) \<and> heap st ! 2 = (5000, 6000)"
proof -
  from example_run obtain st where
    r: "analyse interval_host False True 2 ''intersects'' example_source_layer ''code''
           example_match_layer ''code'' example_heap = Inr st" and
    c: "compared st = [((0, 1000), (5000, 6000))]"
    by blast
  from C2_metric_comparison [OF example_wf(1,2), of interval_host False 2 "''intersects''"
      "''code''" "''code''"] r
  have "\<forall>a < length example_heap. heap st ! a = example_heap ! a"
    by simp
  then have "heap st ! 2 = example_heap ! 2" "heap st ! 3 = example_heap ! 3"
    by (simp_all add: example_heap_def)
  then show ?thesis using r c
    by (auto simp: interval_host_def example_heap_def)
qed


text \<open>
  Claim C9.  Features whose join value is NULL take no part in the matching: the analysis
  of two layers is the analysis of the same layers without these features.  Every id in
  the lookup belongs to a comparison-layer feature with a non-NULL value and every id
  proposed for deletion belongs to a source feature with a non-NULL value; where feature
  ids are distinct, the id of a feature with a NULL value is in neither.
\<close>

theorem C9_null_join_values:
  "analyse host cs cg tol rel src sfld mat mfld h0
     = analyse host cs cg tol rel
         (src\<lparr>getFeatures := filter (\<lambda>f. attrs f sfld \<noteq> None) (getFeatures src)\<rparr>) sfld
         (mat\<lparr>getFeatures := filter (\<lambda>f. attrs f mfld \<noteq> None) (getFeatures mat)\<rparr>) mfld h0
   \<and> (\<forall>st. analyse host cs cg tol rel src sfld mat mfld h0 = Inr st \<longrightarrow>
         (\<forall>k i. match_features st k = Some i \<longrightarrow>
            (\<exists>f \<in> set (getFeatures mat). fid f = i \<and> attrs f mfld \<noteq> None))
         \<and> (\<forall>i \<in> set (features_to_delete st).
              \<exists>f \<in> set (getFeatures src). fid f = i \<and> attrs f sfld \<noteq> None)
         \<and> (distinct (map fid (getFeatures mat)) \<longrightarrow>
              (\<forall>f \<in> set (getFeatures mat). attrs f mfld = None
                 \<longrightarrow> fid f \<notin> ran (match_features st)))
         \<and> (distinct (map fid (getFeatures src)) \<longrightarrow>
              (\<forall>f \<in> set (getFeatures src). attrs f sfld = None
                 \<longrightarrow> fid f \<notin> set (features_to_delete st))))"
proof (intro conjI allI impI ballI)
  show "analyse host cs cg tol rel src sfld mat mfld h0
     = analyse host cs cg tol rel
         (src\<lparr>getFeatures := filter (\<lambda>f. attrs f sfld \<noteq> None) (getFeatures src)\<rparr>) sfld
         (mat\<lparr>getFeatures := filter (\<lambda>f. attrs f mfld \<noteq> None) (getFeatures mat)\<rparr>) mfld h0"
    by (simp add: analyse_def Let_def match_loop_skip_null source_loop_skip_null
          del: not_None_eq cong: sum.case_cong)
next
  fix st k i
  assume "analyse host cs cg tol rel src sfld mat mfld h0 = Inr st"
    and "match_features st k = Some i"
  then show "\<exists>f \<in> set (getFeatures mat). fid f = i \<and> attrs f mfld \<noteq> None"
    by (rule analyse_lookup_origin)
next
  fix st i
  assume "analyse host cs cg tol rel src sfld mat mfld h0 = Inr st"
    and "i \<in> set (features_to_delete st)"
  then show "\<exists>f \<in> set (getFeatures src). fid f = i \<and> attrs f sfld \<noteq> None"
    by (rule analyse_delete)
next
  fix st f
  assume an: "analyse host cs cg tol rel src sfld mat mfld h0 = Inr st"
    and d: "distinct (map fid (getFeatures mat))"
    and f: "f \<in> set (getFeatures mat)" "attrs f mfld = None"
  show "fid f \<notin> ran (match_features st)"
  proof
    assume "fid f \<in> ran (match_features st)"
    then obtain k where "match_features st k = Some (fid f)" by (auto simp: ran_def)
    from analyse_lookup_origin [OF an this]
    obtain g where g: "g \<in> set (getFeatures mat)" "fid g = fid f" "attrs g mfld \<noteq> None"
      by blast
    from distinct_fid_eq [OF d g(1) f(1) g(2)] g(3) f(2) show False by simp
  qed
next
  fix st f
  assume an: "analyse host cs cg tol rel src sfld mat mfld h0 = Inr st"
    and d: "distinct (map fid (getFeatures src))"
    and f: "f \<in> set (getFeatures src)" "attrs f sfld = None"
  show "fid f \<notin> set (features_to_delete st)"
  proof
    assume "fid f \<in> set (features_to_delete st)"
    from analyse_delete [OF an this]
    obtain g where g: "g \<in> set (getFeatures src)" "fid g = fid f" "attrs g sfld \<noteq> None"
      by blast
    from distinct_fid_eq [OF d g(1) f(1) g(2)] g(3) f(2) show False by simp
  qed
qed

theorem C9_null_join_values_witness:
  "\<exists>st. analyse interval_host False True 2 ''intersects'' example_source_layer ''code''
           example_match_layer ''code'' example_heap = Inr st
        \<and> attrs (getFeatures example_match_layer ! 1) ''code'' = None
        \<and> fid (getFeatures example_match_layer ! 1) = 2
        \<and> 2 \<notin> ran (match_features st)
        \<and> attrs (getFeatures example_source_layer ! 1) ''code'' = None
        \<and> fid (getFeatures example_source_layer ! 1) = 11
        \<and> 11 \<notin> set (features_to_delete st)"
proof -
  from example_run obtain st where
    r: "analyse interval_host False True 2 ''intersects'' example_source_layer ''code''
           example_match_layer ''code'' example_heap = Inr st"
    by blast
  note c9 = C9_null_join_values [of interval_host False True 2 "''intersects''"
      example_source_layer "''code''" example_match_layer "''code''" example_heap]
  have m: "getFeatures example_match_layer ! 1 \<in> set (getFeatures example_match_layer)"
    "attrs (getFeatures example_match_layer ! 1) ''code'' = None"
    "fid (getFeatures example_match_layer ! 1) = 2"
    by (simp_all add: example_match_layer_def)
  have s: "getFeatures example_source_layer ! 1 \<in> set (getFeatures example_source_layer)"
    "attrs (getFeatures example_source_layer ! 1) ''code'' = None"
    "fid (getFeatures example_source_layer ! 1) = 11"
    by (simp_all add: example_source_layer_def)
  from c9 r example_wf(3) m have "2 \<notin> ran (match_features st)"
    by (metis (no_types, lifting))
  moreover from c9 r example_wf(4) s have "11 \<notin> set (features_to_delete st)"
    by (metis (no_types, lifting))
  ultimately show ?thesis using r m s by blast
qed

text \<open>
  Claim C10.  After the analysis the lookup maps a key to the id of the last
  comparison-layer feature, in enumeration order, whose join value has that key (its
  string form, lowercased unless the comparison is case sensitive).  With distinct feature
  ids, the match geometry of every comparison is the geometry of that last feature for the
  key of the source feature.
\<close>

theorem C10_last_match_wins:
  assumes "analyse host cs True tol rel src sfld mat mfld h0 = Inr st"
    and "\<forall>f \<in> set (getFeatures src). geometry f < length h0"
    and "\<forall>f \<in> set (getFeatures mat). geometry f < length h0"
    and "distinct (map fid (getFeatures mat))"
  shows "(\<forall>k. match_features st k =
            (case filter (\<lambda>f. feature_key host cs mfld f = Some k) (getFeatures mat) of
               [] \<Rightarrow> None
             | x # xs \<Rightarrow> Some (fid (last (x # xs)))))
       \<and> (\<forall>p \<in> set (compared st). \<exists>sf \<in> set (getFeatures src). \<exists>k.
            feature_key host cs sfld sf = Some k
            \<and> filter (\<lambda>f. feature_key host cs mfld f = Some k) (getFeatures mat) \<noteq> []
            \<and> metric_of host (crs_authid src \<noteq> ''EPSG:32632'') (crs_authid src)
                 (h0 ! geometry sf) (fst p)
            \<and> metric_of host (crs_authid mat \<noteq> ''EPSG:32632'') (crs_authid mat)
                 (h0 ! geometry (last (filter (\<lambda>f. feature_key host cs mfld f = Some k)
                                         (getFeatures mat))))
                 (snd p))"
proof (intro conjI allI ballI)
  fix k
  show "match_features st k =
            (case filter (\<lambda>f. feature_key host cs mfld f = Some k) (getFeatures mat) of
               [] \<Rightarrow> None
             | x # xs \<Rightarrow> Some (fid (last (x # xs))))"
    by (rule analyse_lookup [OF assms(1)])
next
  fix p assume "p \<in> set (compared st)"
  from analyse_compared [OF assms(1-3) this]
  obtain sf mf k where sf: "sf \<in> set (getFeatures src)" and mf: "mf \<in> set (getFeatures mat)"
    and k: "feature_key host cs sfld sf = Some k"
    and ne: "filter (\<lambda>f. feature_key host cs mfld f = Some k) (getFeatures mat) \<noteq> []"
    and id: "fid mf = fid (last (filter (\<lambda>f. feature_key host cs mfld f = Some k)
                                   (getFeatures mat)))"
    and ms: "metric_of host (crs_authid src \<noteq> ''EPSG:32632'') (crs_authid src)
                 (h0 ! geometry sf) (fst p)"
    and mm: "metric_of host (crs_authid mat \<noteq> ''EPSG:32632'') (crs_authid mat)
                 (h0 ! geometry mf) (snd p)"
    by auto
  let ?same = "filter (\<lambda>f. feature_key host cs mfld f = Some k) (getFeatures mat)"
  from ne have "last ?same \<in> set ?same" by (rule last_in_set)
  then have "last ?same \<in> set (getFeatures mat)" by simp
  from distinct_fid_eq [OF assms(4) mf this id] have "mf = last ?same" .
  with sf k ne ms mm
  show "\<exists>sf \<in> set (getFeatures src). \<exists>k.
            feature_key host cs sfld sf = Some k
            \<and> filter (\<lambda>f. feature_key host cs mfld f = Some k) (getFeatures mat) \<noteq> []
            \<and> metric_of host (crs_authid src \<noteq> ''EPSG:32632'') (crs_authid src)
                 (h0 ! geometry sf) (fst p)
            \<and> metric_of host (crs_authid mat \<noteq> ''EPSG:32632'') (crs_authid mat)
                 (h0 ! geometry (last (filter (\<lambda>f. feature_key host cs mfld f = Some k)
                                         (getFeatures mat))))
                 (snd p)"
    by (simp del: ex_simps) blast
qed

theorem C10_last_match_wins_witness:
  "\<exists>st. analyse interval_host False True 2 ''intersects'' example_source_layer ''code''
           example_match_layer ''code'' example_heap = Inr st
        \<and> map fid (filter (\<lambda>f. feature_key interval_host False ''code'' f = Some ''a'')
                      (getFeatures example_match_layer)) = [1, 3]
        \<and> match_features st ''a'' = Some 3
        \<and> map snd (compared st) = [example_heap ! 2]"
proof -
  from example_run obtain st where
    r: "analyse interval_host False True 2 ''intersects'' example_source_layer ''code''
           example_match_layer ''code'' example_heap = Inr st" and
    c: "compared st = [((0, 1000), (5000, 6000))]"
    by blast
  have f: "filter (\<lambda>f. feature_key interval_host False ''code'' f = Some ''a'')
             (getFeatures example_match_layer)
           = [getFeatures example_match_layer ! 0, getFeatures example_match_layer ! 2]"
    by (simp add: example_match_layer_def feature_key_def join_key_def interval_host_def
          interval_lower_def)
  from C10_last_match_wins [OF r example_wf(1,2,3)]
  have "match_features st ''a'' =
          (case filter (\<lambda>f. feature_key interval_host False ''code'' f = Some ''a'')
                  (getFeatures example_match_layer) of
             [] \<Rightarrow> None
           | x # xs \<Rightarrow> Some (fid (last (x # xs))))"
    by blast
  with f have "match_features st ''a'' = Some 3"
    by (simp add: example_match_layer_def)
  with r c f show ?thesis
    by (auto simp: example_match_layer_def example_heap_def)
qed


section \<open>Properties of the geoprocessing model\<close>

lemma started_steps:
  "prefix (map fst (fst (processAlgorithm parameters run isCanceled))) model_steps"
  by (simp add: processAlgorithm_def run_child_def model_steps_def
           split: sum.splits prod.splits)

lemma canceled_stops:
  assumes "isCanceled k" and "1 \<le> k" and "k \<le> 6"
  shows "length (fst (processAlgorithm parameters run isCanceled)) \<le> k
         \<and> (snd (processAlgorithm parameters run isCanceled) = Inr []
             \<or> (\<exists>e. snd (processAlgorithm parameters run isCanceled) = Inl e))"
proof -
  from assms(2,3) consider "k = 1" | "k = 2" | "k = 3" | "k = 4" | "k = 5" | "k = 6"
    by linarith
  then show ?thesis
    using assms(1)
    by cases
      (simp_all add: processAlgorithm_def run_child_def split: sum.splits prod.splits)
qed

lemma first_cancel:
  assumes "isCanceled k" and "1 \<le> k" and "k \<le> 6"
    and "\<forall>j. 1 \<le> j \<and> j < k \<longrightarrow> \<not> isCanceled j"
  shows "map fst (fst (processAlgorithm (\<lambda>key. Some (pv key)) (\<lambda>alg ps. Inr (out alg ps))
                         isCanceled)) = take k model_steps
         \<and> snd (processAlgorithm (\<lambda>key. Some (pv key)) (\<lambda>alg ps. Inr (out alg ps))
                  isCanceled) = Inr []"
proof -
  from assms(2,3) consider "k = 1" | "k = 2" | "k = 3" | "k = 4" | "k = 5" | "k = 6"
    by linarith
  then show ?thesis
    using assms(1,4)
    by cases
      (simp_all add: processAlgorithm_def run_child_def param_def model_steps_def)
qed

lemma never_canceled:
  assumes "\<forall>k. 1 \<le> k \<and> k \<le> 6 \<longrightarrow> \<not> isCanceled k"
  shows "map fst (fst (processAlgorithm (\<lambda>key. Some (pv key)) (\<lambda>alg ps. Inr (out alg ps))
                         isCanceled)) = model_steps
         \<and> (\<exists>v. snd (processAlgorithm (\<lambda>key. Some (pv key)) (\<lambda>alg ps. Inr (out alg ps))
                       isCanceled) = Inr [(''InfrastrutturaConNcavi'', v)])"
  using assms
  by (simp add: processAlgorithm_def run_child_def param_def model_steps_def)

section \<open>Properties of the MapInfo conversion\<close>

lemma strategies_simps [simp]:
  "strategies [] = []"
  "strategies (a # acts) = strategy_of a @ strategies acts"
  "strategies (acts @ acts') = strategies acts @ strategies acts'"
  by (simp_all add: strategies_def)

lemma direct_ogr_strategies:
  "strategies (fst (convert_to_mapinfo_with_ogr env i out)) = [Direct_ogr]"
  by (auto simp: convert_to_mapinfo_with_ogr_def Let_def t_srs_def split: proc_outcome.splits)

lemma direct_ogr_result:
  "snd (convert_to_mapinfo_with_ogr env i out) = direct_succeeds env"
  by (auto simp: convert_to_mapinfo_with_ogr_def Let_def direct_succeeds_def
           split: proc_outcome.splits)

lemma geojson_ogr_strategies:
  "strategies (fst (convert_temp_geojson_to_mapinfo_with_ogr env t out))
     = (if temp_exists_in_ogr env then [Geojson_ogr] else [])"
  by (auto simp: convert_temp_geojson_to_mapinfo_with_ogr_def Let_def t_srs_def
           split: proc_outcome.splits)

lemma geojson_ogr_result:
  "snd (convert_temp_geojson_to_mapinfo_with_ogr env t out) = geojson_ogr_succeeds env"
  by (auto simp: convert_temp_geojson_to_mapinfo_with_ogr_def Let_def geojson_ogr_succeeds_def
           split: proc_outcome.splits)

lemma last_attempt_strategies:
  "strategies (fst (mapinfo_last_attempt env t out))
     = (if temp_exists_for_ogr env \<and> temp_exists_in_ogr env then [Geojson_ogr] else [])"
  using geojson_ogr_strategies [of env t out]
  by (auto simp: mapinfo_last_attempt_def split: prod.splits)

lemma last_attempt_result:
  "snd (mapinfo_last_attempt env t out) = (temp_exists_for_ogr env \<and> geojson_ogr_succeeds env)"
  using geojson_ogr_result [of env t out]
  by (auto simp: mapinfo_last_attempt_def split: prod.splits)

lemma sanitize_for_tab_strategies [simp]:
  "strategies (sanitize_for_tab env i) = []"
  by (induction "sanitize_log env") (auto simp: sanitize_for_tab_def strategies_def)

lemma processing_strategies:
  "strategies (fst (mapinfo_processing env t out))
     = (if \<not> geojson_valid env then []
        else if save_features_succeeds env \<and> cleanup_succeeds env then [Save_features]
        else if temp_exists_for_ogr env \<and> temp_exists_in_ogr env
          then [Save_features, Geojson_ogr]
        else [Save_features])"
  using last_attempt_strategies [of env t out]
  by (auto simp: mapinfo_processing_def Let_def save_features_succeeds_def cleanup_succeeds_def
           split: prod.splits option.splits)

lemma processing_result:
  "snd (mapinfo_processing env t out)
     = (geojson_valid env
        \<and> (save_features_succeeds env \<and> cleanup_succeeds env
            \<or> (temp_exists_for_ogr env \<and> geojson_ogr_succeeds env)))"
  using last_attempt_result [of env t out]
  by (auto simp: mapinfo_processing_def Let_def save_features_succeeds_def cleanup_succeeds_def
           split: prod.splits option.splits)


lemma written_strategies:
  "strategies (fst (mapinfo_written env t out))
     = (if \<not> geojson_written env \<or> \<not> geojson_valid env then []
        else if save_features_succeeds env \<and> cleanup_succeeds env then [Save_features]
        else if temp_exists_for_ogr env \<and> temp_exists_in_ogr env
          then [Save_features, Geojson_ogr]
        else [Save_features])"
  by (simp add: mapinfo_written_def processing_strategies)

lemma written_result:
  "snd (mapinfo_written env t out)
     = (geojson_written env \<and> geojson_valid env
        \<and> (save_features_succeeds env \<and> cleanup_succeeds env
            \<or> (temp_exists_for_ogr env \<and> geojson_ogr_succeeds env)))"
  by (simp add: mapinfo_written_def processing_result)


lemma sanitize_strategies:
  "strategies (fst (mapinfo_sanitize env i out t))
     = (if \<not> geojson_prepared env then []
        else if save_features_succeeds env \<and> cleanup_succeeds env then [Save_features]
        else if temp_exists_for_ogr env \<and> temp_exists_in_ogr env
          then [Save_features, Geojson_ogr]
        else [Save_features])"
proof (cases "input_valid env")
  case False
  then show ?thesis by (simp add: mapinfo_sanitize_def geojson_prepared_def)
next
  case True
  show ?thesis
  proof (cases "sanitize env")
    case (Inl e)
    with True show ?thesis by (simp add: mapinfo_sanitize_def geojson_prepared_def)
  next
    case (Inr m)
    obtain memory_valid featureCount where m: "m = (memory_valid, featureCount)"
      by (cases m)
    show ?thesis
    proof (cases "\<not> memory_valid \<or> featureCount = 0")
      case bad: True
      with True Inr m show ?thesis
        by (auto simp: mapinfo_sanitize_def geojson_prepared_def)
    next
      case ok: False
      show ?thesis
      proof (cases "write_geojson env")
        case (Inl e)
        with True Inr m ok show ?thesis
          by (simp add: mapinfo_sanitize_def geojson_prepared_def)
      next
        case w: (Inr err)
        show ?thesis
        proof (cases err)
          case (Error_tuple code msg)
          with True Inr m ok w written_strategies [of env t out] show ?thesis
            by (simp add: mapinfo_sanitize_def geojson_prepared_def Let_def case_prod_beta)
        next
          case (Error_code code)
          with True Inr m ok w written_strategies [of env t out] show ?thesis
            by (simp add: mapinfo_sanitize_def geojson_prepared_def Let_def case_prod_beta)
        qed
      qed
    qed
  qed
qed

lemma sanitize_result:
  "(case snd (mapinfo_sanitize env i out t) of Inl e \<Rightarrow> False | Inr r \<Rightarrow> r)
     = (geojson_prepared env
        \<and> (save_features_succeeds env \<and> cleanup_succeeds env
            \<or> (temp_exists_for_ogr env \<and> geojson_ogr_succeeds env)))"
proof (cases "input_valid env")
  case False
  then show ?thesis by (simp add: mapinfo_sanitize_def geojson_prepared_def)
next
  case True
  show ?thesis
  proof (cases "sanitize env")
    case (Inl e)
    with True show ?thesis by (simp add: mapinfo_sanitize_def geojson_prepared_def)
  next
    case (Inr m)
    obtain memory_valid featureCount where m: "m = (memory_valid, featureCount)"
      by (cases m)
    show ?thesis
    proof (cases "\<not> memory_valid \<or> featureCount = 0")
      case bad: True
      with True Inr m show ?thesis
        by (auto simp: mapinfo_sanitize_def geojson_prepared_def)
    next
      case ok: False
      show ?thesis
      proof (cases "write_geojson env")
        case (Inl e)
        with True Inr m ok show ?thesis
          by (simp add: mapinfo_sanitize_def geojson_prepared_def)
      next
        case w: (Inr err)
        show ?thesis
        proof (cases err)
          case (Error_tuple code msg)
          with True Inr m ok w written_result [of env t out] show ?thesis
            by (simp add: mapinfo_sanitize_def geojson_prepared_def Let_def case_prod_beta)
        next
          case (Error_code code)
          with True Inr m ok w written_result [of env t out] show ?thesis
            by (simp add: mapinfo_sanitize_def geojson_prepared_def Let_def case_prod_beta)
        qed
      qed
    qed
  qed
qed

lemma sanitize_raises:
  "snd (mapinfo_sanitize env i out t) = Inl e
     \<longleftrightarrow> input_valid env
         \<and> (sanitize env = Inl e
             \<or> ((\<exists>n. sanitize env = Inr (True, n) \<and> n \<noteq> 0) \<and> write_geojson env = Inl e))"
  by (auto simp: mapinfo_sanitize_def Let_def
           split: sum.splits prod.splits write_error.splits)


lemma try_strategies:
  "strategies (fst (mapinfo_try env i out t))
     = (if direct_succeeds env \<or> \<not> geojson_prepared env then [Direct_ogr]
        else if save_features_succeeds env \<and> cleanup_succeeds env then [Direct_ogr, Save_features]
        else if temp_exists_for_ogr env \<and> temp_exists_in_ogr env
          then [Direct_ogr, Save_features, Geojson_ogr]
        else [Direct_ogr, Save_features])"
  by (simp add: mapinfo_try_def Let_def case_prod_beta direct_ogr_strategies
        direct_ogr_result sanitize_strategies)

lemma try_result:
  "(case snd (mapinfo_try env i out t) of Inl e \<Rightarrow> False | Inr r \<Rightarrow> r)
     = (direct_succeeds env
        \<or> (geojson_prepared env
            \<and> (save_features_succeeds env \<and> cleanup_succeeds env
                \<or> (temp_exists_for_ogr env \<and> geojson_ogr_succeeds env))))"
  using sanitize_result [of env i out t]
  by (simp add: mapinfo_try_def Let_def case_prod_beta direct_ogr_result)

lemma convert_unfold:
  assumes "makedirs env = None"
  shows "\<exists>a0. strategies a0 = []
         \<and> convert_to_mapinfo env i out =
           (case mapinfo_try env (slashes i) (slashes out)
                   (slashes (path_join (dirname (slashes out))
                               ''temp_mapinfo_conversion.geojson'')) of
              (acts, Inr result) \<Rightarrow> (a0 @ acts, Inr result)
            | (acts, Inl e) \<Rightarrow>
                (a0 @ acts
                   @ [Log 2 (''Errore durante la conversione a MapInfo: '' @ e)]
                   @ (if temp_exists_on_error env
                      then [Remove (slashes (path_join (dirname (slashes out))
                                               ''temp_mapinfo_conversion.geojson''))]
                      else []),
                 Inr False))"
  using assms
  by (intro exI [of _ "[Makedirs (dirname (slashes out))]
        @ (if stale_temp env
           then [Remove (slashes (path_join (dirname (slashes out))
                                    ''temp_mapinfo_conversion.geojson''))]
           else [])"])
     (simp add: convert_to_mapinfo_def Let_def)

lemma convert_strategies:
  assumes "makedirs env = None"
  shows "strategies (fst (convert_to_mapinfo env i out))
     = (if direct_succeeds env \<or> \<not> geojson_prepared env then [Direct_ogr]
        else if save_features_succeeds env \<and> cleanup_succeeds env then [Direct_ogr, Save_features]
        else if temp_exists_for_ogr env \<and> temp_exists_in_ogr env
          then [Direct_ogr, Save_features, Geojson_ogr]
        else [Direct_ogr, Save_features])"
proof -
  let ?t = "slashes (path_join (dirname (slashes out)) ''temp_mapinfo_conversion.geojson'')"
  obtain acts r where tr: "mapinfo_try env (slashes i) (slashes out) ?t = (acts, r)"
    by (cases "mapinfo_try env (slashes i) (slashes out) ?t")
  from convert_unfold [OF assms, of i out] obtain a0 where
    a0: "strategies a0 = []" and
    c: "convert_to_mapinfo env i out =
           (case mapinfo_try env (slashes i) (slashes out) ?t of
              (acts, Inr result) \<Rightarrow> (a0 @ acts, Inr result)
            | (acts, Inl e) \<Rightarrow>
                (a0 @ acts
                   @ [Log 2 (''Errore durante la conversione a MapInfo: '' @ e)]
                   @ (if temp_exists_on_error env then [Remove ?t] else []),
                 Inr False))"
    by blast
  have "strategies (fst (convert_to_mapinfo env i out)) = strategies acts"
    using c tr a0 by (cases r) simp_all
  also have "strategies acts = strategies (fst (mapinfo_try env (slashes i) (slashes out) ?t))"
    using tr by simp
  finally show ?thesis
    by (simp only: try_strategies)
qed

lemma convert_result:
  assumes "makedirs env = None"
  shows "snd (convert_to_mapinfo env i out)
     = Inr (direct_succeeds env
            \<or> (geojson_prepared env
                \<and> (save_features_succeeds env \<and> cleanup_succeeds env
                    \<or> (temp_exists_for_ogr env \<and> geojson_ogr_succeeds env))))"
proof -
  let ?t = "slashes (path_join (dirname (slashes out)) ''temp_mapinfo_conversion.geojson'')"
  obtain acts r where tr: "mapinfo_try env (slashes i) (slashes out) ?t = (acts, r)"
    by (cases "mapinfo_try env (slashes i) (slashes out) ?t")
  from convert_unfold [OF assms, of i out] obtain a0 where
    c: "convert_to_mapinfo env i out =
           (case mapinfo_try env (slashes i) (slashes out) ?t of
              (acts, Inr result) \<Rightarrow> (a0 @ acts, Inr result)
            | (acts, Inl e) \<Rightarrow>
                (a0 @ acts
                   @ [Log 2 (''Errore durante la conversione a MapInfo: '' @ e)]
                   @ (if temp_exists_on_error env then [Remove ?t] else []),
                 Inr False))"
    by blast
  have "snd (convert_to_mapinfo env i out)
          = Inr (case snd (mapinfo_try env (slashes i) (slashes out) ?t) of
                   Inl e \<Rightarrow> False | Inr r \<Rightarrow> r)"
    using c tr by (cases r) simp_all
  then show ?thesis
    by (simp only: try_result)
qed

lemma convert_never_raises:
  assumes "makedirs env = None"
  shows "\<exists>r. snd (convert_to_mapinfo env i out) = Inr r"
proof -
  let ?t = "slashes (path_join (dirname (slashes out)) ''temp_mapinfo_conversion.geojson'')"
  obtain acts r where tr: "mapinfo_try env (slashes i) (slashes out) ?t = (acts, r)"
    by (cases "mapinfo_try env (slashes i) (slashes out) ?t")
  from convert_unfold [OF assms(1), of i out] tr show ?thesis
    by (cases r) auto
qed


text \<open>
  Claim C3, as stated, fails: when neither \<open>ogr2ogr\<close> nor the host can read the input
  file, the conversion returns failure after the first strategy alone.
\<close>

theorem C3_counterexample:
  "snd (convert_to_mapinfo unreadable_input_env ''roads.gpkg'' ''/data/out/roads.tab'')
     = Inr False
   \<and> strategies (fst (convert_to_mapinfo unreadable_input_env ''roads.gpkg''
                         ''/data/out/roads.tab'')) = [Direct_ogr]"
  by (simp add: convert_to_mapinfo_def mapinfo_try_def mapinfo_sanitize_def
        convert_to_mapinfo_with_ogr_def unreadable_input_env_def Let_def t_srs_def)

text \<open>
  Claim C3, amended.  Once the output directory exists, the conversion never raises, and
  the strategies it starts are an initial part of the sequence direct \<open>ogr2ogr\<close>,
  processing algorithm on the intermediate GeoJSON, \<open>ogr2ogr\<close> on that GeoJSON: the
  first is always started, the second only after the first did not succeed and the GeoJSON
  was prepared.  Unless removing the intermediate file after a successful second strategy
  raises, each strategy is started only after the earlier ones did not succeed, and the
  conversion returns success exactly when one of the started strategies succeeds.
  The second and third strategies are not started when the GeoJSON cannot be prepared
  (input layer invalid, sanitized layer invalid or empty, an exception or an error code
  while writing, file missing or not loadable); the third is not started when the GeoJSON
  no longer exists.
\<close>

theorem C3_fallback_chain:
  "makedirs env = None \<longrightarrow>
     (\<exists>r. snd (convert_to_mapinfo env input_file output_file) = Inr r)
     \<and> prefix (strategies (fst (convert_to_mapinfo env input_file output_file)))
          [Direct_ogr, Save_features, Geojson_ogr]
     \<and> Direct_ogr \<in> set (strategies (fst (convert_to_mapinfo env input_file output_file)))
     \<and> (Save_features \<in> set (strategies (fst (convert_to_mapinfo env input_file output_file)))
          \<longleftrightarrow> \<not> direct_succeeds env \<and> geojson_prepared env)
     \<and> (cleanup_succeeds env \<longrightarrow>
          snd (convert_to_mapinfo env input_file output_file)
            = Inr (direct_succeeds env
                   \<or> (geojson_prepared env
                       \<and> (save_features_succeeds env
                           \<or> (temp_exists_for_ogr env \<and> geojson_ogr_succeeds env))))
          \<and> strategies (fst (convert_to_mapinfo env input_file output_file))
            = (if direct_succeeds env \<or> \<not> geojson_prepared env then [Direct_ogr]
               else if save_features_succeeds env then [Direct_ogr, Save_features]
               else if temp_exists_for_ogr env \<and> temp_exists_in_ogr env
                 then [Direct_ogr, Save_features, Geojson_ogr]
               else [Direct_ogr, Save_features]))"
proof (intro impI)
  assume m: "makedirs env = None"
  note s = convert_strategies [OF m, of input_file output_file]
  note r = convert_result [OF m, of input_file output_file]
  have "\<exists>r. snd (convert_to_mapinfo env input_file output_file) = Inr r"
    using convert_never_raises [OF m] by blast
  moreover have "prefix (strategies (fst (convert_to_mapinfo env input_file output_file)))
          [Direct_ogr, Save_features, Geojson_ogr]"
    unfolding s by (simp add: prefix_def)
  moreover have "Direct_ogr
      \<in> set (strategies (fst (convert_to_mapinfo env input_file output_file)))"
    unfolding s by simp
  moreover have "Save_features
        \<in> set (strategies (fst (convert_to_mapinfo env input_file output_file)))
      \<longleftrightarrow> \<not> direct_succeeds env \<and> geojson_prepared env"
    unfolding s by simp
  moreover have "snd (convert_to_mapinfo env input_file output_file)
            = Inr (direct_succeeds env
                   \<or> (geojson_prepared env
                       \<and> (save_features_succeeds env
                           \<or> (temp_exists_for_ogr env \<and> geojson_ogr_succeeds env))))
          \<and> strategies (fst (convert_to_mapinfo env input_file output_file))
            = (if direct_succeeds env \<or> \<not> geojson_prepared env then [Direct_ogr]
               else if save_features_succeeds env then [Direct_ogr, Save_features]
               else if temp_exists_for_ogr env \<and> temp_exists_in_ogr env
                 then [Direct_ogr, Save_features, Geojson_ogr]
               else [Direct_ogr, Save_features])"
    if "cleanup_succeeds env"
    unfolding s r using that by simp
  ultimately show "(\<exists>r. snd (convert_to_mapinfo env input_file output_file) = Inr r)
     \<and> prefix (strategies (fst (convert_to_mapinfo env input_file output_file)))
          [Direct_ogr, Save_features, Geojson_ogr]
     \<and> Direct_ogr \<in> set (strategies (fst (convert_to_mapinfo env input_file output_file)))
     \<and> (Save_features \<in> set (strategies (fst (convert_to_mapinfo env input_file output_file)))
          \<longleftrightarrow> \<not> direct_succeeds env \<and> geojson_prepared env)
     \<and> (cleanup_succeeds env \<longrightarrow>
          snd (convert_to_mapinfo env input_file output_file)
            = Inr (direct_succeeds env
                   \<or> (geojson_prepared env
                       \<and> (save_features_succeeds env
                           \<or> (temp_exists_for_ogr env \<and> geojson_ogr_succeeds env))))
          \<and> strategies (fst (convert_to_mapinfo env input_file output_file))
            = (if direct_succeeds env \<or> \<not> geojson_prepared env then [Direct_ogr]
               else if save_features_succeeds env then [Direct_ogr, Save_features]
               else if temp_exists_for_ogr env \<and> temp_exists_in_ogr env
                 then [Direct_ogr, Save_features, Geojson_ogr]
               else [Direct_ogr, Save_features]))"
    by blast
qed

theorem C3_fallback_chain_witness:
  "makedirs third_strategy_env = None \<and> cleanup_succeeds third_strategy_env
   \<and> \<not> direct_succeeds third_strategy_env \<and> geojson_prepared third_strategy_env
   \<and> \<not> save_features_succeeds third_strategy_env
   \<and> geojson_ogr_succeeds third_strategy_env
   \<and> snd (convert_to_mapinfo third_strategy_env ''roads.gpkg'' ''/data/out/roads.tab'')
       = Inr True
   \<and> strategies (fst (convert_to_mapinfo third_strategy_env ''roads.gpkg''
                         ''/data/out/roads.tab''))
       = [Direct_ogr, Save_features, Geojson_ogr]"
proof -
  have h: "makedirs third_strategy_env = None" "cleanup_succeeds third_strategy_env"
    "\<not> direct_succeeds third_strategy_env" "geojson_prepared third_strategy_env"
    "\<not> save_features_succeeds third_strategy_env" "geojson_ogr_succeeds third_strategy_env"
    "temp_exists_for_ogr third_strategy_env" "temp_exists_in_ogr third_strategy_env"
    by (simp_all add: third_strategy_env_def cleanup_succeeds_def direct_succeeds_def
          geojson_prepared_def save_features_succeeds_def geojson_ogr_succeeds_def NoError_def)
  from C3_fallback_chain [of third_strategy_env "''roads.gpkg''" "''/data/out/roads.tab''"] h
  show ?thesis by simp
qed


section \<open>Properties of the conversion loop\<close>

lemma update_file_status_simps [simp]:
  "success_count (update_file_status row status msg st) = success_count st"
  "error_count (update_file_status row status msg st) = error_count st"
  "statuses (update_file_status row status msg st) = (statuses st)[row := (status, msg)]"
  "calls (update_file_status row status msg st) = calls st @ [Set_status row status msg]"
  by (simp_all add: update_file_status_def)

lemma called_simps [simp]:
  "success_count (called acts st) = success_count st"
  "error_count (called acts st) = error_count st"
  "statuses (called acts st) = statuses st"
  "calls (called acts st) = calls st @ acts"
  by (simp_all add: called_def)

subsection \<open>One row\<close>

lemma convert_row_outcome:
  "statuses (convert_row cfg row env st) = (statuses st)[row := row_cell cfg row env]
   \<and> error_count (convert_row cfg row env st)
       = error_count st + (if row_failure cfg row env = None then 0 else 1)
   \<and> success_count (convert_row cfg row env st)
       = success_count st + (if row_failure cfg row env = None then 1 else 0)"
  by (simp add: convert_row_def row_cell_def row_failure_def row_output_file_def Let_def
        case_prod_beta split: sum.splits option.splits)

lemma convert_row_counts:
  "success_count (convert_row cfg row env st) + error_count (convert_row cfg row env st)
     = success_count st + error_count st + 1"
  by (simp add: convert_row_outcome)

lemma convert_row_calls:
  "prefix (calls st) (calls (convert_row cfg row env st))"
  by (simp add: convert_row_def Let_def case_prod_beta
           split: sum.splits option.splits prod.splits)

lemma convert_row_appends:
  "calls (convert_row cfg row env st) = calls st @ row_calls cfg row env st"
  using convert_row_calls [of st cfg row env]
  by (auto simp: row_calls_def prefix_def)

lemma append_layer_raises:
  assumes "\<not> ((\<exists>stderr. append_ogr env = Exited 0 stderr) \<and> remove_temp_error env = None)"
  shows "snd (append_layer cfg env layer_name temp_geojson) \<noteq> None"
proof (cases "append_ogr env")
  case (Spawn_error e)
  then show ?thesis
    by (cases "save_alternate_error env"; cases "temp_exists_after_failure env";
        cases "remove_temp_after_failure_error env")
       (simp_all add: append_layer_def Let_def)
next
  case (Exited returncode stderr)
  show ?thesis
  proof (cases "returncode = 0")
    case True
    with Exited assms obtain e where "remove_temp_error env = Some e" by auto
    with Exited True show ?thesis
      by (cases "save_alternate_error env"; cases "temp_exists_after_failure env";
          cases "remove_temp_after_failure_error env")
         (simp_all add: append_layer_def Let_def)
  next
    case False
    with Exited show ?thesis
      by (cases "save_alternate_error env"; cases "temp_exists_after_failure env";
          cases "remove_temp_after_failure_error env")
         (simp_all add: append_layer_def Let_def)
  qed
qed

lemma append_layer_quiet:
  assumes "snd (append_layer cfg env layer_name temp_geojson) = None"
  shows "filter is_error_log (fst (append_layer cfg env layer_name temp_geojson)) = []"
proof -
  from assms append_layer_raises [of env cfg layer_name temp_geojson]
  obtain stderr where "append_ogr env = Exited 0 stderr" "remove_temp_error env = None"
    by blast
  then show ?thesis
    by (simp add: append_layer_def Let_def)
qed

lemma geopackage_try_quiet:
  assumes "snd (geopackage_try cfg env row layer_name) = None"
  shows "filter is_error_log (fst (geopackage_try cfg env row layer_name)) = []"
  using assms
  by (cases "layer_valid env"; cases "transform_crs cfg"; cases "reproject_error env";
      cases "row = 0 \<or> \<not> gpkg_exists_before env"; cases "save_temp_error env")
     (simp_all add: geopackage_try_def Let_def case_prod_beta append_layer_quiet)

lemma convert_row_quiet:
  assumes "row_exception cfg row env = None"
    and "use_single_geopackage cfg \<or> output_format cfg \<noteq> ''MapInfo File''"
  shows "filter is_error_log (row_calls cfg row env st) = []"
proof -
  from assms(1) obtain base_name where b: "clean_base_name env = Inr base_name"
    by (cases "clean_base_name env") (simp_all add: row_exception_def)
  show ?thesis
  proof (cases "use_single_geopackage cfg")
    case True
    with b assms(1) have q: "snd (geopackage_try cfg env row base_name) = None"
      by (simp add: row_exception_def)
    from geopackage_try_quiet [OF q] q b True show ?thesis
      by (simp add: row_calls_def convert_row_def Let_def case_prod_beta)
  next
    case False
    with assms b have "output_format cfg \<noteq> ''MapInfo File''" "run_error (single env) = None"
      by (simp_all add: row_exception_def)
    with b False show ?thesis
      by (simp add: row_calls_def convert_row_def convert_single_file_def Let_def
            case_prod_beta)
  qed
qed

lemma convert_row_logs:
  assumes "row_exception cfg row env = Some e"
    and "row_failure cfg row env \<noteq> None"
  shows "\<exists>p. Log 2 (p @ e) \<in> set (row_calls cfg row env st)"
proof (cases "clean_base_name env")
  case (Inl e')
  with assms(1) have "e' = e" by (simp add: row_exception_def)
  with Inl show ?thesis
    by (auto simp: row_calls_def convert_row_def Let_def
          intro!: exI [of _ "''Errore nella conversione di '' @ file_path env @ '': ''"])
next
  case (Inr base_name)
  show ?thesis
  proof (cases "use_single_geopackage cfg")
    case True
    with Inr assms(1) have "snd (geopackage_try cfg env row base_name) = Some e"
      by (simp add: row_exception_def)
    with Inr True show ?thesis
      by (auto simp: row_calls_def convert_row_def Let_def case_prod_beta
            intro!: exI [of _ "''Errore in processing: ''"])
  next
    case False
    let ?c = "convert_single_file (single env) (file_path env) (row_output_file cfg base_name)
                (output_format cfg)"
    have failed: "\<not> snd ?c"
      using assms(2) Inr False by (auto simp: row_failure_def split: if_splits)
    have "Log 2 ((''Errore nella conversione di '' @ file_path env @ '': '') @ e)
                 \<in> set (fst ?c)"
    proof (cases "output_format cfg = ''MapInfo File''")
      case True
      with Inr False assms(1) have "makedirs (mapinfo (single env)) = Some e"
        by (simp add: row_exception_def)
      with True show ?thesis
        by (simp add: convert_single_file_def convert_to_mapinfo_def Let_def)
    next
      case fmt: False
      with Inr False assms(1) have "run_error (single env) = Some e"
        by (simp add: row_exception_def)
      with fmt failed show ?thesis
        by (auto simp: convert_single_file_def Let_def split: if_splits)
    qed
    then have "Log 2 ((''Errore nella conversione di '' @ file_path env @ '': '') @ e)
                 \<in> set (row_calls cfg row env st)"
      using Inr False
      by (auto simp: row_calls_def convert_row_def row_output_file_def Let_def case_prod_beta)
    then show ?thesis by blast
  qed
qed

subsection \<open>The loop\<close>

lemma loop_counts:
  "success_count (conversion_loop cfg row envs st) + error_count (conversion_loop cfg row envs st)
     = success_count st + error_count st + length envs"
proof (induction envs arbitrary: row st)
  case Nil
  then show ?case by simp
next
  case (Cons env envs)
  show ?case
    using Cons.IH [where row = "Suc row" and st = "convert_row cfg row env st"]
      convert_row_counts [of cfg row env st]
    by simp
qed

lemma loop_calls:
  "prefix (calls st) (calls (conversion_loop cfg row envs st))"
proof (induction envs arbitrary: row st)
  case Nil
  then show ?case by simp
next
  case (Cons env envs)
  show ?case
    using Cons.IH [where row = "Suc row" and st = "convert_row cfg row env st"]
      convert_row_calls [where cfg = cfg and row = row and env = env and st = st]
    by (auto intro: prefix_order.trans)
qed

lemma loop_outcomes:
  assumes "row + length envs \<le> length (statuses st)"
  shows "statuses (conversion_loop cfg row envs st)
           = take row (statuses st)
             @ map (\<lambda>(j, env). row_cell cfg j env) (enumerate row envs)
             @ drop (row + length envs) (statuses st)
       \<and> error_count (conversion_loop cfg row envs st)
           = error_count st
             + length (filter (\<lambda>(j, env). row_failure cfg j env \<noteq> None) (enumerate row envs))
       \<and> success_count (conversion_loop cfg row envs st)
           = success_count st
             + length (filter (\<lambda>(j, env). row_failure cfg j env = None) (enumerate row envs))"
  using assms
proof (induction envs arbitrary: row st)
  case Nil
  then show ?case by simp
next
  case (Cons env envs)
  let ?st1 = "convert_row cfg row env st"
  note o = convert_row_outcome [of cfg row env st]
  have row_lt: "row < length (statuses st)" using Cons.prems by simp
  have bound: "Suc row + length envs \<le> length (statuses ?st1)"
    using Cons.prems o by simp
  note ih = Cons.IH [OF bound]
  have t: "take (Suc row) (statuses ?st1) = take row (statuses st) @ [row_cell cfg row env]"
    using o row_lt by (simp add: take_Suc_conv_app_nth)
  have d: "drop (Suc row + length envs) (statuses ?st1)
             = drop (row + length (env # envs)) (statuses st)"
    using o by simp
  show ?case
    using ih o unfolding t d by simp
qed

lemma reset_statuses_simps:
  "success_count (reset_statuses n st) = success_count st"
  "error_count (reset_statuses n st) = error_count st"
  "length (statuses (reset_statuses n st)) = length (statuses st)"
  by (induction n) (simp_all add: reset_statuses_def)

lemma reset_statuses_calls:
  "calls (reset_statuses n st)
     = calls st @ map (\<lambda>row. Set_status row ''In attesa'' None) [0 ..< n]"
  by (induction n) (simp_all add: reset_statuses_def)

lemma start_conversion_completes:
  assumes "reaches_loop req"
  shows "\<exists>st0. length (statuses st0) = length (table_rows req)
           \<and> success_count st0 = 0 \<and> error_count st0 = 0
           \<and> conversion_state (start_conversion req u0)
               = conversion_loop (conversion_settings req) 0 (table_rows req) st0
           \<and> propagated (start_conversion req u0) = None
           \<and> controls_enabled (screen (start_conversion req u0))
           \<and> last (dialogs (screen (start_conversion req u0)))
               = (Information, ''Completato'',
                  completion_message (conversion_settings req)
                    (conversion_state (start_conversion req u0)))"
proof (cases "use_single_geopackage (conversion_settings req) \<and> gpkg_exists req")
  case True
  let ?st0 = "called [Remove (single_gpkg_path (conversion_settings req))]
                (reset_statuses (length (table_rows req))
                   \<lparr>success_count = 0, error_count = 0,
                    statuses = map status_before (table_rows req), calls = []\<rparr>)"
  have ov: "overwrite req \<and> remove_gpkg_error req = None"
    using True assms by (simp add: reaches_loop_def conversion_settings_def Let_def)
  show ?thesis
    using True assms ov
    unfolding reaches_loop_def
    by (intro exI [of _ ?st0])
       (simp add: start_conversion_def Let_def toggle_controls_def message_box_def
          reset_statuses_simps del: conversion_loop.simps)
next
  case False
  let ?st0 = "reset_statuses (length (table_rows req))
                   \<lparr>success_count = 0, error_count = 0,
                    statuses = map status_before (table_rows req), calls = []\<rparr>"
  from False consider "\<not> use_single_geopackage (conversion_settings req)"
    | "\<not> gpkg_exists req" by blast
  then show ?thesis
  proof cases
    case 1
    with assms show ?thesis
      unfolding reaches_loop_def
      by (intro exI [of _ ?st0])
         (simp add: start_conversion_def Let_def toggle_controls_def message_box_def
            reset_statuses_simps del: conversion_loop.simps)
  next
    case 2
    with assms show ?thesis
      unfolding reaches_loop_def
      by (intro exI [of _ ?st0])
         (simp add: start_conversion_def Let_def toggle_controls_def message_box_def
            reset_statuses_simps del: conversion_loop.simps)
  qed
qed

lemma start_conversion_outcomes:
  assumes "reaches_loop req"
  shows "statuses (conversion_state (start_conversion req u0))
           = map (\<lambda>(j, env). row_cell (conversion_settings req) j env)
               (enumerate 0 (table_rows req))
       \<and> error_count (conversion_state (start_conversion req u0))
           = failed_rows (conversion_settings req) (table_rows req)
       \<and> success_count (conversion_state (start_conversion req u0))
           = converted_rows (conversion_settings req) (table_rows req)"
proof -
  from start_conversion_completes [OF assms, of u0] obtain st0 where
    c: "length (statuses st0) = length (table_rows req)"
      "success_count st0 = 0" "error_count st0 = 0"
      "conversion_state (start_conversion req u0)
         = conversion_loop (conversion_settings req) 0 (table_rows req) st0"
    by blast
  have b: "0 + length (table_rows req) \<le> length (statuses st0)" using c(1) by simp
  from loop_outcomes [OF b, of "conversion_settings req"] c show ?thesis
    by (simp add: failed_rows_def converted_rows_def)
qed

text \<open>
  Claim C5, as stated, fails: a conversion that returns without an exception and leaves no
  output file marks the row as an error and counts it, and nothing is logged.
\<close>

theorem C5_counterexample:
  "error_count (conversion_loop geojson_settings 0 [no_output_row] (waiting 1)) = 1
   \<and> statuses (conversion_loop geojson_settings 0 [no_output_row] (waiting 1))
       = [(''Errore'', Some ''Conversione fallita'')]
   \<and> filter is_log (calls (conversion_loop geojson_settings 0 [no_output_row] (waiting 1)))
       = []"
  by (simp add: convert_row_def geojson_settings_def no_output_row_def waiting_def
        convert_single_file_def silent_env_def supported_formats_def Let_def
        update_file_status_def called_def)

text \<open>
  Claim C5, amended.  The conversion of a row fails when it ends with an exception, when
  the single GeoPackage does not exist after the row, or when \<open>convert_single_file\<close>
  returns \<open>False\<close>.  Processing a row changes the status cell of that row only: to
  \<open>Errore\<close> with the message of the failure and the error count raised by one when the
  conversion fails, to \<open>Completato\<close> with the success count raised by one when it does
  not.  A failure that comes with an exception is written to the log at level 2 with the
  text of the exception; when no exception is raised and the format is not MapInfo, the
  row writes nothing to the log at level 2, whether it fails or not.  The loop processes
  every row: after it, each row shows the outcome of its own conversion, the error count
  is the number of failed rows, the success count the number of the others, and their sum
  is the number of rows.  When the handler gets to the loop, the same holds of its result,
  no exception leaves it, and the last dialog it shows is the completion summary with both
  counts.
\<close>

theorem C5_nonfatal_failures:
  "(statuses (convert_row cfg row env st) = (statuses st)[row := row_cell cfg row env]
    \<and> error_count (convert_row cfg row env st)
        = error_count st + (if row_failure cfg row env = None then 0 else 1)
    \<and> success_count (convert_row cfg row env st)
        = success_count st + (if row_failure cfg row env = None then 1 else 0)
    \<and> calls (convert_row cfg row env st) = calls st @ row_calls cfg row env st
    \<and> (row_exception cfg row env = Some e \<and> row_failure cfg row env \<noteq> None
         \<longrightarrow> (\<exists>p. Log 2 (p @ e) \<in> set (row_calls cfg row env st)))
    \<and> (row_exception cfg row env = None
         \<and> (use_single_geopackage cfg \<or> output_format cfg \<noteq> ''MapInfo File'')
         \<longrightarrow> filter is_error_log (row_calls cfg row env st) = []))
   \<and> (let done = conversion_loop cfg 0 envs (waiting (length envs))
       in statuses done = map (\<lambda>(j, env). row_cell cfg j env) (enumerate 0 envs)
          \<and> error_count done = failed_rows cfg envs
          \<and> success_count done = converted_rows cfg envs
          \<and> success_count done + error_count done = length envs)
   \<and> (reaches_loop req \<longrightarrow>
        (let r = start_conversion req u0
         in statuses (conversion_state r)
              = map (\<lambda>(j, env). row_cell (conversion_settings req) j env)
                  (enumerate 0 (table_rows req))
            \<and> error_count (conversion_state r)
                = failed_rows (conversion_settings req) (table_rows req)
            \<and> success_count (conversion_state r)
                = converted_rows (conversion_settings req) (table_rows req)
            \<and> success_count (conversion_state r) + error_count (conversion_state r)
                = length (table_rows req)
            \<and> propagated r = None
            \<and> (\<exists>rest. last (dialogs (screen r))
                  = (Information, ''Completato'',
                     ''Conversione completata.'' @ nl @ nl
                       @ ''File convertiti con successo: ''
                       @ str_int (int (success_count (conversion_state r))) @ nl
                       @ ''File con errori: ''
                       @ str_int (int (error_count (conversion_state r))) @ rest))))"
proof (intro conjI impI)
  note o = convert_row_outcome [of cfg row env st]
  show "statuses (convert_row cfg row env st) = (statuses st)[row := row_cell cfg row env]"
    using o by simp
  show "error_count (convert_row cfg row env st)
        = error_count st + (if row_failure cfg row env = None then 0 else 1)"
    using o by simp
  show "success_count (convert_row cfg row env st)
        = success_count st + (if row_failure cfg row env = None then 1 else 0)"
    using o by simp
  show "calls (convert_row cfg row env st) = calls st @ row_calls cfg row env st"
    by (rule convert_row_appends)
  show "\<exists>p. Log 2 (p @ e) \<in> set (row_calls cfg row env st)"
    if "row_exception cfg row env = Some e \<and> row_failure cfg row env \<noteq> None"
    using that convert_row_logs [of cfg row env e st] by blast
  show "filter is_error_log (row_calls cfg row env st) = []"
    if "row_exception cfg row env = None
         \<and> (use_single_geopackage cfg \<or> output_format cfg \<noteq> ''MapInfo File'')"
    using that convert_row_quiet [of cfg row env st] by blast
next
  have b: "0 + length envs \<le> length (statuses (waiting (length envs)))"
    by (simp add: waiting_def)
  show "let done = conversion_loop cfg 0 envs (waiting (length envs))
       in statuses done = map (\<lambda>(j, env). row_cell cfg j env) (enumerate 0 envs)
          \<and> error_count done = failed_rows cfg envs
          \<and> success_count done = converted_rows cfg envs
          \<and> success_count done + error_count done = length envs"
    using loop_counts [of cfg 0 envs "waiting (length envs)"]
      loop_outcomes [OF b, of cfg]
    by (simp add: Let_def waiting_def failed_rows_def converted_rows_def)
next
  assume r: "reaches_loop req"
  from start_conversion_completes [OF r, of u0] obtain st0 where
    c: "success_count st0 = 0" "error_count st0 = 0"
      "conversion_state (start_conversion req u0)
         = conversion_loop (conversion_settings req) 0 (table_rows req) st0"
      "propagated (start_conversion req u0) = None"
      "last (dialogs (screen (start_conversion req u0)))
               = (Information, ''Completato'',
                  completion_message (conversion_settings req)
                    (conversion_state (start_conversion req u0)))"
    by blast
  have "success_count (conversion_state (start_conversion req u0))
          + error_count (conversion_state (start_conversion req u0)) = length (table_rows req)"
    using loop_counts [of "conversion_settings req" 0 "table_rows req" st0] c(1-3) by simp
  with c(4,5) start_conversion_outcomes [OF r, of u0]
  show "let r = start_conversion req u0
         in statuses (conversion_state r)
              = map (\<lambda>(j, env). row_cell (conversion_settings req) j env)
                  (enumerate 0 (table_rows req))
            \<and> error_count (conversion_state r)
                = failed_rows (conversion_settings req) (table_rows req)
            \<and> success_count (conversion_state r)
                = converted_rows (conversion_settings req) (table_rows req)
            \<and> success_count (conversion_state r) + error_count (conversion_state r)
                = length (table_rows req)
            \<and> propagated r = None
            \<and> (\<exists>rest. last (dialogs (screen r))
                  = (Information, ''Completato'',
                     ''Conversione completata.'' @ nl @ nl
                       @ ''File convertiti con successo: ''
                       @ str_int (int (success_count (conversion_state r))) @ nl
                       @ ''File con errori: ''
                       @ str_int (int (error_count (conversion_state r))) @ rest))"
    by (simp add: Let_def completion_message_def)
qed

theorem C5_nonfatal_failures_witness:
  "reaches_loop three_files_request
   \<and> statuses (conversion_state (start_conversion three_files_request enabled_screen))
       = [(''Completato'', None), (''Errore'', Some ''Conversione fallita''),
          (''Errore'', Some ''expected str, not NoneType'')]
   \<and> error_count (conversion_state (start_conversion three_files_request enabled_screen)) = 2
   \<and> success_count (conversion_state (start_conversion three_files_request enabled_screen)) = 1
   \<and> row_exception geojson_settings 2 raising_row = Some ''expected str, not NoneType''
   \<and> Log 2 (''Errore nella conversione di /data/in/roads.shp: expected str, not NoneType'')
       \<in> set (row_calls geojson_settings 2 raising_row (waiting 3))
   \<and> row_exception geojson_settings 1 no_output_row = None
   \<and> row_failure geojson_settings 1 no_output_row = Some ''Conversione fallita''
   \<and> filter is_error_log (row_calls geojson_settings 1 no_output_row (waiting 3)) = []"
proof -
  let ?r = "start_conversion three_files_request enabled_screen"
  have reach: "reaches_loop three_files_request"
    by (simp add: reaches_loop_def three_files_request_def)
  have cfg: "conversion_settings three_files_request = geojson_settings"
    by (simp add: conversion_settings_def three_files_request_def geojson_settings_def
          Let_def)
  have f: "row_failure geojson_settings j converted_row = None"
    "row_failure geojson_settings j no_output_row = Some ''Conversione fallita''"
    "row_failure geojson_settings j raising_row = Some ''expected str, not NoneType''"
    for j
    by (simp_all add: row_failure_def geojson_settings_def converted_row_def raising_row_def
          no_output_row_def convert_single_file_def silent_env_def Let_def)
  have ex: "row_exception geojson_settings 2 raising_row = Some ''expected str, not NoneType''"
    "row_exception geojson_settings 1 no_output_row = None"
    "\<not> use_single_geopackage geojson_settings"
    "output_format geojson_settings \<noteq> ''MapInfo File''"
    by (simp_all add: row_exception_def raising_row_def no_output_row_def
          geojson_settings_def)
  have rows: "enumerate 0 (table_rows three_files_request)
                = [(0, converted_row), (1, no_output_row), (2, raising_row)]"
    by (simp add: three_files_request_def)
  note c5 = C5_nonfatal_failures [where cfg = geojson_settings and st = "waiting 3"
      and envs = "[]" and req = three_files_request and ?u0.0 = enabled_screen]
  from c5 [of 2 raising_row "''expected str, not NoneType''"] reach
  have st: "statuses (conversion_state ?r)
       = [(''Completato'', None), (''Errore'', Some ''Conversione fallita''),
          (''Errore'', Some ''expected str, not NoneType'')]"
    and ec: "error_count (conversion_state ?r) = 2"
    and sc: "success_count (conversion_state ?r) = 1"
    by (simp_all add: Let_def cfg rows row_cell_def f failed_rows_def converted_rows_def)
  from c5 [of 2 raising_row "''expected str, not NoneType''"] ex f obtain p where
    p: "Log 2 (p @ ''expected str, not NoneType'')
          \<in> set (row_calls geojson_settings 2 raising_row (waiting 3))"
    by auto
  then have lg: "Log 2 (''Errore nella conversione di /data/in/roads.shp: expected str, not NoneType'')
       \<in> set (row_calls geojson_settings 2 raising_row (waiting 3))"
    by (simp add: row_calls_def convert_row_def raising_row_def no_output_row_def waiting_def
          Let_def update_file_status_def called_def)
  from c5 [of 1 no_output_row "[]"] ex
  have q: "filter is_error_log (row_calls geojson_settings 1 no_output_row (waiting 3)) = []"
    by simp
  from reach st ec sc ex f lg q show ?thesis by simp
qed

section \<open>Properties of the run handlers\<close>

lemma ui_simps [simp]:
  "controls_enabled (message_box kind title text u) = controls_enabled u"
  "controls_enabled (toggle_controls enable u) = enable"
  "dialogs (toggle_controls enable u) = dialogs u"
  "dialogs (message_box kind title text u) = dialogs u @ [(kind, title, text)]"
  by (simp_all add: message_box_def toggle_controls_def)

lemma exclude_handler:
  "exclude_propagated (exclude_features req u0) = None
   \<and> (controls_enabled u0 \<longrightarrow> controls_enabled (exclude_screen (exclude_features req u0)))"
  by (simp add: exclude_features_def Let_def split: option.splits prod.splits sum.splits)

lemma exclude_error_dialog:
  assumes "eflayerdef req = Some source_layer" and "eflayermatch req = Some match_layer"
    and "efjoindef req \<noteq> []" and "efjoinmatch req \<noteq> []"
    and "same_layer_id req \<longrightarrow> proceed_same_layer req"
    and "fst (exclude_try req source_layer match_layer
               (toggle_controls False
                  (if same_layer_id req
                   then message_box Warning ''Warning''
                          (same_layer_text (eflayerdef_name req) (eflayermatch_name req)) u0
                   else u0))) = Inl e"
  shows "last (dialogs (exclude_screen (exclude_features req u0)))
           = (Critical, ''Error'', ''An error occurred during the operation:'' @ nl @ e)
         \<and> controls_enabled (exclude_screen (exclude_features req u0))
         \<and> deleted_features (exclude_features req u0) = []"
  using assms
  by (auto simp: exclude_features_def Let_def split: prod.splits sum.splits)

lemma conversion_handler:
  "propagated (start_conversion req u0) = None
   \<and> (controls_enabled u0 \<longrightarrow> controls_enabled (screen (start_conversion req u0)))"
  by (simp add: start_conversion_def Let_def split: option.splits)

lemma conversion_error_dialog:
  assumes "table_rows req \<noteq> []" and "destination req \<noteq> []" and "destination_is_dir req"
    and "format_text req \<noteq> []" and "confirmed req" and "initialize_error req = Some e"
  shows "last (dialogs (screen (start_conversion req u0)))
           = (Critical, ''Errore'',
              ''Si '' @ [CHR 0xE8]
                @ '' verificato un errore durante la conversione: '' @ e)
         \<and> controls_enabled (screen (start_conversion req u0))"
  using assms
  by (simp add: start_conversion_def Let_def)

lemma load_handler:
  "load_propagated (load_layers req u0 st0) = None
   \<and> (controls_enabled u0 \<longrightarrow> controls_enabled (load_screen (load_layers req u0 st0)))"
  by (simp add: load_layers_def Let_def case_prod_beta split: option.splits)

lemma load_error_dialog:
  assumes "strip (source_path req) \<noteq> []" and "any_format_checked req"
    and "fst (fst (load_try (req\<lparr>source_path := strip (source_path req)\<rparr>)
                     (toggle_controls False u0) st0)) = Some e"
  shows "(Warning, ''Errore'',
          ''Si '' @ [CHR 0xE8]
            @ '' verificato un errore durante il caricamento: '' @ e)
           \<in> set (dialogs (load_screen (load_layers req u0 st0)))
         \<and> controls_enabled (load_screen (load_layers req u0 st0))"
  using assms
  by (simp add: load_layers_def Let_def case_prod_beta)


lemma rename_one_alive:
  assumes "\<not> deleted l"
  shows "\<exists>acc'. rename_one rl rr st rt pre suf l acc = Inr acc'"
  using assms
  by (simp add: rename_one_def name_of_def setName_def Let_def)

lemma rename_loop_alive:
  assumes "\<forall>l \<in> set ls. \<not> deleted l"
  shows "fst (rename_loop rl rr st rt pre suf ls acc) = None"
  using assms
proof (induction ls arbitrary: acc)
  case Nil
  then show ?case by simp
next
  case (Cons l ls)
  from Cons.prems have "\<not> deleted l" by simp
  from rename_one_alive [OF this, of rl rr st rt pre suf acc] obtain acc1 where
    "rename_one rl rr st rt pre suf l acc = Inr acc1" by blast
  moreover from Cons.prems have "\<forall>l \<in> set ls. \<not> deleted l" by simp
  ultimately show ?case using Cons.IH [of acc1] by simp
qed

lemma rename_handler:
  assumes "\<forall>l \<in> set (selected_layers req). \<not> deleted l"
  shows "rename_propagated (rename_layers req u0) = None
         \<and> (controls_enabled u0 \<longrightarrow> controls_enabled (rename_screen (rename_layers req u0)))"
proof (cases "rlsx req")
  case None
  then show ?thesis by (simp add: rename_layers_def Let_def split: option.splits)
next
  case l: (Some remove_left)
  show ?thesis
  proof (cases "rldx req")
    case None
    with l show ?thesis by (simp add: rename_layers_def Let_def)
  next
    case r: (Some remove_right)
    obtain acc where "rename_loop remove_left remove_right (rlsos req) (rlcon req)
        (rlpre req) (rlsuf req) (selected_layers req)
        \<lparr>layers_done = [], renamed_layers = [], error_layers = []\<rparr> = (None, acc)"
      using rename_loop_alive [OF assms, of remove_left remove_right "rlsos req" "rlcon req"
        "rlpre req" "rlsuf req" "\<lparr>layers_done = [], renamed_layers = [], error_layers = []\<rparr>"]
      by (cases "rename_loop remove_left remove_right (rlsos req) (rlcon req)
        (rlpre req) (rlsuf req) (selected_layers req)
        \<lparr>layers_done = [], renamed_layers = [], error_layers = []\<rparr>") simp
    with l r show ?thesis
      by (simp add: rename_layers_def Let_def)
  qed
qed

lemma exclude_error_example:
  "exclude_propagated (exclude_features failing_transform_request enabled_screen) = None
   \<and> last (dialogs (exclude_screen (exclude_features failing_transform_request enabled_screen)))
       = (Critical, ''Error'',
          ''An error occurred during the operation:'' @ nl @ ''no transformation'')
   \<and> controls_enabled (exclude_screen (exclude_features failing_transform_request
                                          enabled_screen))
   \<and> deleted_features (exclude_features failing_transform_request enabled_screen) = []"
proof -
  have raised: "fst (exclude_try failing_transform_request
          (example_source_layer\<lparr>crs_authid := ''EPSG:3003''\<rparr>) example_match_layer
          (toggle_controls False enabled_screen)) = Inl ''no transformation''"
    by (simp add: exclude_try_def failing_transform_request_def analyse_def
          example_source_layer_def example_match_layer_def example_heap_def
          initial_analysis_def match_loop_body_def source_loop_body_def join_key_def
          to_metric_def interval_host_def interval_lower_def metric_crs_def Let_def)
  have h: "eflayerdef failing_transform_request
             = Some (example_source_layer\<lparr>crs_authid := ''EPSG:3003''\<rparr>)"
    "eflayermatch failing_transform_request = Some example_match_layer"
    "efjoindef failing_transform_request \<noteq> []" "efjoinmatch failing_transform_request \<noteq> []"
    "\<not> same_layer_id failing_transform_request"
    by (simp_all add: failing_transform_request_def)
  from exclude_error_dialog [of failing_transform_request
      "example_source_layer\<lparr>crs_authid := ''EPSG:3003''\<rparr>" example_match_layer
      enabled_screen "''no transformation''"]
    exclude_handler [of failing_transform_request enabled_screen] raised h
  show ?thesis by simp
qed

text \<open>
  Claim C4: an exception raised during the operation of a run button is caught, shown in
  a modal dialog and not passed on to the caller, and the controls are enabled again
  afterwards.  The feature excluder, the batch converter and the layer loader do so, as
  the lemmas above state.  The layer renamer wraps the renaming of each layer in
  \<open>try\<close> and \<open>except Exception\<close>, but the \<open>except\<close> clause calls \<open>layer.name()\<close>
  again: with two selected layers of which the host has deleted the second, the first
  layer is renamed, the exception of the second leaves \<open>rename_layers\<close>, the only
  dialog shown is the confirmation, and the controls stay disabled.
\<close>

theorem C4_rename_exception_escapes:
  "rename_propagated (rename_layers stale_layer_request enabled_screen) = Some deleted_msg
   \<and> \<not> controls_enabled (rename_screen (rename_layers stale_layer_request enabled_screen))
   \<and> map fst (dialogs (rename_screen (rename_layers stale_layer_request enabled_screen)))
       = [Question]
   \<and> layers_after (rename_layers stale_layer_request enabled_screen)
       = [\<lparr>name_text = ''old_rivers'', deleted = False\<rparr>,
          \<lparr>name_text = ''roads'', deleted = True\<rparr>]"
  by (simp add: rename_layers_def stale_layer_request_def enabled_screen_def Let_def
        rename_one_def rename_except_def name_of_def setName_def rename_layers_new_name_def)

theorem C4_rename_exception_escapes_witness:
  "rename_propagated (rename_layers stale_layer_request enabled_screen)
     = Some ''wrapped C/C++ object has been deleted''
   \<and> controls_enabled (rename_screen (rename_layers stale_layer_request enabled_screen))
       = False
   \<and> map name_text (layers_after (rename_layers stale_layer_request enabled_screen))
       = [''old_rivers'', ''roads'']"
  using C4_rename_exception_escapes
  by (simp add: deleted_msg_def)

section \<open>Properties of cancellation\<close>

lemma exclude_try_cancel:
  assumes "\<not> selection_accepted req \<or> selected_fids req = []
           \<or> (efbkp req \<and> backup_path req = None \<and> \<not> proceed_without_backup req)"
    and "exclude_try req source_layer match_layer u = (Inr removed, u')"
  shows "removed = []"
  using assms
  by (auto simp: exclude_try_def Let_def split: sum.splits prod.splits if_splits option.splits)

lemma exclude_cancel:
  assumes "\<not> selection_accepted req \<or> selected_fids req = []
           \<or> (efbkp req \<and> backup_path req = None \<and> \<not> proceed_without_backup req)
           \<or> (same_layer_id req \<and> \<not> proceed_same_layer req)"
  shows "deleted_features (exclude_features req u0) = []"
proof (cases "same_layer_id req \<and> \<not> proceed_same_layer req")
  case True
  then show ?thesis
    by (simp add: exclude_features_def Let_def split: option.splits)
next
  case False
  with assms have c: "\<not> selection_accepted req \<or> selected_fids req = []
           \<or> (efbkp req \<and> backup_path req = None \<and> \<not> proceed_without_backup req)"
    by blast
  show ?thesis
    by (auto simp: exclude_features_def Let_def split: option.splits prod.splits sum.splits
          dest: exclude_try_cancel [OF c])
qed

lemma conversion_cancel:
  assumes "\<not> confirmed req
           \<or> (use_single_geopackage (conversion_settings req) \<and> gpkg_exists req
               \<and> \<not> overwrite req)"
  shows "success_count (conversion_state (start_conversion req u0)) = 0
         \<and> error_count (conversion_state (start_conversion req u0)) = 0
         \<and> (\<forall>row. Set_status row ''In elaborazione'' None
                     \<notin> set (calls (conversion_state (start_conversion req u0))))"
  using assms
  by (auto simp: start_conversion_def Let_def reset_statuses_simps reset_statuses_calls
           split: option.splits)

lemma rename_cancel:
  assumes "(rlsos req \<noteq> [] \<and> rlcon req = [] \<and> \<not> delete_text_confirmed req)
           \<or> \<not> rename_confirmed req"
  shows "layers_after (rename_layers req u0) = selected_layers req
         \<and> rename_propagated (rename_layers req u0) = None
         \<and> controls_enabled (rename_screen (rename_layers req u0)) = controls_enabled u0"
  using assms
  by (auto simp: rename_layers_def Let_def split: option.splits)

text \<open>
  Claim C6, as stated, fails: the cancel flag of the geoprocessing model is not the only
  cancellation mechanism.  In the feature excluder the user cancels the operation by
  closing the selection dialog: with the same layers and settings, the feature found by
  the analysis is deleted when the dialog is accepted, and no feature is deleted when it
  is closed.
\<close>

theorem C6_counterexample:
  "deleted_features (exclude_features closed_selection_request enabled_screen) = []
   \<and> deleted_features
         (exclude_features (closed_selection_request\<lparr>selection_accepted := True\<rparr>)
            enabled_screen) = [10]
   \<and> map fst (dialogs (exclude_screen
                           (exclude_features closed_selection_request enabled_screen)))
       = [Question]
   \<and> controls_enabled (exclude_screen
                           (exclude_features closed_selection_request enabled_screen))"
  by (simp add: exclude_features_def exclude_try_def closed_selection_request_def
        failing_transform_request_def enabled_screen_def analyse_def
        example_source_layer_def example_match_layer_def example_heap_def
        initial_analysis_def match_loop_body_def source_loop_body_def join_key_def
        to_metric_def is_different_def interval_host_def interval_lower_def metric_crs_def
        Let_def)

text \<open>
  Claim C6, amended.  The child algorithms started by the model are always an initial
  part of its seven steps.  The cancel flag is read after each of the first six steps: if
  the flag is set at the check after step \<open>k\<close>, at most \<open>k\<close> child algorithms have
  been started, and the model returns the empty dictionary unless a child algorithm raised
  before.  When no child raises, the first check that finds the flag set ends the model
  with exactly the first \<open>k\<close> steps run and the empty dictionary; when the flag is never
  set, all seven steps run and the result holds the output of the last one.
  The other tools are cancelled by the answer to a dialog.  The feature excluder deletes
  no feature when the user declines to compare a layer with itself, closes the selection
  dialog, accepts it with no row selected, or declines to go on without a backup.  The
  batch converter converts no file when the user declines the confirmation or the
  overwriting of an existing GeoPackage; once it gets to its loop, every row is processed.
  The layer renamer renames no layer when the user declines one of its confirmations.
  None of these lets an exception out, and the controls are enabled afterwards if they
  were before.
\<close>

theorem C6_cancel_between_steps:
  "prefix (map fst (fst (processAlgorithm parameters run isCanceled))) model_steps
   \<and> (\<forall>k. 1 \<le> k \<and> k \<le> 6 \<and> isCanceled k \<longrightarrow>
         length (fst (processAlgorithm parameters run isCanceled)) \<le> k
         \<and> (snd (processAlgorithm parameters run isCanceled) = Inr []
             \<or> (\<exists>e. snd (processAlgorithm parameters run isCanceled) = Inl e)))
   \<and> (\<forall>k. 1 \<le> k \<and> k \<le> 6 \<and> isCanceled k \<and> (\<forall>j. 1 \<le> j \<and> j < k \<longrightarrow> \<not> isCanceled j) \<longrightarrow>
         map fst (fst (processAlgorithm (\<lambda>key. Some (pv key)) (\<lambda>alg ps. Inr (out alg ps))
                         isCanceled)) = take k model_steps
         \<and> snd (processAlgorithm (\<lambda>key. Some (pv key)) (\<lambda>alg ps. Inr (out alg ps))
                  isCanceled) = Inr [])
   \<and> ((\<forall>k. 1 \<le> k \<and> k \<le> 6 \<longrightarrow> \<not> isCanceled k) \<longrightarrow>
         map fst (fst (processAlgorithm (\<lambda>key. Some (pv key)) (\<lambda>alg ps. Inr (out alg ps))
                         isCanceled)) = model_steps
         \<and> (\<exists>v. snd (processAlgorithm (\<lambda>key. Some (pv key)) (\<lambda>alg ps. Inr (out alg ps))
                       isCanceled) = Inr [(''InfrastrutturaConNcavi'', v)]))
   \<and> ((same_layer_id xreq \<and> \<not> proceed_same_layer xreq) \<or> \<not> selection_accepted xreq
        \<or> selected_fids xreq = []
        \<or> (efbkp xreq \<and> backup_path xreq = None \<and> \<not> proceed_without_backup xreq)
       \<longrightarrow> deleted_features (exclude_features xreq u) = []
           \<and> exclude_propagated (exclude_features xreq u) = None
           \<and> (controls_enabled u
                \<longrightarrow> controls_enabled (exclude_screen (exclude_features xreq u))))
   \<and> (\<not> confirmed creq
        \<or> (use_single_geopackage (conversion_settings creq) \<and> gpkg_exists creq
            \<and> \<not> overwrite creq)
       \<longrightarrow> success_count (conversion_state (start_conversion creq u)) = 0
           \<and> error_count (conversion_state (start_conversion creq u)) = 0
           \<and> (\<forall>row. Set_status row ''In elaborazione'' None
                       \<notin> set (calls (conversion_state (start_conversion creq u))))
           \<and> propagated (start_conversion creq u) = None
           \<and> (controls_enabled u \<longrightarrow> controls_enabled (screen (start_conversion creq u))))
   \<and> (reaches_loop creq
       \<longrightarrow> statuses (conversion_state (start_conversion creq u))
             = map (\<lambda>(j, env). row_cell (conversion_settings creq) j env)
                 (enumerate 0 (table_rows creq)))
   \<and> ((rlsos rreq \<noteq> [] \<and> rlcon rreq = [] \<and> \<not> delete_text_confirmed rreq)
        \<or> \<not> rename_confirmed rreq
       \<longrightarrow> layers_after (rename_layers rreq u) = selected_layers rreq
           \<and> rename_propagated (rename_layers rreq u) = None
           \<and> controls_enabled (rename_screen (rename_layers rreq u)) = controls_enabled u)"
proof -
  have model: "prefix (map fst (fst (processAlgorithm parameters run isCanceled))) model_steps
   \<and> (\<forall>k. 1 \<le> k \<and> k \<le> 6 \<and> isCanceled k \<longrightarrow>
         length (fst (processAlgorithm parameters run isCanceled)) \<le> k
         \<and> (snd (processAlgorithm parameters run isCanceled) = Inr []
             \<or> (\<exists>e. snd (processAlgorithm parameters run isCanceled) = Inl e)))
   \<and> (\<forall>k. 1 \<le> k \<and> k \<le> 6 \<and> isCanceled k \<and> (\<forall>j. 1 \<le> j \<and> j < k \<longrightarrow> \<not> isCanceled j) \<longrightarrow>
         map fst (fst (processAlgorithm (\<lambda>key. Some (pv key)) (\<lambda>alg ps. Inr (out alg ps))
                         isCanceled)) = take k model_steps
         \<and> snd (processAlgorithm (\<lambda>key. Some (pv key)) (\<lambda>alg ps. Inr (out alg ps))
                  isCanceled) = Inr [])
   \<and> ((\<forall>k. 1 \<le> k \<and> k \<le> 6 \<longrightarrow> \<not> isCanceled k) \<longrightarrow>
         map fst (fst (processAlgorithm (\<lambda>key. Some (pv key)) (\<lambda>alg ps. Inr (out alg ps))
                         isCanceled)) = model_steps
         \<and> (\<exists>v. snd (processAlgorithm (\<lambda>key. Some (pv key)) (\<lambda>alg ps. Inr (out alg ps))
                       isCanceled) = Inr [(''InfrastrutturaConNcavi'', v)]))"
    using started_steps [of parameters run isCanceled]
      canceled_stops [of isCanceled _ parameters run]
      first_cancel [of isCanceled _ pv out]
      never_canceled [of isCanceled pv out]
    by blast
  have excluder: "deleted_features (exclude_features xreq u) = []
           \<and> exclude_propagated (exclude_features xreq u) = None
           \<and> (controls_enabled u
                \<longrightarrow> controls_enabled (exclude_screen (exclude_features xreq u)))"
    if "(same_layer_id xreq \<and> \<not> proceed_same_layer xreq) \<or> \<not> selection_accepted xreq
        \<or> selected_fids xreq = []
        \<or> (efbkp xreq \<and> backup_path xreq = None \<and> \<not> proceed_without_backup xreq)"
    using that exclude_cancel [of xreq u] exclude_handler [of xreq u] by blast
  have converter: "success_count (conversion_state (start_conversion creq u)) = 0
           \<and> error_count (conversion_state (start_conversion creq u)) = 0
           \<and> (\<forall>row. Set_status row ''In elaborazione'' None
                       \<notin> set (calls (conversion_state (start_conversion creq u))))
           \<and> propagated (start_conversion creq u) = None
           \<and> (controls_enabled u \<longrightarrow> controls_enabled (screen (start_conversion creq u)))"
    if "\<not> confirmed creq
        \<or> (use_single_geopackage (conversion_settings creq) \<and> gpkg_exists creq
            \<and> \<not> overwrite creq)"
    using conversion_cancel [OF that, of u] conversion_handler [of creq u] by blast
  have loop: "statuses (conversion_state (start_conversion creq u))
             = map (\<lambda>(j, env). row_cell (conversion_settings creq) j env)
                 (enumerate 0 (table_rows creq))"
    if "reaches_loop creq"
    using start_conversion_outcomes [OF that, of u] by blast
  have renamer: "layers_after (rename_layers rreq u) = selected_layers rreq
           \<and> rename_propagated (rename_layers rreq u) = None
           \<and> controls_enabled (rename_screen (rename_layers rreq u)) = controls_enabled u"
    if "(rlsos rreq \<noteq> [] \<and> rlcon rreq = [] \<and> \<not> delete_text_confirmed rreq)
        \<or> \<not> rename_confirmed rreq"
    using rename_cancel [OF that] by blast
  from model excluder converter loop renamer show ?thesis by blast
qed

theorem C6_cancel_between_steps_witness:
  "map fst (fst (processAlgorithm (\<lambda>key. Some (S key)) (\<lambda>alg ps. Inr (S alg)) (\<lambda>k. 3 \<le> k)))
     = [''native:buffer'', ''native:fieldcalculator'', ''native:fixgeometries'']
   \<and> snd (processAlgorithm (\<lambda>key. Some (S key)) (\<lambda>alg ps. Inr (S alg)) (\<lambda>k. 3 \<le> k)) = Inr []
   \<and> length (fst (processAlgorithm Map.empty (\<lambda>alg ps. Inr (S alg)) (\<lambda>k. 3 \<le> k))) \<le> 3
   \<and> \<not> selection_accepted closed_selection_request
   \<and> deleted_features (exclude_features closed_selection_request enabled_screen) = []
   \<and> controls_enabled
         (exclude_screen (exclude_features closed_selection_request enabled_screen))
   \<and> \<not> confirmed (three_files_request\<lparr>confirmed := False\<rparr>)
   \<and> success_count (conversion_state
         (start_conversion (three_files_request\<lparr>confirmed := False\<rparr>) enabled_screen)) = 0
   \<and> reaches_loop three_files_request
   \<and> length (statuses (conversion_state
                          (start_conversion three_files_request enabled_screen))) = 3
   \<and> \<not> rename_confirmed (stale_layer_request\<lparr>rename_confirmed := False\<rparr>)
   \<and> rename_propagated
         (rename_layers (stale_layer_request\<lparr>rename_confirmed := False\<rparr>) enabled_screen)
       = None"
proof -
  note c6 = C6_cancel_between_steps [where isCanceled = "\<lambda>k. 3 \<le> k" and pv = S
      and out = "\<lambda>alg ps. S alg" and xreq = closed_selection_request and u = enabled_screen
      and creq = "three_files_request\<lparr>confirmed := False\<rparr>"
      and rreq = "stale_layer_request\<lparr>rename_confirmed := False\<rparr>"]
  have h: "(1::nat) \<le> 3 \<and> (3::nat) \<le> 6 \<and> (3::nat) \<le> 3
           \<and> (\<forall>j::nat. 1 \<le> j \<and> j < 3 \<longrightarrow> \<not> 3 \<le> j)"
    by simp
  from c6 [of "\<lambda>key. Some (S key)" "\<lambda>alg ps. Inr (S alg)"] h
  have "map fst (fst (processAlgorithm (\<lambda>key. Some (S key)) (\<lambda>alg ps. Inr (S alg))
                         (\<lambda>k. 3 \<le> k))) = take 3 model_steps
        \<and> snd (processAlgorithm (\<lambda>key. Some (S key)) (\<lambda>alg ps. Inr (S alg)) (\<lambda>k. 3 \<le> k))
            = Inr []"
    by blast
  then have m1: "map fst (fst (processAlgorithm (\<lambda>key. Some (S key)) (\<lambda>alg ps. Inr (S alg))
                         (\<lambda>k. 3 \<le> k)))
        = [''native:buffer'', ''native:fieldcalculator'', ''native:fixgeometries'']
        \<and> snd (processAlgorithm (\<lambda>key. Some (S key)) (\<lambda>alg ps. Inr (S alg)) (\<lambda>k. 3 \<le> k))
            = Inr []"
    by (simp add: model_steps_def)
  from c6 [of Map.empty "\<lambda>alg ps. Inr (S alg)"] h
  have m2: "length (fst (processAlgorithm Map.empty (\<lambda>alg ps. Inr (S alg)) (\<lambda>k. 3 \<le> k))) \<le> 3"
    by blast
  have x: "\<not> selection_accepted closed_selection_request"
    "controls_enabled enabled_screen"
    by (simp_all add: closed_selection_request_def enabled_screen_def)
  with c6 [of parameters run]
  have m3: "deleted_features (exclude_features closed_selection_request enabled_screen) = []
      \<and> controls_enabled
            (exclude_screen (exclude_features closed_selection_request enabled_screen))"
    for parameters :: "string \<rightharpoonup> pval" and run
    by blast
  have c: "\<not> confirmed (three_files_request\<lparr>confirmed := False\<rparr>)" by simp
  with c6 [of parameters run]
  have m4: "success_count (conversion_state
         (start_conversion (three_files_request\<lparr>confirmed := False\<rparr>) enabled_screen)) = 0"
    for parameters :: "string \<rightharpoonup> pval" and run
    by blast
  have r: "\<not> rename_confirmed (stale_layer_request\<lparr>rename_confirmed := False\<rparr>)" by simp
  with c6 [of parameters run]
  have m5: "rename_propagated
         (rename_layers (stale_layer_request\<lparr>rename_confirmed := False\<rparr>) enabled_screen)
       = None"
    for parameters :: "string \<rightharpoonup> pval" and run
    by blast
  have reach: "reaches_loop three_files_request"
    by (simp add: reaches_loop_def three_files_request_def)
  from C6_cancel_between_steps [where creq = three_files_request and u = enabled_screen] reach
  have "statuses (conversion_state (start_conversion three_files_request enabled_screen))
             = map (\<lambda>(j, env). row_cell (conversion_settings three_files_request) j env)
                 (enumerate 0 (table_rows three_files_request))"
    by blast
  then have m6: "length (statuses (conversion_state
                          (start_conversion three_files_request enabled_screen))) = 3"
    by (simp add: three_files_request_def)
  from m1 m2 m3 m4 m5 m6 x c r reach show ?thesis by blast
qed


section \<open>Properties of the state the tools retain\<close>

lemma obs_triple [simp]: "obs (r, u, st) = (r, u)"
  by (simp add: obs_def)

lemma compressed_obs:
  "obs (process_compressed_file c env st u) = obs (process_compressed_file c env st' u)"
  by (simp add: process_compressed_file_def Let_def split: option.splits extraction.splits)

lemma folder_obs:
  "obs (process_folder_files c n fs counts u st) = obs (process_folder_files c n fs counts u st')"
proof (induction fs arbitrary: counts u st st')
  case Nil
  then show ?case by simp
next
  case (Cons f fs)
  obtain loaded_count total_files where counts: "counts = (loaded_count, total_files)"
    by (cases counts)
  show ?case
  proof (cases f)
    case (Archive_file env)
    show ?thesis
    proof (cases n)
      case False
      with Archive_file counts Cons.IH show ?thesis by simp
    next
      case True
      obtain r u1 s1 where p1: "process_compressed_file c env st u = (r, u1, s1)"
        by (cases "process_compressed_file c env st u")
      obtain r' u1' s1' where p2: "process_compressed_file c env st' u = (r', u1', s1')"
        by (cases "process_compressed_file c env st' u")
      from compressed_obs [of c env st u st'] p1 p2 have eq: "r' = r" "u1' = u1" by simp_all
      show ?thesis
      proof (cases r)
        case (Inl e)
        with Archive_file counts True p1 p2 eq show ?thesis by simp
      next
        case (Inr nested_count)
        with Archive_file counts True p1 p2 eq
          Cons.IH [of "(loaded_count + nested_count, total_files + 1)" u1 s1 s1']
        show ?thesis by simp
      qed
    qed
  next
    case (Plain_file path filters loads)
    show ?thesis
    proof (cases filters)
      case (Inl e)
      with Plain_file counts show ?thesis by simp
    next
      case (Inr pass)
      with Plain_file counts Cons.IH show ?thesis
        by (cases pass) (simp_all add: load_layer_def)
    qed
  qed
qed

lemma walk_obs:
  "obs (process_walk c n ws counts u st) = obs (process_walk c n ws counts u st')"
proof (induction ws arbitrary: counts u st st')
  case Nil
  then show ?case by simp
next
  case (Cons w ws)
  let ?s1 = "if c \<and> \<not> root_is_directory w then nested_groups (parts w) st else st"
  let ?s1' = "if c \<and> \<not> root_is_directory w then nested_groups (parts w) st' else st'"
  obtain r u1 s2 where p1: "process_folder_files c n (files w) counts u ?s1 = (r, u1, s2)"
    by (cases "process_folder_files c n (files w) counts u ?s1")
  obtain r' u1' s2' where p2: "process_folder_files c n (files w) counts u ?s1' = (r', u1', s2')"
    by (cases "process_folder_files c n (files w) counts u ?s1'")
  from folder_obs [of c n "files w" counts u ?s1 ?s1'] p1 p2 have eq: "r' = r" "u1' = u1"
    by simp_all
  show ?case
  proof (cases r)
    case (Inl e)
    with p1 p2 eq show ?thesis by (simp add: Let_def)
  next
    case (Inr counts')
    with p1 p2 eq Cons.IH [of counts' u1 s2 s2'] show ?thesis
      by (cases n) (simp_all add: Let_def)
  qed
qed

lemma files_obs:
  "obs (process_files c n g ws u st) = obs (process_files c n g ws u st')"
  using walk_obs
  by (simp add: process_files_def create_layer_group_def Let_def split: group_lookup.splits)

lemma try_obs:
  "obs (load_try req u st) = obs (load_try req u st')"
proof (cases "source req")
  case (Archive env)
  obtain r u1 s1 where p1: "process_compressed_file (llcheckgroup req) env st u = (r, u1, s1)"
    by (cases "process_compressed_file (llcheckgroup req) env st u")
  obtain r' u1' s1' where
    p2: "process_compressed_file (llcheckgroup req) env st' u = (r', u1', s1')"
    by (cases "process_compressed_file (llcheckgroup req) env st' u")
  from compressed_obs [of "llcheckgroup req" env st u st'] p1 p2 have "r' = r" "u1' = u1"
    by simp_all
  with Archive p1 p2 show ?thesis
    by (cases r) (simp_all add: load_try_def Let_def split: option.splits)
next
  case (Single_file filters loads)
  then show ?thesis
    by (simp add: load_try_def Let_def load_layer_def split: option.splits sum.splits bool.splits)
next
  case (Directory g ws)
  obtain r u1 s1 where
    p1: "process_files (llcheckgroup req) (llchecknest req) g ws u st = (r, u1, s1)"
    by (cases "process_files (llcheckgroup req) (llchecknest req) g ws u st")
  obtain r' u1' s1' where
    p2: "process_files (llcheckgroup req) (llchecknest req) g ws u st' = (r', u1', s1')"
    by (cases "process_files (llcheckgroup req) (llchecknest req) g ws u st'")
  from files_obs [of "llcheckgroup req" "llchecknest req" g ws u st st'] p1 p2
  have "r' = r" "u1' = u1" by simp_all
  with Directory p1 p2 show ?thesis
    by (cases r) (simp_all add: load_try_def Let_def split: option.splits)
next
  case Missing
  then show ?thesis by (simp add: load_try_def Let_def split: option.splits)
qed

lemma load_layers_obs:
  "load_propagated (load_layers req u st) = load_propagated (load_layers req u st')
   \<and> load_screen (load_layers req u st) = load_screen (load_layers req u st')
   \<and> loaded_layers (load_layers req u st) = loaded_layers (load_layers req u st')"
proof -
  let ?req = "req\<lparr>source_path := strip (source_path req)\<rparr>"
  obtain raised loaded_count total_files u2 s where
    l1: "load_try ?req (toggle_controls False u) st = ((raised, loaded_count, total_files), u2, s)"
    by (metis prod.exhaust)
  obtain x u2' s' where
    l2: "load_try ?req (toggle_controls False u) st' = (x, u2', s')"
    by (metis prod.exhaust)
  from try_obs [of ?req "toggle_controls False u" st st'] l1 l2
  have "x = (raised, loaded_count, total_files)" "u2' = u2" by simp_all
  with l1 l2 show ?thesis
    by (simp add: load_layers_def Let_def)
qed


lemma compressed_current:
  "current_group (snd (snd (process_compressed_file c env st u))) = current_group st"
  by (simp add: process_compressed_file_def track_def Let_def
           split: option.splits extraction.splits)

lemma nested_current: "current_group (nested_groups ps st) = current_group st"
  by (induction ps st rule: nested_groups.induct) (simp_all add: track_def)

lemma folder_current:
  "current_group (snd (snd (process_folder_files c n fs counts u st))) = current_group st"
proof (induction fs arbitrary: counts u st)
  case Nil
  then show ?case by simp
next
  case (Cons f fs)
  obtain loaded_count total_files where counts: "counts = (loaded_count, total_files)"
    by (cases counts)
  show ?case
  proof (cases f)
    case (Archive_file env)
    obtain r u1 s1 where p1: "process_compressed_file c env st u = (r, u1, s1)"
      by (cases "process_compressed_file c env st u")
    with compressed_current [of c env st u] have "current_group s1 = current_group st"
      by simp
    with Archive_file counts p1 Cons.IH show ?thesis
      by (cases n; cases r) simp_all
  next
    case (Plain_file path filters loads)
    show ?thesis
    proof (cases filters)
      case (Inl e)
      with Plain_file counts show ?thesis by simp
    next
      case (Inr pass)
      with Plain_file counts Cons.IH show ?thesis
        by (cases pass) (simp_all add: load_layer_def)
    qed
  qed
qed

lemma walk_current:
  "current_group (snd (snd (process_walk c n ws counts u st))) = current_group st"
proof (induction ws arbitrary: counts u st)
  case Nil
  then show ?case by simp
next
  case (Cons w ws)
  let ?s1 = "if c \<and> \<not> root_is_directory w then nested_groups (parts w) st else st"
  obtain r u1 s2 where p1: "process_folder_files c n (files w) counts u ?s1 = (r, u1, s2)"
    by (cases "process_folder_files c n (files w) counts u ?s1")
  with folder_current [of c n "files w" counts u ?s1]
  have "current_group s2 = current_group st" by (simp add: nested_current)
  with p1 Cons.IH show ?case
    by (cases n; cases r) (simp_all add: Let_def)
qed

lemma try_current:
  "current_group (snd (snd (load_try req u st))) = current_group st"
proof (cases "source req")
  case (Archive env)
  obtain r u1 s1 where p1: "process_compressed_file (llcheckgroup req) env st u = (r, u1, s1)"
    by (cases "process_compressed_file (llcheckgroup req) env st u")
  with compressed_current [of "llcheckgroup req" env st u]
  have "current_group s1 = current_group st" by simp
  with Archive p1 show ?thesis
    by (cases r) (simp_all add: load_try_def Let_def split: option.splits)
next
  case (Single_file filters loads)
  then show ?thesis
    by (simp add: load_try_def Let_def load_layer_def split: option.splits sum.splits bool.splits)
next
  case (Directory g ws)
  let ?s1 = "snd (create_layer_group (llcheckgroup req) g st)"
  have c: "current_group ?s1 = current_group st"
    by (simp add: create_layer_group_def track_def split: group_lookup.splits)
  obtain r u1 s2 where
    p1: "process_walk (llcheckgroup req) (llchecknest req) ws (0, 0) u ?s1 = (r, u1, s2)"
    by (cases "process_walk (llcheckgroup req) (llchecknest req) ws (0, 0) u ?s1")
  with walk_current [of "llcheckgroup req" "llchecknest req" ws "(0, 0)" u ?s1] c
  have "current_group s2 = current_group st" by simp
  with Directory p1 show ?thesis
    by (cases r)
       (simp_all add: load_try_def process_files_def Let_def case_prod_beta
          split: option.splits)
next
  case Missing
  then show ?thesis by (simp add: load_try_def Let_def split: option.splits)
qed

lemma load_layers_current:
  "current_group (own_state (load_layers req u st)) = current_group st"
  using try_current [of "req\<lparr>source_path := strip (source_path req)\<rparr>"
      "toggle_controls False u" st]
  by (simp add: load_layers_def Let_def case_prod_beta)

lemma format_flag:
  "crs_forced_by_csv (snd (update_ui_for_format w own)) = (bcoutputformat w = ''CSV'')"
  by (simp add: update_ui_for_format_def Let_def)

lemma format_checkbox:
  "bctransformcrs_checked (fst (update_ui_for_format w own))
     = (bcoutputformat w \<noteq> ''CSV'' \<and> (crs_forced_by_csv own \<or> bctransformcrs_checked w))"
  by (auto simp: update_ui_for_format_def Let_def bctransformcrs_setChecked_def
        bcsinglefile_setChecked_def singlefile_toggled_def toggle_crs_widget_def)

lemma format_crs_widget:
  "bcoutputcrs_enabled (fst (update_ui_for_format w own))
     = (bcoutputformat w \<noteq> ''CSV'' \<and> (crs_forced_by_csv own \<or> bctransformcrs_checked w))"
  by (auto simp: update_ui_for_format_def Let_def bctransformcrs_setChecked_def
        bcsinglefile_setChecked_def singlefile_toggled_def toggle_crs_widget_def)

lemma format_example:
  "bctransformcrs_checked (fst (change_format ''GeoJSON'' (geojson_widgets, new_converter))) = False"
  "bctransformcrs_checked
     (fst (change_format ''GeoJSON'' (change_format ''CSV'' (geojson_widgets, new_converter))))
     = True"
  "fst (change_format ''CSV'' (geojson_widgets, new_converter))
     = geojson_widgets\<lparr>bcoutputformat := ''CSV'', bcdelimiter_enabled := True,
         bcdelimiterlabel_enabled := True, bcdelimiter_visible := True,
         bcdelimiterlabel_visible := True, bctransformcrs_enabled := False\<rparr>"
  by (simp_all add: change_format_def update_ui_for_format_def Let_def
        bctransformcrs_setChecked_def bcsinglefile_setChecked_def singlefile_toggled_def
        toggle_crs_widget_def geojson_widgets_def new_converter_def)

text \<open>
  Claim C7, as stated, fails for the layer loader: after loading a folder for which a group
  is created, \<open>created_groups\<close> still holds that group when the handler has returned.
\<close>

theorem C7_counterexample:
  "created_groups (own_state (load_layers empty_directory_request enabled_screen new_loader))
     = {7}"
  by (simp add: load_layers_def empty_directory_request_def enabled_screen_def new_loader_def
        load_try_def process_files_def create_layer_group_def track_def Let_def strip_def
        is_space_def toggle_controls_def message_box_def)

text \<open>
  Claim C7, amended.  Two tools keep state of their own from one user action to the next.
  What the layer loader keeps of an operation is confined to \<open>created_groups\<close>, and
  nothing reads it: for one request and one screen, the exception that leaves
  \<open>load_layers\<close>, the dialogs and controls it leaves behind and the number of loaded
  layers are the same whatever the loader's state was before, and \<open>current_group\<close> is
  left as it was.  The batch converter keeps the flag \<open>_crs_forced_by_csv\<close>: a change
  of the output format leaves it set exactly when the new format is CSV, and the next
  change of format reads it: afterwards the reprojection checkbox is ticked exactly when
  the new format is not CSV and the flag was set or the box was ticked already.
\<close>

theorem C7_retained_state_unread:
  "load_propagated (load_layers req u st) = load_propagated (load_layers req u st')
   \<and> load_screen (load_layers req u st) = load_screen (load_layers req u st')
   \<and> loaded_layers (load_layers req u st) = loaded_layers (load_layers req u st')
   \<and> current_group (own_state (load_layers req u st)) = current_group st
   \<and> crs_forced_by_csv (snd (update_ui_for_format w own)) = (bcoutputformat w = ''CSV'')
   \<and> bctransformcrs_checked (fst (update_ui_for_format w own))
       = (bcoutputformat w \<noteq> ''CSV'' \<and> (crs_forced_by_csv own \<or> bctransformcrs_checked w))"
  using load_layers_obs [of req u st st'] load_layers_current [of req u st]
    format_flag [of w own] format_checkbox [of w own]
  by simp

theorem C7_retained_state_unread_witness:
  "own_state (load_layers empty_directory_request enabled_screen new_loader) \<noteq> new_loader
   \<and> load_screen (load_layers empty_directory_request enabled_screen
        (own_state (load_layers empty_directory_request enabled_screen new_loader)))
     = load_screen (load_layers empty_directory_request enabled_screen new_loader)
   \<and> loaded_layers (load_layers empty_directory_request enabled_screen
        (own_state (load_layers empty_directory_request enabled_screen new_loader)))
     = loaded_layers (load_layers empty_directory_request enabled_screen new_loader)
   \<and> \<not> bctransformcrs_checked
           (fst (change_format ''GeoJSON'' (geojson_widgets, new_converter)))
   \<and> crs_forced_by_csv (snd (change_format ''CSV'' (geojson_widgets, new_converter)))
   \<and> bctransformcrs_checked
         (fst (change_format ''GeoJSON''
                 (change_format ''CSV'' (geojson_widgets, new_converter))))"
proof -
  have "created_groups (own_state (load_layers empty_directory_request enabled_screen
          new_loader)) = {7}"
    by (simp add: load_layers_def empty_directory_request_def enabled_screen_def new_loader_def
        load_try_def process_files_def create_layer_group_def track_def Let_def strip_def
        is_space_def toggle_controls_def message_box_def)
  then have changed: "own_state (load_layers empty_directory_request enabled_screen new_loader)
               \<noteq> new_loader"
    by (auto simp: new_loader_def)
  note c7 = C7_retained_state_unread [of empty_directory_request enabled_screen
      "own_state (load_layers empty_directory_request enabled_screen new_loader)" new_loader]
  have fmt: "\<not> bctransformcrs_checked geojson_widgets" "\<not> crs_forced_by_csv new_converter"
    by (simp_all add: geojson_widgets_def new_converter_def)
  from c7 [of "geojson_widgets\<lparr>bcoutputformat := ''GeoJSON''\<rparr>" new_converter] fmt
  have a: "\<not> bctransformcrs_checked
             (fst (change_format ''GeoJSON'' (geojson_widgets, new_converter)))"
    by (simp add: change_format_def)
  from c7 [of "geojson_widgets\<lparr>bcoutputformat := ''CSV''\<rparr>" new_converter]
  have b: "crs_forced_by_csv (snd (change_format ''CSV'' (geojson_widgets, new_converter)))"
    by (simp add: change_format_def)
  from c7 [of "(fst (change_format ''CSV'' (geojson_widgets, new_converter)))
                 \<lparr>bcoutputformat := ''GeoJSON''\<rparr>"
              "snd (change_format ''CSV'' (geojson_widgets, new_converter))"] b
  have c: "bctransformcrs_checked
         (fst (change_format ''GeoJSON''
                 (change_format ''CSV'' (geojson_widgets, new_converter))))"
    by (simp add: change_format_def [of "''GeoJSON''"])
  from c7 [of geojson_widgets new_converter] changed a b c show ?thesis by simp
qed
end
